theory Spec2Isabelle
  imports Complex_Main
begin

section \<open>Exceptions and outcomes\<close>

text \<open>
  The Python exceptions the two modules can raise. Python objects are mutated in place,
  so an exception leaves behind the state reached when it was raised: an outcome is
  either \<open>Ok s\<close> (normal return, final state \<open>s\<close>) or \<open>Raise e s\<close> (exception
  \<open>e\<close>, with \<open>s\<close> the state at the raise). Expressions that only read return
  \<open>error + 'a\<close>. The camera computes with the Python numbers of the next section;
  in the pipeline Python floats are idealised as real numbers.
\<close>

datatype error =
    ValueError string
  | RuntimeError string
  | IndexError
  | TypeError
  | AttributeError
  | ZeroDivisionError
  | OverflowError

datatype 's outcome = Ok 's | Raise error 's

fun state_of :: "'s outcome \<Rightarrow> 's" where
  "state_of (Ok s) = s"
| "state_of (Raise e s) = s"

fun and_then :: "'s outcome \<Rightarrow> ('s \<Rightarrow> 's outcome) \<Rightarrow> 's outcome" where
  "and_then (Ok s) f = f s"
| "and_then (Raise e s) f = Raise e s"

text \<open>A \<open>for i in ...\<close> loop whose body may raise: the first exception ends the loop.\<close>

fun for_each :: "'i list \<Rightarrow> ('i \<Rightarrow> 's \<Rightarrow> 's outcome) \<Rightarrow> 's \<Rightarrow> 's outcome" where
  "for_each [] body s = Ok s"
| "for_each (i # rest) body s = and_then (body i s) (for_each rest body)"

section \<open>Python numbers\<close>

subsection \<open>The arithmetic the camera uses\<close>

text \<open>
  The camera computes with Python numbers, ints and floats. Float arithmetic rounds, so
  the laws of the real numbers do not hold of it, and an operation can raise:
  \<open>ZeroDivisionError\<close>, or \<open>OverflowError\<close> for an int too large for a float. The
  camera is therefore defined over an arbitrary type \<open>'n\<close> of numbers and a record of
  the operations its code performs on them, of which nothing is assumed:
  \<open>py_int i\<close> is the Python int \<open>i\<close>, \<open>py_half\<close> the literal \<open>0.5\<close>, \<open>py_truediv\<close>,
  \<open>py_mul\<close> and \<open>py_sub\<close> are \<open>/\<close>, \<open>*\<close> and \<open>-\<close>, \<open>py_le_zero a\<close> is \<open>a <= 0\<close>, and
  \<open>c_add\<close> is the addition of two C doubles inside \<open>raysect.core\<close>.
\<close>

record 'n arithmetic =
  py_int :: "int \<Rightarrow> 'n"
  py_half :: 'n
  py_truediv :: "'n \<Rightarrow> 'n \<Rightarrow> error + 'n"
  py_mul :: "'n \<Rightarrow> 'n \<Rightarrow> error + 'n"
  py_sub :: "'n \<Rightarrow> 'n \<Rightarrow> error + 'n"
  py_le_zero :: "'n \<Rightarrow> bool"
  c_add :: "'n \<Rightarrow> 'n \<Rightarrow> 'n"

subsection \<open>The arithmetic of CPython\<close>

text \<open>
  The numbers of CPython: an int of any size, or a float, which is an IEEE 754 binary64
  value: \<open>PyFloat x\<close> is the finite float of value \<open>x\<close> (the two zeros are not told
  apart), \<open>PyInf negative\<close> is an infinity and \<open>PyNaN\<close> is not-a-number.
\<close>

datatype pynum = PyInt int | PyFloat real | PyInf bool | PyNaN

definition pow2 :: "int \<Rightarrow> real" where
  "pow2 e = (if 0 \<le> e then 2 ^ nat e else 1 / 2 ^ nat (- e))"

text \<open>
  The binary exponent of a positive real \<open>a\<close>, searched from \<open>e\<close>: the \<open>k\<close> with
  \<open>2^k \<le> a < 2^(k+1)\<close>, kept within the exponent range of binary64 (-1022 for the
  subnormal numbers). The first argument bounds the number of steps.
\<close>

fun exponent :: "nat \<Rightarrow> int \<Rightarrow> real \<Rightarrow> int" where
  "exponent 0 e a = e"
| "exponent (Suc n) e a =
     (if a < pow2 e \<and> - 1022 < e then exponent n (e - 1) a
      else if pow2 (e + 1) \<le> a \<and> e < 1023 then exponent n (e + 1) a
      else e)"

definition round_half_even :: "real \<Rightarrow> int" where
  "round_half_even y =
     (let f = \<lfloor>y\<rfloor>; r = y - of_int f
      in if r < 1 / 2 then f else if 1 / 2 < r then f + 1 else if even f then f else f + 1)"

text \<open>
  Rounding of a real to binary64, to nearest with ties to even: 53 significant bits,
  and an infinity from \<open>2^1024\<close> on.
\<close>

definition binary64 :: "real \<Rightarrow> pynum" where
  "binary64 x =
     (if x = 0 then PyFloat 0
      else if pow2 1024 \<le> \<bar>x\<bar> then PyInf (x < 0)
      else
        let e = exponent 2100 0 \<bar>x\<bar>;
            ulp = pow2 (e - 52);
            r = of_int (round_half_even (\<bar>x\<bar> / ulp)) * ulp
        in if pow2 1024 \<le> r then PyInf (x < 0) else PyFloat (if x < 0 then - r else r))"

text \<open>The conversion of an operand to float: an int too large raises.\<close>

fun to_float :: "pynum \<Rightarrow> error + pynum" where
  "to_float (PyInt i) = (case binary64 (of_int i) of PyInf n \<Rightarrow> Inl OverflowError | x \<Rightarrow> Inr x)"
| "to_float x = Inr x"

fun float_mul :: "pynum \<Rightarrow> pynum \<Rightarrow> pynum" where
  "float_mul (PyFloat x) (PyFloat y) = binary64 (x * y)"
| "float_mul (PyFloat x) (PyInf n) = (if x = 0 then PyNaN else PyInf (n \<noteq> (x < 0)))"
| "float_mul (PyInf n) (PyFloat y) = (if y = 0 then PyNaN else PyInf (n \<noteq> (y < 0)))"
| "float_mul (PyInf n) (PyInf m) = PyInf (n \<noteq> m)"
| "float_mul x y = PyNaN"

fun float_add :: "pynum \<Rightarrow> pynum \<Rightarrow> pynum" where
  "float_add (PyFloat x) (PyFloat y) = binary64 (x + y)"
| "float_add (PyFloat x) (PyInf n) = PyInf n"
| "float_add (PyInf n) (PyFloat y) = PyInf n"
| "float_add (PyInf n) (PyInf m) = (if n = m then PyInf n else PyNaN)"
| "float_add x y = PyNaN"

fun float_neg :: "pynum \<Rightarrow> pynum" where
  "float_neg (PyFloat x) = PyFloat (- x)"
| "float_neg (PyInf n) = PyInf (\<not> n)"
| "float_neg x = x"

definition float_sub :: "pynum \<Rightarrow> pynum \<Rightarrow> pynum" where
  "float_sub x y = float_add x (float_neg y)"

fun float_div :: "pynum \<Rightarrow> pynum \<Rightarrow> error + pynum" where
  "float_div (PyFloat x) (PyFloat y) = (if y = 0 then Inl ZeroDivisionError else Inr (binary64 (x / y)))"
| "float_div (PyInf n) (PyFloat y) = (if y = 0 then Inl ZeroDivisionError else Inr (PyInf (n \<noteq> (y < 0))))"
| "float_div x (PyFloat y) = (if y = 0 then Inl ZeroDivisionError else Inr PyNaN)"
| "float_div (PyFloat x) (PyInf m) = Inr (PyFloat 0)"
| "float_div x y = Inr PyNaN"

text \<open>
  The operators. Between two ints \<open>*\<close> and \<open>-\<close> are exact and \<open>/\<close> is the correctly
  rounded quotient, raising when it is too large for a float; otherwise both operands
  are converted to float.
\<close>

definition with_floats :: "(pynum \<Rightarrow> pynum \<Rightarrow> error + pynum) \<Rightarrow> pynum \<Rightarrow> pynum \<Rightarrow> error + pynum" where
  "with_floats f a b =
     (case to_float a of
        Inl e \<Rightarrow> Inl e
      | Inr x \<Rightarrow> (case to_float b of Inl e \<Rightarrow> Inl e | Inr y \<Rightarrow> f x y))"

fun python_truediv :: "pynum \<Rightarrow> pynum \<Rightarrow> error + pynum" where
  "python_truediv (PyInt i) (PyInt j) =
     (if j = 0 then Inl ZeroDivisionError
      else (case binary64 (of_int i / of_int j) of PyInf n \<Rightarrow> Inl OverflowError | x \<Rightarrow> Inr x))"
| "python_truediv a b = with_floats float_div a b"

fun python_mul :: "pynum \<Rightarrow> pynum \<Rightarrow> error + pynum" where
  "python_mul (PyInt i) (PyInt j) = Inr (PyInt (i * j))"
| "python_mul a b = with_floats (\<lambda>x y. Inr (float_mul x y)) a b"

fun python_sub :: "pynum \<Rightarrow> pynum \<Rightarrow> error + pynum" where
  "python_sub (PyInt i) (PyInt j) = Inr (PyInt (i - j))"
| "python_sub a b = with_floats (\<lambda>x y. Inr (float_sub x y)) a b"

fun python_le_zero :: "pynum \<Rightarrow> bool" where
  "python_le_zero (PyInt i) = (i \<le> 0)"
| "python_le_zero (PyFloat x) = (x \<le> 0)"
| "python_le_zero (PyInf n) = n"
| "python_le_zero PyNaN = False"

text \<open>
  \<open>raysect.core\<close> computes with C doubles: a Python number handed to it is converted
  to a double (of the camera's arguments only the literal \<open>0\<close> of \<open>translate\<close> is an int)
  and two doubles are added as floats are.
\<close>

fun is_float :: "pynum \<Rightarrow> bool" where
  "is_float (PyInt i) = False"
| "is_float x = True"

fun as_double :: "pynum \<Rightarrow> pynum" where
  "as_double (PyInt i) = binary64 (of_int i)"
| "as_double x = x"

definition double_add :: "pynum \<Rightarrow> pynum \<Rightarrow> pynum" where
  "double_add a b = float_add (as_double a) (as_double b)"

definition python_arithmetic :: "pynum arithmetic" where
  "python_arithmetic = \<lparr>py_int = PyInt, py_half = PyFloat (1 / 2), py_truediv = python_truediv,
     py_mul = python_mul, py_sub = python_sub, py_le_zero = python_le_zero, c_add = double_add\<rparr>"

section \<open>The orthographic camera (orthographic.py)\<close>

subsection \<open>Collaborators from raysect.core and the generators\<close>

datatype 'n point3d = Point3D 'n 'n 'n

datatype 'n vector3d = Vector3D 'n 'n 'n

text \<open>
  Modelled from the spec: \<open>raysect.core.translate\<close> and the \<open>transform\<close> methods of
  points and vectors are not among the source files. The spec says each (origin,
  direction) pair is moved from pixel-local space into camera space by the pixel
  translation: a translation shifts a point and leaves a direction vector as it is.
\<close>

datatype 'n affine = Translation 'n 'n 'n

definition translate :: "'n \<Rightarrow> 'n \<Rightarrow> 'n \<Rightarrow> 'n affine" where
  "translate x y z = Translation x y z"

fun transform_point :: "'n arithmetic \<Rightarrow> 'n point3d \<Rightarrow> 'n affine \<Rightarrow> 'n point3d" where
  "transform_point ar (Point3D x y z) (Translation dx dy dz) =
     Point3D (c_add ar x dx) (c_add ar y dy) (c_add ar z dz)"

fun transform_vector :: "'n vector3d \<Rightarrow> 'n affine \<Rightarrow> 'n vector3d" where
  "transform_vector v (Translation dx dy dz) = v"

text \<open>
  Modelled from the spec: a ray carries an origin, a direction and the parameters of
  its template (wavelength range, depth limits), here the field \<open>params\<close>;
  \<open>ray_template.copy(origin, direction)\<close> builds a new ray with the template's
  parameters and the given origin and direction.
\<close>

record ('n, 'a) ray =
  origin :: "'n point3d"
  direction :: "'n vector3d"
  params :: 'a

definition ray_copy :: "('n, 'a) ray \<Rightarrow> 'n point3d \<Rightarrow> 'n vector3d \<Rightarrow> ('n, 'a) ray" where
  "ray_copy ray_template orig dir = \<lparr>origin = orig, direction = dir, params = params ray_template\<rparr>"

text \<open>
  The generator objects the camera stores. \<open>Rectangle(w, h)\<close> keeps the extents it was
  constructed with; calling a generator with a count is the work of the external
  sampling code, taken as the parameters \<open>rectangle_call\<close> (extents and count to a
  list of points, standing for the outcome of this call of the random sampler) and
  \<open>single_ray_call\<close> (count to a list of vectors). Either call may raise.
\<close>

datatype 'n point_generator = Rectangle 'n 'n

datatype vector_generator = SingleRay

type_synonym 'n rectangle_sampler = "'n \<Rightarrow> 'n \<Rightarrow> int \<Rightarrow> error + 'n point3d list"

type_synonym 'n single_ray_sampler = "int \<Rightarrow> error + 'n vector3d list"

fun call_point_generator ::
  "'n rectangle_sampler \<Rightarrow> 'n point_generator \<Rightarrow> int \<Rightarrow> error + 'n point3d list" where
  "call_point_generator rectangle_call (Rectangle w h) n = rectangle_call w h n"

fun call_vector_generator ::
  "'n single_ray_sampler \<Rightarrow> vector_generator \<Rightarrow> int \<Rightarrow> error + 'n vector3d list" where
  "call_vector_generator single_ray_call SingleRay n = single_ray_call n"

subsection \<open>The camera object\<close>

text \<open>
  The attributes \<open>_generate_rays\<close> and the setters read or write. \<open>pixels\<close> and
  \<open>pixel_samples\<close> belong to the base class \<open>Camera\<close>, which is not among the
  source files; pixel dimensions are natural numbers, the sample count a Python int.
  The width is the number the caller passed, an int or a float.
\<close>

record 'n camera =
  pixels :: "nat \<times> nat"
  pixel_samples :: int
  sub_sample :: bool
  width :: 'n
  image_delta :: 'n
  image_start_x :: 'n
  image_start_y :: 'n
  point_gen :: "'n point_generator"
  vector_gen :: vector_generator

text \<open>The expression \<open>0.5 * self._pixels[i] * self.image_delta\<close>: two multiplications.\<close>

definition half_extent :: "'n arithmetic \<Rightarrow> nat \<Rightarrow> 'n \<Rightarrow> error + 'n" where
  "half_extent ar n delta =
     (case py_mul ar (py_half ar) (py_int ar (int n)) of
        Inl e \<Rightarrow> Inl e
      | Inr h \<Rightarrow> py_mul ar h delta)"

text \<open>
  \<open>_update_image_geometry\<close>: three assignments, one after the other. An operation
  that raises ends the method with the assignments made so far in place.
\<close>

definition update_image_geometry :: "'n arithmetic \<Rightarrow> 'n camera \<Rightarrow> 'n camera outcome" where
  "update_image_geometry ar self =
     (case py_truediv ar (width self) (py_int ar (int (fst (pixels self)))) of
        Inl e \<Rightarrow> Raise e self
      | Inr delta \<Rightarrow>
          let self1 = self\<lparr>image_delta := delta\<rparr> in
          (case half_extent ar (fst (pixels self1)) (image_delta self1) of
             Inl e \<Rightarrow> Raise e self1
           | Inr start_x \<Rightarrow>
               let self2 = self1\<lparr>image_start_x := start_x\<rparr> in
               (case half_extent ar (snd (pixels self2)) (image_delta self2) of
                  Inl e \<Rightarrow> Raise e self2
                | Inr start_y \<Rightarrow> Ok (self2\<lparr>image_start_y := start_y\<rparr>))))"

text \<open>
  The \<open>width\<close> setter: the check, the assignment of \<open>_width\<close>, then the geometry.
\<close>

definition width_setter :: "'n arithmetic \<Rightarrow> 'n camera \<Rightarrow> 'n \<Rightarrow> 'n camera outcome" where
  "width_setter ar self w =
     (if py_le_zero ar w then Raise (ValueError ''width can not be less than or equal to 0 meters.'') self
      else update_image_geometry ar (self\<lparr>width := w\<rparr>))"

text \<open>
  The \<open>pixels\<close> setter calls the base class setter, which is not among the source
  files and is the parameter \<open>base_fset\<close>, then recomputes the geometry.
\<close>

definition pixels_setter ::
  "'n arithmetic \<Rightarrow> ('n camera \<Rightarrow> nat \<times> nat \<Rightarrow> 'n camera outcome) \<Rightarrow> 'n camera \<Rightarrow> nat \<times> nat \<Rightarrow>
     'n camera outcome" where
  "pixels_setter ar base_fset self p = and_then (base_fset self p) (update_image_geometry ar)"

text \<open>
  \<open>__init__\<close> after \<open>super().__init__(...)\<close>: \<open>self0\<close> is the object the base class
  constructor leaves (it holds \<open>pixels\<close> and \<open>pixel_samples\<close>; the attributes assigned
  below do not exist yet in Python, and none of them is read before it is assigned).
\<close>

definition OrthographicCamera_init :: "'n arithmetic \<Rightarrow> 'n camera \<Rightarrow> 'n \<Rightarrow> bool \<Rightarrow> 'n camera outcome" where
  "OrthographicCamera_init ar self0 w sub =
     and_then (width_setter ar (self0\<lparr>sub_sample := sub\<rparr>) w) (\<lambda>self1.
     and_then (update_image_geometry ar self1) (\<lambda>self2.
       Ok (self2\<lparr>point_gen := Rectangle (image_delta self2) (image_delta self2),
                vector_gen := SingleRay\<rparr>)))"

text \<open>The expression \<open>self.image_start_x - self.image_delta * ix\<close>.\<close>

definition pixel_offset :: "'n arithmetic \<Rightarrow> 'n \<Rightarrow> 'n \<Rightarrow> int \<Rightarrow> error + 'n" where
  "pixel_offset ar start delta i =
     (case py_mul ar delta (py_int ar i) of
        Inl e \<Rightarrow> Inl e
      | Inr d \<Rightarrow> py_sub ar start d)"

text \<open>
  \<open>_generate_rays\<close>. The method has no check and no \<open>raise\<close> of its own; it raises
  what its arithmetic or a generator raises. The two offsets are computed first, then
  the generators are called. \<open>zip\<close> stops at the shorter of the two sequences.
\<close>

definition generate_rays ::
  "'n arithmetic \<Rightarrow> 'n rectangle_sampler \<Rightarrow> 'n single_ray_sampler \<Rightarrow> 'n camera \<Rightarrow> int \<Rightarrow> int \<Rightarrow>
     ('n, 'a) ray \<Rightarrow> error + ('n, 'a) ray list" where
  "generate_rays ar rectangle_call single_ray_call self ix iy ray_template =
     (case pixel_offset ar (image_start_x self) (image_delta self) ix of
        Inl e \<Rightarrow> Inl e
      | Inr pixel_x \<Rightarrow>
     (case pixel_offset ar (image_start_y self) (image_delta self) iy of
        Inl e \<Rightarrow> Inl e
      | Inr pixel_y \<Rightarrow>
     let to_local = translate pixel_x pixel_y (py_int ar 0) in
     (case call_point_generator rectangle_call (point_gen self) (pixel_samples self) of
        Inl e \<Rightarrow> Inl e
      | Inr origin_points \<Rightarrow>
     (case call_vector_generator single_ray_call (vector_gen self) (pixel_samples self) of
        Inl e \<Rightarrow> Inl e
      | Inr direction_vectors \<Rightarrow>
          Inr (map (\<lambda>(orig, dir).
                 ray_copy ray_template (transform_point ar orig to_local) (transform_vector dir to_local))
               (zip origin_points direction_vectors))))))"

text \<open>
  The derived geometry of a camera agrees with its width and pixel dimensions: each
  derived attribute holds what its defining expression computes from the stored ones.
\<close>

definition geometry_consistent :: "'n arithmetic \<Rightarrow> 'n camera \<Rightarrow> bool" where
  "geometry_consistent ar self \<longleftrightarrow>
     py_truediv ar (width self) (py_int ar (int (fst (pixels self)))) = Inr (image_delta self) \<and>
     half_extent ar (fst (pixels self)) (image_delta self) = Inr (image_start_x self) \<and>
     half_extent ar (snd (pixels self)) (image_delta self) = Inr (image_start_y self)"

text \<open>Concrete collaborators and objects used to run the definitions.\<close>

definition corner_sampler :: "pynum rectangle_sampler" where
  "corner_sampler w h n =
     Inr (replicate (nat n) (Point3D (float_mul (PyFloat (1 / 2)) w) (float_mul (PyFloat (1 / 2)) h) (PyFloat 0)))"

definition axis_sampler :: "pynum single_ray_sampler" where
  "axis_sampler n = Inr (replicate (nat n) (Vector3D (PyFloat 0) (PyFloat 0) (PyFloat 1)))"

definition base_camera :: "pynum camera" where
  "base_camera = \<lparr>pixels = (2, 2), pixel_samples = 2, sub_sample = False, width = PyInt 0,
     image_delta = PyInt 0, image_start_x = PyInt 0, image_start_y = PyInt 0,
     point_gen = Rectangle (PyInt 0) (PyInt 0), vector_gen = SingleRay\<rparr>"

definition store_pixels :: "pynum camera \<Rightarrow> nat \<times> nat \<Rightarrow> pynum camera outcome" where
  "store_pixels self p = Ok (self\<lparr>pixels := p\<rparr>)"

definition unit_camera :: "pynum camera" where
  "unit_camera = \<lparr>pixels = (2, 2), pixel_samples = 2, sub_sample = True, width = PyInt 1,
     image_delta = PyFloat (1 / 2), image_start_x = PyFloat (1 / 2), image_start_y = PyFloat (1 / 2),
     point_gen = Rectangle (PyFloat (1 / 2)) (PyFloat (1 / 2)), vector_gen = SingleRay\<rparr>"

definition ten_camera :: "pynum camera" where
  "ten_camera = \<lparr>pixels = (10, 10), pixel_samples = 2, sub_sample = True, width = PyInt 1,
     image_delta = PyFloat (3602879701896397 / 2 ^ 55), image_start_x = PyFloat (1 / 2),
     image_start_y = PyFloat (1 / 2),
     point_gen = Rectangle (PyFloat (3602879701896397 / 2 ^ 55)) (PyFloat (3602879701896397 / 2 ^ 55)),
     vector_gen = SingleRay\<rparr>"

definition template_ray :: "(pynum, unit) ray" where
  "template_ray = \<lparr>origin = Point3D (PyFloat 0) (PyFloat 0) (PyFloat 0),
     direction = Vector3D (PyFloat 0) (PyFloat 0) (PyFloat 1), params = ()\<rparr>"

section \<open>The RGB pipeline (pipeline2d.py)\<close>

subsection \<open>numpy arrays\<close>

text \<open>
  A three-dimensional numpy array: its shape and its items. Items are read and written
  through \<open>getitem\<close> and \<open>setitem\<close>, which check each index against the shape as
  numpy does: an index \<open>i\<close> with \<open>-n \<le> i < 0\<close> counts from the end, any other index
  outside \<open>[0, n)\<close> raises \<open>IndexError\<close>.
\<close>

record 'a ndarray =
  shape :: "nat \<times> nat \<times> nat"
  item :: "nat \<Rightarrow> nat \<Rightarrow> nat \<Rightarrow> 'a"

definition np_zeros :: "nat \<times> nat \<times> nat \<Rightarrow> 'a::zero ndarray" where
  "np_zeros sh = \<lparr>shape = sh, item = (\<lambda>i j c. 0)\<rparr>"

definition np_index :: "nat \<Rightarrow> int \<Rightarrow> nat option" where
  "np_index n i =
     (if 0 \<le> i \<and> i < int n then Some (nat i)
      else if - int n \<le> i \<and> i < 0 then Some (nat (i + int n))
      else None)"

definition locate :: "'a ndarray \<Rightarrow> int \<Rightarrow> int \<Rightarrow> int \<Rightarrow> (nat \<times> nat \<times> nat) option" where
  "locate a x y c =
     (case shape a of (nx, ny, nc) \<Rightarrow>
        (case np_index nx x of None \<Rightarrow> None | Some i \<Rightarrow>
        (case np_index ny y of None \<Rightarrow> None | Some j \<Rightarrow>
        (case np_index nc c of None \<Rightarrow> None | Some k \<Rightarrow> Some (i, j, k)))))"

definition getitem :: "'a ndarray \<Rightarrow> int \<Rightarrow> int \<Rightarrow> int \<Rightarrow> error + 'a" where
  "getitem a x y c =
     (case locate a x y c of None \<Rightarrow> Inl IndexError | Some (i, j, k) \<Rightarrow> Inr (item a i j k))"

definition setitem :: "'a ndarray \<Rightarrow> int \<Rightarrow> int \<Rightarrow> int \<Rightarrow> 'a \<Rightarrow> error + 'a ndarray" where
  "setitem a x y c v =
     (case locate a x y c of None \<Rightarrow> Inl IndexError
      | Some (i, j, k) \<Rightarrow>
          Inr (a\<lparr>item := (\<lambda>i' j' k'. if i' = i \<and> j' = j \<and> k' = k then v else item a i' j' k')\<rparr>))"

text \<open>\<open>np.transpose(a, (1, 0, 2))\<close>: the first two axes change places.\<close>

definition np_transpose_102 :: "'a ndarray \<Rightarrow> 'a ndarray" where
  "np_transpose_102 a =
     (case shape a of (nx, ny, nc) \<Rightarrow> \<lparr>shape = (ny, nx, nc), item = (\<lambda>j i c. item a i j c)\<rparr>)"

subsection \<open>The frame of statistics\<close>

text \<open>
  Modelled from the spec: the class \<open>Frame2D\<close> (raysect/optical/observer/frame.py) is
  not among the source files. The spec describes the Frame Buffer as one statistic
  (mean, variance, sample count) per pixel and channel, zero when the frame is
  allocated, and \<open>combine_samples\<close> as the two-group merge: the pooled mean weighted by
  the counts, the pooled variance from the dispersion within the groups and between
  them, the counts added. Fewer than two samples are no error; a group with no sample
  leaves the other group's statistic as it is.
\<close>

record frame2d =
  frame_pixels :: "nat \<times> nat"
  frame_mean :: "real ndarray"
  frame_variance :: "real ndarray"
  frame_samples :: "int ndarray"

definition Frame2D :: "nat \<times> nat \<Rightarrow> nat \<Rightarrow> frame2d" where
  "Frame2D p channels =
     \<lparr>frame_pixels = p,
      frame_mean = np_zeros (fst p, snd p, channels),
      frame_variance = np_zeros (fst p, snd p, channels),
      frame_samples = np_zeros (fst p, snd p, channels)\<rparr>"

type_synonym statistic = "real \<times> real \<times> int"

definition pooled_merge :: "statistic \<Rightarrow> statistic \<Rightarrow> statistic" where
  "pooled_merge old new =
     (case old of (mx, vx, nx) \<Rightarrow> case new of (my, vy, ny) \<Rightarrow>
        if ny \<le> 0 then (mx, vx, nx)
        else if nx \<le> 0 then (my, vy, ny)
        else
          let nt = nx + ny;
              mt = (real_of_int nx * mx + real_of_int ny * my) / real_of_int nt;
              within_groups = real_of_int (nx - 1) * vx + real_of_int (ny - 1) * vy;
              between_groups = real_of_int nx * (mx - mt) ^ 2 + real_of_int ny * (my - mt) ^ 2
          in (mt, (within_groups + between_groups) / real_of_int (nt - 1), nt))"

definition statistic_at :: "frame2d \<Rightarrow> nat \<Rightarrow> nat \<Rightarrow> nat \<Rightarrow> statistic" where
  "statistic_at f i j k = (item (frame_mean f) i j k, item (frame_variance f) i j k, item (frame_samples f) i j k)"

definition combine_samples ::
  "frame2d \<Rightarrow> int \<Rightarrow> int \<Rightarrow> int \<Rightarrow> real \<Rightarrow> real \<Rightarrow> int \<Rightarrow> error + frame2d" where
  "combine_samples f x y c m v n =
     (case getitem (frame_mean f) x y c of Inl e \<Rightarrow> Inl e | Inr mx \<Rightarrow>
     (case getitem (frame_variance f) x y c of Inl e \<Rightarrow> Inl e | Inr vx \<Rightarrow>
     (case getitem (frame_samples f) x y c of Inl e \<Rightarrow> Inl e | Inr nx \<Rightarrow>
     (case pooled_merge (mx, vx, nx) (m, v, n) of (mt, vt, nt) \<Rightarrow>
     (case setitem (frame_mean f) x y c mt of Inl e \<Rightarrow> Inl e | Inr ma \<Rightarrow>
     (case setitem (frame_variance f) x y c vt of Inl e \<Rightarrow> Inl e | Inr va \<Rightarrow>
     (case setitem (frame_samples f) x y c nt of Inl e \<Rightarrow> Inl e | Inr na \<Rightarrow>
        Inr (f\<lparr>frame_mean := ma, frame_variance := va, frame_samples := na\<rparr>))))))))"

subsection \<open>The pipeline object and the plotting library\<close>

text \<open>
  The attributes of \<open>RGBPipeline2D\<close>. \<open>None\<close> is Python's \<open>None\<close>. The type \<open>'r\<close> is
  what \<open>resample_ciexyz\<close> returns for one spectral slice.
\<close>

record 'r pipeline =
  sensitivity :: real
  display_progress :: bool
  display_timer :: real
  display_update_time :: real
  accumulate :: bool
  xyz_frame :: "frame2d option"
  rgb_frame :: "real ndarray option"
  working_mean :: "real ndarray option"
  working_variance :: "real ndarray option"
  resampled_xyz :: "'r list option"
  normalisation :: "unit option"
  samples :: int

text \<open>
  What the pipeline hands to matplotlib and to standard output, in order: the image
  shown in figure 1, the frame whose \<open>error\<close> is shown in figure 2 (the \<open>error\<close>
  property belongs to \<open>Frame2D\<close>, so the event keeps the frame it is computed from),
  an image written to a file, a printed line.
\<close>

datatype event =
    Figure1 "real ndarray"
  | Figure2 frame2d
  | Imsave string "real ndarray"
  | Print string

type_synonym 'r world = "'r pipeline \<times> event list"

record spectral_slice =
  min_wavelength :: real
  max_wavelength :: real
  num_samples :: int

type_synonym colour_transform = "real \<Rightarrow> real \<Rightarrow> real \<Rightarrow> real \<times> real \<times> real"

text \<open>\<open>__init__\<close>, and the object built with the default arguments.\<close>

definition RGBPipeline2D :: "real \<Rightarrow> bool \<Rightarrow> real \<Rightarrow> bool \<Rightarrow> 'r pipeline" where
  "RGBPipeline2D sens progress update_time acc =
     \<lparr>sensitivity = sens, display_progress = progress, display_timer = 0,
      display_update_time = update_time, accumulate = acc,
      xyz_frame = None, rgb_frame = None, working_mean = None, working_variance = None,
      resampled_xyz = None, normalisation = None, samples = 0\<rparr>"

definition RGBPipeline2D_default :: "'r pipeline" where
  "RGBPipeline2D_default = RGBPipeline2D 1.0 True 5 False"

subsection \<open>display and save\<close>

definition display :: "'r world \<Rightarrow> 'r world outcome" where
  "display w =
     (case w of (self, plt) \<Rightarrow>
        (case rgb_frame self of
           None \<Rightarrow> Raise (RuntimeError ''No frame data to display.'') (self, plt)
         | Some rgb \<Rightarrow>
             (case xyz_frame self of
                None \<Rightarrow> Raise AttributeError (self, plt @ [Figure1 (np_transpose_102 rgb)])
              | Some f \<Rightarrow> Ok (self, plt @ [Figure1 (np_transpose_102 rgb), Figure2 f]))))"

definition save :: "string \<Rightarrow> 'r world \<Rightarrow> 'r world outcome" where
  "save filename w =
     (case w of (self, plt) \<Rightarrow>
        (case rgb_frame self of
           None \<Rightarrow> Raise (RuntimeError ''No frame data to save.'') (self, plt)
         | Some rgb \<Rightarrow> Ok (self, plt @ [Imsave filename (np_transpose_102 rgb)])))"

subsection \<open>Colour resolution\<close>

text \<open>
  \<open>_generate_srgb_frame\<close>. \<open>ciexyz_to_srgb\<close> (raysect.optical.colour) is the parameter
  \<open>ciexyz_to_srgb\<close>. One pixel: the three means are read, converted, and the three
  channels of the display buffer assigned one after the other.
\<close>

definition frame_mean_at :: "'r pipeline \<Rightarrow> nat \<Rightarrow> nat \<Rightarrow> int \<Rightarrow> error + real" where
  "frame_mean_at self ix iy c =
     (case xyz_frame self of None \<Rightarrow> Inl AttributeError
      | Some f \<Rightarrow> getitem (frame_mean f) (int ix) (int iy) c)"

definition set_rgb :: "nat \<Rightarrow> nat \<Rightarrow> int \<Rightarrow> real \<Rightarrow> 'r pipeline \<Rightarrow> 'r pipeline outcome" where
  "set_rgb ix iy c v self =
     (case rgb_frame self of None \<Rightarrow> Raise TypeError self
      | Some rgb \<Rightarrow>
          (case setitem rgb (int ix) (int iy) c v of Inl e \<Rightarrow> Raise e self
           | Inr rgb' \<Rightarrow> Ok (self\<lparr>rgb_frame := Some rgb'\<rparr>)))"

definition srgb_pixel :: "colour_transform \<Rightarrow> nat \<Rightarrow> nat \<Rightarrow> 'r pipeline \<Rightarrow> 'r pipeline outcome" where
  "srgb_pixel ciexyz_to_srgb ix iy self =
     (case frame_mean_at self ix iy 0 of Inl e \<Rightarrow> Raise e self | Inr X \<Rightarrow>
     (case frame_mean_at self ix iy 1 of Inl e \<Rightarrow> Raise e self | Inr Y \<Rightarrow>
     (case frame_mean_at self ix iy 2 of Inl e \<Rightarrow> Raise e self | Inr Z \<Rightarrow>
     (case ciexyz_to_srgb (X * sensitivity self) (Y * sensitivity self) (Z * sensitivity self) of
        (r, g, b) \<Rightarrow>
          and_then (and_then (set_rgb ix iy 0 r self) (set_rgb ix iy 1 g)) (set_rgb ix iy 2 b)))))"

definition generate_srgb_frame :: "colour_transform \<Rightarrow> 'r pipeline \<Rightarrow> 'r pipeline outcome" where
  "generate_srgb_frame ciexyz_to_srgb self =
     (case rgb_frame self of None \<Rightarrow> Raise AttributeError self
      | Some rgb \<Rightarrow>
          (case shape rgb of (nx, ny, nc) \<Rightarrow>
             for_each [0..<nx] (\<lambda>ix. for_each [0..<ny] (\<lambda>iy. srgb_pixel ciexyz_to_srgb ix iy)) self))"

subsection \<open>The live display\<close>

text \<open>
  \<open>time()\<close> is an input: each function that reads the clock takes the reading as an
  argument (\<open>now\<close>: the reading compared with the timer, \<open>later\<close>: the reading stored
  after the display call).
\<close>

definition with_plt :: "event list \<Rightarrow> 'r pipeline outcome \<Rightarrow> 'r world outcome" where
  "with_plt plt r = (case r of Ok self \<Rightarrow> Ok (self, plt) | Raise e self \<Rightarrow> Raise e (self, plt))"

definition set_display_timer :: "real \<Rightarrow> 'r world \<Rightarrow> 'r world outcome" where
  "set_display_timer t w = (case w of (self, plt) \<Rightarrow> Ok (self\<lparr>display_timer := t\<rparr>, plt))"

definition start_display :: "real \<Rightarrow> 'r world \<Rightarrow> 'r world outcome" where
  "start_display later w =
     (case w of (self, plt) \<Rightarrow>
        let self1 = self\<lparr>display_timer := 0\<rparr>
        in if display_progress self1
           then and_then (display (self1, plt)) (set_display_timer later)
           else Ok (self1, plt))"

definition update_display :: "colour_transform \<Rightarrow> real \<Rightarrow> real \<Rightarrow> 'r world \<Rightarrow> 'r world outcome" where
  "update_display ciexyz_to_srgb now later w =
     (case w of (self, plt) \<Rightarrow>
        if display_progress self \<and> (now - display_timer self) > display_update_time self
        then
          and_then (and_then
            (with_plt (plt @ [Print ''RGBPipeline2D updating display...''])
               (generate_srgb_frame ciexyz_to_srgb self))
            display)
            (set_display_timer later)
        else Ok (self, plt))"

subsection \<open>initialise, update, finalise\<close>

text \<open>
  \<open>initialise\<close>. \<open>resample_ciexyz\<close> (raysect.optical.colour) is the parameter
  \<open>resample_ciexyz\<close>. The pixel dimensions are natural numbers.
\<close>

definition must_reallocate :: "'r pipeline \<Rightarrow> nat \<times> nat \<Rightarrow> bool" where
  "must_reallocate self p \<longleftrightarrow>
     \<not> accumulate self \<or>
     (case xyz_frame self of None \<Rightarrow> True | Some f \<Rightarrow> frame_pixels f \<noteq> p)"

definition initialise ::
  "(real \<Rightarrow> real \<Rightarrow> int \<Rightarrow> 'r) \<Rightarrow> nat \<times> nat \<Rightarrow> int \<Rightarrow> spectral_slice list \<Rightarrow> real \<Rightarrow>
     'r world \<Rightarrow> 'r world outcome" where
  "initialise resample_ciexyz p n_pixel_samples spectral_slices later w =
     (case w of (self, plt) \<Rightarrow>
        let self1 = (if must_reallocate self p
                     then self\<lparr>xyz_frame := Some (Frame2D p 3),
                               rgb_frame := Some (np_zeros (fst p, snd p, 3))\<rparr>
                     else self);
            self2 = self1\<lparr>working_mean := Some (np_zeros (fst p, snd p, 3))\<rparr>;
            self3 = self2\<lparr>working_variance := Some (np_zeros (fst p, snd p, 3))\<rparr>;
            self4 = self3\<lparr>resampled_xyz := Some (map (\<lambda>slice.
                       resample_ciexyz (min_wavelength slice) (max_wavelength slice) (num_samples slice))
                       spectral_slices)\<rparr>;
            self5 = self4\<lparr>samples := n_pixel_samples\<rparr>
        in start_display later (self5, plt))"

text \<open>
  \<open>update\<close>: six augmented assignments \<open>a[x, y, c] += v\<close> (\<open>iadd\<close>: subscripting
  \<open>None\<close> raises \<open>TypeError\<close>; otherwise the item is read, added to and written back),
  then the throttled display.
\<close>

definition iadd :: "real ndarray option \<Rightarrow> int \<Rightarrow> int \<Rightarrow> int \<Rightarrow> real \<Rightarrow> error + real ndarray" where
  "iadd arr x y c v =
     (case arr of None \<Rightarrow> Inl TypeError
      | Some a \<Rightarrow>
          (case getitem a x y c of Inl e \<Rightarrow> Inl e
           | Inr old \<Rightarrow> setitem a x y c (old + v)))"

definition add_working_mean :: "int \<Rightarrow> int \<Rightarrow> int \<Rightarrow> real \<Rightarrow> 'r pipeline \<Rightarrow> 'r pipeline outcome" where
  "add_working_mean x y c v self =
     (case iadd (working_mean self) x y c v of Inl e \<Rightarrow> Raise e self
      | Inr a' \<Rightarrow> Ok (self\<lparr>working_mean := Some a'\<rparr>))"

definition add_working_variance :: "int \<Rightarrow> int \<Rightarrow> int \<Rightarrow> real \<Rightarrow> 'r pipeline \<Rightarrow> 'r pipeline outcome" where
  "add_working_variance x y c v self =
     (case iadd (working_variance self) x y c v of Inl e \<Rightarrow> Raise e self
      | Inr a' \<Rightarrow> Ok (self\<lparr>working_variance := Some a'\<rparr>))"

type_synonym packed = "(real \<times> real \<times> real) \<times> (real \<times> real \<times> real)"

definition accumulate_sub_samples :: "int \<times> int \<Rightarrow> packed \<Rightarrow> 'r pipeline \<Rightarrow> 'r pipeline outcome" where
  "accumulate_sub_samples pixel_id packed_result self =
     (case pixel_id of (x, y) \<Rightarrow>
      case packed_result of ((m0, m1, m2), (v0, v1, v2)) \<Rightarrow>
        and_then (and_then (and_then (and_then (and_then
          (add_working_mean x y 0 m0 self)
          (add_working_mean x y 1 m1))
          (add_working_mean x y 2 m2))
          (add_working_variance x y 0 v0))
          (add_working_variance x y 1 v1))
          (add_working_variance x y 2 v2))"

definition update ::
  "colour_transform \<Rightarrow> int \<times> int \<Rightarrow> packed \<Rightarrow> nat \<Rightarrow> real \<Rightarrow> real \<Rightarrow> 'r world \<Rightarrow> 'r world outcome" where
  "update ciexyz_to_srgb pixel_id packed_result slice_id now later w =
     (case w of (self, plt) \<Rightarrow>
        and_then (with_plt plt (accumulate_sub_samples pixel_id packed_result self))
          (update_display ciexyz_to_srgb now later))"

text \<open>
  \<open>finalise\<close>: per pixel and channel one call of \<open>combine_samples\<close> with the working
  mean, the working variance and \<open>_samples\<close>; then the display buffer; then the display.
\<close>

definition working_at :: "real ndarray option \<Rightarrow> nat \<Rightarrow> nat \<Rightarrow> int \<Rightarrow> error + real" where
  "working_at a x y c =
     (case a of None \<Rightarrow> Inl TypeError | Some arr \<Rightarrow> getitem arr (int x) (int y) c)"

definition merge_channel :: "nat \<Rightarrow> nat \<Rightarrow> int \<Rightarrow> 'r pipeline \<Rightarrow> 'r pipeline outcome" where
  "merge_channel x y c self =
     (case xyz_frame self of None \<Rightarrow> Raise AttributeError self | Some f \<Rightarrow>
     (case working_at (working_mean self) x y c of Inl e \<Rightarrow> Raise e self | Inr m \<Rightarrow>
     (case working_at (working_variance self) x y c of Inl e \<Rightarrow> Raise e self | Inr v \<Rightarrow>
     (case combine_samples f (int x) (int y) c m v (samples self) of Inl e \<Rightarrow> Raise e self
      | Inr f' \<Rightarrow> Ok (self\<lparr>xyz_frame := Some f'\<rparr>)))))"

definition merge_pixel :: "nat \<Rightarrow> nat \<Rightarrow> 'r pipeline \<Rightarrow> 'r pipeline outcome" where
  "merge_pixel x y self =
     and_then (and_then (merge_channel x y 0 self) (merge_channel x y 1)) (merge_channel x y 2)"

definition merge_working_frame :: "'r pipeline \<Rightarrow> 'r pipeline outcome" where
  "merge_working_frame self =
     (case xyz_frame self of None \<Rightarrow> Raise AttributeError self
      | Some f \<Rightarrow>
          for_each [0..<fst (frame_pixels f)] (\<lambda>x.
            for_each [0..<snd (frame_pixels f)] (\<lambda>y. merge_pixel x y)) self)"

definition final_display :: "'r world \<Rightarrow> 'r world outcome" where
  "final_display w = (case w of (self, plt) \<Rightarrow> if display_progress self then display (self, plt) else Ok (self, plt))"

definition finalise :: "colour_transform \<Rightarrow> 'r world \<Rightarrow> 'r world outcome" where
  "finalise ciexyz_to_srgb w =
     (case w of (self, plt) \<Rightarrow>
        and_then
          (with_plt plt (and_then (merge_working_frame self) (generate_srgb_frame ciexyz_to_srgb)))
          final_display)"

subsection \<open>Sequences of calls\<close>

text \<open>
  The calls a rendering driver makes on one pipeline object. A caller that catches an
  exception goes on with the object as the exception left it, so a sequence of calls
  continues from \<open>state_of\<close> each outcome.
\<close>

datatype call =
    Initialise "nat \<times> nat" int "spectral_slice list" real
  | Update "int \<times> int" packed nat real real
  | Finalise
  | Save string
  | Display

fun perform ::
  "(real \<Rightarrow> real \<Rightarrow> int \<Rightarrow> 'r) \<Rightarrow> colour_transform \<Rightarrow> call \<Rightarrow> 'r world \<Rightarrow> 'r world outcome" where
  "perform resample_ciexyz ciexyz_to_srgb (Initialise p n slices later) w =
     initialise resample_ciexyz p n slices later w"
| "perform resample_ciexyz ciexyz_to_srgb (Update pixel_id packed_result slice_id now later) w =
     update ciexyz_to_srgb pixel_id packed_result slice_id now later w"
| "perform resample_ciexyz ciexyz_to_srgb Finalise w = finalise ciexyz_to_srgb w"
| "perform resample_ciexyz ciexyz_to_srgb (Save filename) w = save filename w"
| "perform resample_ciexyz ciexyz_to_srgb Display w = display w"

fun run ::
  "(real \<Rightarrow> real \<Rightarrow> int \<Rightarrow> 'r) \<Rightarrow> colour_transform \<Rightarrow> call list \<Rightarrow> 'r world \<Rightarrow> 'r world" where
  "run resample_ciexyz ciexyz_to_srgb [] w = w"
| "run resample_ciexyz ciexyz_to_srgb (c # cs) w =
     run resample_ciexyz ciexyz_to_srgb cs (state_of (perform resample_ciexyz ciexyz_to_srgb c w))"

fun is_initialise :: "call \<Rightarrow> bool" where
  "is_initialise (Initialise p n slices later) = True"
| "is_initialise c = False"

fun never_initialised :: "call list \<Rightarrow> bool" where
  "never_initialised [] = True"
| "never_initialised (c # cs) = (\<not> is_initialise c \<and> never_initialised cs)"

text \<open>The number of display refreshes in a plotting log: one \<open>Figure1\<close> per \<open>display()\<close>.\<close>

fun refreshes :: "event list \<Rightarrow> nat" where
  "refreshes [] = 0"
| "refreshes (Figure1 img # es) = Suc (refreshes es)"
| "refreshes (e # es) = refreshes es"

subsection \<open>States of the pipeline\<close>

text \<open>
  The shapes \<open>initialise\<close> establishes: the three arrays of the frame and the display
  buffer have the shape (pixels[0], pixels[1], 3) (\<open>buffers_consistent\<close>, also true of
  a new object with no buffers), and so have the two working arrays (\<open>render_ready\<close>).
\<close>

definition frame_shaped :: "frame2d \<Rightarrow> bool" where
  "frame_shaped f \<longleftrightarrow>
     shape (frame_mean f) = (fst (frame_pixels f), snd (frame_pixels f), 3) \<and>
     shape (frame_variance f) = (fst (frame_pixels f), snd (frame_pixels f), 3) \<and>
     shape (frame_samples f) = (fst (frame_pixels f), snd (frame_pixels f), 3)"

definition shaped_like :: "frame2d \<Rightarrow> real ndarray option \<Rightarrow> bool" where
  "shaped_like f a =
     (case a of None \<Rightarrow> False
      | Some arr \<Rightarrow> shape arr = (fst (frame_pixels f), snd (frame_pixels f), 3))"

definition buffers_consistent :: "'r pipeline \<Rightarrow> bool" where
  "buffers_consistent self =
     (case xyz_frame self of None \<Rightarrow> rgb_frame self = None
      | Some f \<Rightarrow> frame_shaped f \<and> shaped_like f (rgb_frame self))"

definition render_ready :: "'r pipeline \<Rightarrow> bool" where
  "render_ready self =
     (case xyz_frame self of None \<Rightarrow> False
      | Some f \<Rightarrow> frame_shaped f \<and> shaped_like f (rgb_frame self) \<and>
          shaped_like f (working_mean self) \<and> shaped_like f (working_variance self))"

text \<open>
  The object \<open>initialise\<close> has built when it calls \<open>_start_display\<close>.
\<close>

definition prepared ::
  "(real \<Rightarrow> real \<Rightarrow> int \<Rightarrow> 'r) \<Rightarrow> nat \<times> nat \<Rightarrow> int \<Rightarrow> spectral_slice list \<Rightarrow> 'r pipeline \<Rightarrow> 'r pipeline" where
  "prepared resample_ciexyz p n slices self =
     (if must_reallocate self p
      then self\<lparr>xyz_frame := Some (Frame2D p 3), rgb_frame := Some (np_zeros (fst p, snd p, 3))\<rparr>
      else self)
     \<lparr>working_mean := Some (np_zeros (fst p, snd p, 3)),
      working_variance := Some (np_zeros (fst p, snd p, 3)),
      resampled_xyz := Some (map (\<lambda>slice.
         resample_ciexyz (min_wavelength slice) (max_wavelength slice) (num_samples slice)) slices),
      samples := n\<rparr>"

text \<open>
  \<open>touched_only x y old new\<close>: the array \<open>new\<close> has the shape of \<open>old\<close> and differs from
  it at most in the items of the pixel that the indices \<open>(x, y)\<close> select.
\<close>

definition touched_only :: "int \<Rightarrow> int \<Rightarrow> real ndarray option \<Rightarrow> real ndarray option \<Rightarrow> bool" where
  "touched_only x y old new =
     (case old of None \<Rightarrow> new = None
      | Some a \<Rightarrow>
          (case new of None \<Rightarrow> False
           | Some a' \<Rightarrow> shape a' = shape a \<and>
               (\<forall>i j k. (np_index (fst (shape a)) x, np_index (fst (snd (shape a))) y) \<noteq> (Some i, Some j)
                  \<longrightarrow> item a' i j k = item a i j k)))"

text \<open>
  \<open>same_shape old new\<close>: both arrays are missing, or both exist and have one shape.
  \<open>update_effect x y self self'\<close>: what one \<open>update\<close> at \<open>(x, y)\<close> may change between
  \<open>self\<close> and \<open>self'\<close>, whatever its outcome. \<open>same_buffers\<close>: the frame and the
  display buffer exist afterwards exactly if they existed before.
\<close>

definition same_shape :: "real ndarray option \<Rightarrow> real ndarray option \<Rightarrow> bool" where
  "same_shape old new =
     (case old of None \<Rightarrow> new = None
      | Some a \<Rightarrow> (case new of None \<Rightarrow> False | Some a' \<Rightarrow> shape a' = shape a))"

definition update_effect :: "int \<Rightarrow> int \<Rightarrow> 'r pipeline \<Rightarrow> 'r pipeline \<Rightarrow> bool" where
  "update_effect x y self self' \<longleftrightarrow>
     xyz_frame self' = xyz_frame self \<and>
     touched_only x y (working_mean self) (working_mean self') \<and>
     touched_only x y (working_variance self) (working_variance self') \<and>
     same_shape (rgb_frame self) (rgb_frame self')"

definition same_buffers :: "'r pipeline \<Rightarrow> 'r pipeline \<Rightarrow> bool" where
  "same_buffers self self' \<longleftrightarrow>
     (xyz_frame self' = None \<longleftrightarrow> xyz_frame self = None) \<and>
     (rgb_frame self' = None \<longleftrightarrow> rgb_frame self = None)"

text \<open>
  \<open>only_rgb self self'\<close>: the two objects agree in everything but the items of the
  display buffer; \<open>only_xyz\<close>: in everything but the contents of the frame.
\<close>

definition only_rgb :: "'r pipeline \<Rightarrow> 'r pipeline \<Rightarrow> bool" where
  "only_rgb self self' \<longleftrightarrow>
     (\<exists>r. self' = self\<lparr>rgb_frame := r\<rparr> \<and> same_shape (rgb_frame self) r)"

definition only_xyz :: "'r pipeline \<Rightarrow> 'r pipeline \<Rightarrow> bool" where
  "only_xyz self self' \<longleftrightarrow>
     (\<exists>f. self' = self\<lparr>xyz_frame := f\<rparr> \<and> (f = None \<longleftrightarrow> xyz_frame self = None))"

text \<open>
  The loop invariants of \<open>finalise\<close>. \<open>merged_on E self0 self\<close>: \<open>self\<close> is \<open>self0\<close>
  with a frame in which exactly the statistics with index in \<open>E\<close> have been merged
  with the working arrays of \<open>self0\<close>. \<open>resolved_on E ciexyz_to_srgb self1 self\<close>:
  \<open>self\<close> is \<open>self1\<close> with a display buffer whose pixels in \<open>E\<close> hold the converted
  means of the frame.
\<close>

definition merged_on :: "(nat \<times> nat \<times> nat) set \<Rightarrow> 'r pipeline \<Rightarrow> 'r pipeline \<Rightarrow> bool" where
  "merged_on E self0 self \<longleftrightarrow>
     (\<exists>f0 f wm wv.
        xyz_frame self0 = Some f0 \<and> working_mean self0 = Some wm \<and> working_variance self0 = Some wv \<and>
        self = self0\<lparr>xyz_frame := Some f\<rparr> \<and> frame_pixels f = frame_pixels f0 \<and> frame_shaped f \<and>
        (\<forall>i j k. statistic_at f i j k =
           (if (i, j, k) \<in> E
            then pooled_merge (statistic_at f0 i j k) (item wm i j k, item wv i j k, samples self0)
            else statistic_at f0 i j k)))"

definition resolved_on :: "(nat \<times> nat) set \<Rightarrow> colour_transform \<Rightarrow> 'r pipeline \<Rightarrow> 'r pipeline \<Rightarrow> bool" where
  "resolved_on E ciexyz_to_srgb self1 self \<longleftrightarrow>
     (\<exists>f rgb1 rgb.
        xyz_frame self1 = Some f \<and> rgb_frame self1 = Some rgb1 \<and>
        self = self1\<lparr>rgb_frame := Some rgb\<rparr> \<and> shape rgb = shape rgb1 \<and>
        (\<forall>i j. (i, j) \<in> E \<longrightarrow>
           (item rgb i j 0, item rgb i j 1, item rgb i j 2) =
             ciexyz_to_srgb (item (frame_mean f) i j 0 * sensitivity self1)
                            (item (frame_mean f) i j 1 * sensitivity self1)
                            (item (frame_mean f) i j 2 * sensitivity self1)))"

text \<open>Concrete collaborators and a one-pixel render used to run the definitions.\<close>

definition no_resample :: "real \<Rightarrow> real \<Rightarrow> int \<Rightarrow> unit" where
  "no_resample lo hi n = ()"

definition xyz_as_rgb :: colour_transform where
  "xyz_as_rgb X Y Z = (X, Y, Z)"

definition quiet_pipeline :: "unit pipeline" where
  "quiet_pipeline = RGBPipeline2D 2 False 5 False"

definition blank_world :: "unit world" where
  "blank_world = run no_resample xyz_as_rgb [Initialise (2, 1) 4 [] 0] (quiet_pipeline, [])"

definition accumulating_world :: "unit world" where
  "accumulating_world =
     run no_resample xyz_as_rgb
       [Initialise (1, 1) 4 [] 0, Update (0, 0) ((1, 2, 3), (0, 1, 0)) 0 1 1, Finalise]
       (RGBPipeline2D 2 False 5 True, [])"

definition live_pipeline :: "unit pipeline" where
  "live_pipeline = RGBPipeline2D_default"

definition live_calls :: "call list" where
  "live_calls =
     [Initialise (1, 1) 4 [] 1,
      Update (0, 0) ((1, 2, 3), (0, 1, 0)) 0 3 3,
      Update (0, 0) ((1, 2, 3), (0, 1, 0)) 0 7 8,
      Finalise]"

definition live_world :: "nat \<Rightarrow> unit world" where
  "live_world k = run no_resample xyz_as_rgb (take k live_calls) (live_pipeline, [])"

definition one_pixel_world :: "unit world" where
  "one_pixel_world =
     run no_resample xyz_as_rgb
       [Initialise (1, 1) 4 [] 0, Update (0, 0) ((1, 2, 3), (0, 1, 0)) 0 1 1]
       (quiet_pipeline, [])"

section \<open>Properties of the camera\<close>

subsection \<open>Evaluation of the arithmetic of CPython\<close>

lemma exponent_numeral:
  "exponent (numeral k) e a =
     (if a < pow2 e \<and> - 1022 < e then exponent (pred_numeral k) (e - 1) a
      else if pow2 (e + 1) \<le> a \<and> e < 1023 then exponent (pred_numeral k) (e + 1) a
      else e)"
  by (simp add: numeral_eq_Suc)

lemmas binary64_eval = binary64_def exponent_numeral pow2_def round_half_even_def Let_def

text \<open>
  Known values of the rounding: the float 0.1, two ties just above \<open>2^53\<close> (to the even
  neighbour), a power of two, and the two overflows.
\<close>

lemma binary64_examples:
  "binary64 (1 / 10) = PyFloat (3602879701896397 / 2 ^ 55)"
  "binary64 (2 ^ 53 + 1) = PyFloat (2 ^ 53)"
  "binary64 (2 ^ 53 + 3) = PyFloat (2 ^ 53 + 4)"
  "binary64 (1 / 2 ^ 30) = PyFloat (1 / 2 ^ 30)"
  "binary64 (2 ^ 1024) = PyInf False"
  "binary64 (- (10 ^ 400)) = PyInf True"
  by (simp_all add: binary64_eval)

lemmas python_eval = python_arithmetic_def with_floats_def float_sub_def double_add_def binary64_eval

text \<open>
  The rounding never overflows below \<open>2^1023\<close>, so the conversion of such an int to
  float raises nothing; and the operators return floats.
\<close>

lemma pow2_powr: "pow2 e = 2 powr (of_int e)"
proof (cases "0 \<le> e")
  case True
  have "(2::real) ^ nat e = 2 powr real (nat e)" by (simp add: powr_realpow)
  moreover from True have "real (nat e) = of_int e" by simp
  ultimately show ?thesis using True by (simp add: pow2_def)
next
  case False
  then have "(2::real) powr (- of_int e) = 2 powr real (nat (- e))" by simp
  also have "\<dots> = 2 ^ nat (- e)" by (simp add: powr_realpow)
  finally have "(2::real) ^ nat (- e) = 2 powr (- of_int e)" by simp
  with False show ?thesis by (simp add: pow2_def powr_minus field_simps)
qed

lemma pow2_pos: "0 < pow2 e"
  by (simp add: pow2_powr)

lemma pow2_mono: "i \<le> j \<Longrightarrow> pow2 i \<le> pow2 j"
  by (simp add: pow2_powr)

lemma pow2_Suc: "pow2 (e + 1) = 2 * pow2 e"
  by (simp add: pow2_powr powr_add)

lemma exponent_le: "e \<le> 1023 \<Longrightarrow> exponent n e a \<le> 1023"
  by (induction n arbitrary: e) auto

lemma round_half_even_le: "of_int (round_half_even y) \<le> y + 1"
  unfolding round_half_even_def Let_def by (auto; linarith)

lemma binary64_small:
  assumes "\<bar>x\<bar> < pow2 1023"
  shows "\<exists>r. binary64 x = PyFloat r"
proof (cases "x = 0")
  case True
  then show ?thesis by (simp add: binary64_def)
next
  case False
  define e where "e = exponent 2100 0 \<bar>x\<bar>"
  define ulp where "ulp = pow2 (e - 52)"
  define r where "r = of_int (round_half_even (\<bar>x\<bar> / ulp)) * ulp"
  have "e \<le> 1023" unfolding e_def by (rule exponent_le) simp
  then have ulp_le: "ulp \<le> pow2 971" unfolding ulp_def by (intro pow2_mono) simp
  have ulp_pos: "0 < ulp" unfolding ulp_def by (rule pow2_pos)
  have "r \<le> (\<bar>x\<bar> / ulp + 1) * ulp"
    unfolding r_def using round_half_even_le [of "\<bar>x\<bar> / ulp"] ulp_pos
    by (intro mult_right_mono) simp_all
  also have "\<dots> = \<bar>x\<bar> + ulp" using ulp_pos by (simp add: field_simps)
  also have "\<dots> < pow2 1023 + pow2 971" using assms ulp_le by simp
  also have "\<dots> \<le> pow2 1023 + pow2 1023" using pow2_mono [of 971 1023] by simp
  also have "\<dots> = pow2 1024" using pow2_Suc [of 1023] by simp
  finally have r: "r < pow2 1024" .
  from assms pow2_mono [of 1023 1024] have "\<not> pow2 1024 \<le> \<bar>x\<bar>" by simp
  with False r show ?thesis
    unfolding binary64_def Let_def e_def [symmetric] ulp_def [symmetric] r_def [symmetric]
    by simp
qed

lemma binary64_is_float: "is_float (binary64 x)"
  by (simp add: binary64_def Let_def)

lemma float_mul_is_float: "is_float (float_mul x y)"
  by (cases "(x, y)" rule: float_mul.cases) (simp_all add: binary64_is_float)

lemma float_add_is_float: "is_float (float_add x y)"
  by (cases "(x, y)" rule: float_add.cases) (simp_all add: binary64_is_float)

lemma to_float_small:
  assumes "\<bar>i\<bar> < 2 ^ 1023"
  shows "\<exists>r. to_float (PyInt i) = Inr (PyFloat r)"
proof -
  from assms have "\<bar>real_of_int i\<bar> < pow2 1023"
    by (simp add: pow2_def flip: of_int_abs) 
  from binary64_small [OF this] show ?thesis by auto
qed

lemma to_float_float: "is_float x \<Longrightarrow> to_float x = Inr x"
  by (cases x) simp_all

lemma python_mul_float:
  assumes "is_float x" and "to_float y = Inr y'"
  shows "python_mul x y = Inr (float_mul x y')"
  using assms by (cases x) (simp_all add: with_floats_def)

lemma python_sub_floats:
  assumes "is_float x" and "is_float y"
  shows "python_sub x y = Inr (float_sub x y)"
  using assms by (cases x; cases y) (simp_all add: with_floats_def)

lemma python_pixel_offset:
  assumes "is_float start" and "is_float delta" and "\<bar>i\<bar> < 2 ^ 1023"
  shows "\<exists>v. pixel_offset python_arithmetic start delta i = Inr v"
proof -
  from to_float_small [OF assms(3)] obtain r where r: "to_float (PyInt i) = Inr (PyFloat r)" by blast
  have m: "python_mul delta (PyInt i) = Inr (float_mul delta (PyFloat r))"
    by (rule python_mul_float [OF assms(2) r])
  have "python_sub start (float_mul delta (PyFloat r)) = Inr (float_sub start (float_mul delta (PyFloat r)))"
    by (rule python_sub_floats [OF assms(1) float_mul_is_float])
  with m show ?thesis by (simp add: pixel_offset_def python_arithmetic_def)
qed

lemma float_div_is_float: "float_div x y = Inr z \<Longrightarrow> is_float z"
  by (cases "(x, y)" rule: float_div.cases) (auto simp: binary64_is_float split: if_splits)

lemma python_truediv_is_float: "python_truediv x y = Inr z \<Longrightarrow> is_float z"
proof (cases "(x, y)" rule: python_truediv.cases)
  case (1 i j)
  assume a: "python_truediv x y = Inr z"
  from a 1 show ?thesis
    by (auto simp: binary64_is_float split: if_splits pynum.splits)
qed (auto simp: with_floats_def split: sum.splits dest: float_div_is_float)

lemma python_mul_is_float: "is_float x \<Longrightarrow> python_mul x y = Inr z \<Longrightarrow> is_float z"
  by (cases x) (auto simp: with_floats_def float_mul_is_float split: sum.splits)

text \<open>The concrete cameras.\<close>

lemma unit_camera_init: "OrthographicCamera_init python_arithmetic base_camera (PyInt 1) True = Ok unit_camera"
  by (simp add: OrthographicCamera_init_def width_setter_def update_image_geometry_def half_extent_def
      base_camera_def unit_camera_def python_eval)

lemma unit_camera_wide:
  "width_setter python_arithmetic unit_camera (PyInt 2) =
     Ok (unit_camera\<lparr>width := PyInt 2, image_delta := PyFloat 1, image_start_x := PyFloat 1, image_start_y := PyFloat 1\<rparr>)"
  by (simp add: width_setter_def update_image_geometry_def half_extent_def unit_camera_def python_eval)

lemma unit_camera_pixels:
  "pixels_setter python_arithmetic store_pixels unit_camera (4, 2) =
     Ok (unit_camera\<lparr>pixels := (4, 2), image_delta := PyFloat (1 / 4), image_start_x := PyFloat (1 / 2),
          image_start_y := PyFloat (1 / 4)\<rparr>)"
  by (simp add: pixels_setter_def store_pixels_def update_image_geometry_def half_extent_def unit_camera_def python_eval)

lemma ten_camera_init:
  "OrthographicCamera_init python_arithmetic (base_camera\<lparr>pixels := (10, 10)\<rparr>) (PyInt 1) True = Ok ten_camera"
  by (simp add: OrthographicCamera_init_def width_setter_def update_image_geometry_def half_extent_def
      base_camera_def ten_camera_def python_eval)

lemma ten_camera_3:
  "width_setter python_arithmetic ten_camera (PyInt 3) =
     Ok (ten_camera\<lparr>width := PyInt 3, image_delta := PyFloat (5404319552844595 / 2 ^ 54),
           image_start_x := PyFloat (3 / 2), image_start_y := PyFloat (3 / 2)\<rparr>)"
  by (simp add: width_setter_def update_image_geometry_def half_extent_def ten_camera_def python_eval)

lemma three_tenths:
  "py_mul python_arithmetic (PyInt 3) (PyFloat (3602879701896397 / 2 ^ 55)) = Inr (PyFloat (5404319552844596 / 2 ^ 54))"
  by (simp add: python_eval)

lemma huge_width:
  "width_setter python_arithmetic unit_camera (PyInt (10 ^ 400)) =
     Raise OverflowError (unit_camera\<lparr>width := PyInt (10 ^ 400)\<rparr>)"
  by (simp add: width_setter_def update_image_geometry_def half_extent_def unit_camera_def python_eval)

lemma huge_width_stale:
  "\<not> geometry_consistent python_arithmetic (unit_camera\<lparr>width := PyInt (10 ^ 400)\<rparr>)"
  by (simp add: geometry_consistent_def unit_camera_def python_eval)

subsection \<open>The derived geometry\<close>

lemma and_then_Ok_D:
  "and_then r f = Ok s' \<Longrightarrow> \<exists>s. r = Ok s \<and> f s = Ok s'"
  by (cases r) auto

lemma update_image_geometry_Ok_D:
  assumes "update_image_geometry ar self = Ok self'"
  shows "geometry_consistent ar self' \<and> width self' = width self \<and> pixels self' = pixels self \<and>
         pixel_samples self' = pixel_samples self \<and> sub_sample self' = sub_sample self \<and>
         point_gen self' = point_gen self \<and> vector_gen self' = vector_gen self"
  using assms
  by (auto simp: update_image_geometry_def geometry_consistent_def Let_def split: sum.splits)

lemma update_image_geometry_total:
  assumes "geometry_consistent ar (self\<lparr>image_delta := d, image_start_x := sx, image_start_y := sy\<rparr>)"
  shows "update_image_geometry ar self = Ok (self\<lparr>image_delta := d, image_start_x := sx, image_start_y := sy\<rparr>)"
  using assms by (simp add: update_image_geometry_def geometry_consistent_def Let_def)

lemma update_image_geometry_again:
  assumes "geometry_consistent ar self"
  shows "update_image_geometry ar self = Ok self"
  using update_image_geometry_total [where ar = ar and self = self and d = "image_delta self"
      and sx = "image_start_x self" and sy = "image_start_y self"] assms
  by simp

lemma geometry_consistent_generators:
  "geometry_consistent ar (self\<lparr>point_gen := g, vector_gen := v\<rparr>) = geometry_consistent ar self"
  by (simp add: geometry_consistent_def)

lemma width_setter_Ok_D:
  assumes "width_setter ar self w = Ok self'"
  shows "geometry_consistent ar self' \<and> width self' = w \<and> pixels self' = pixels self \<and>
         point_gen self' = point_gen self \<and> \<not> py_le_zero ar w"
  using assms update_image_geometry_Ok_D [of ar "self\<lparr>width := w\<rparr>" self']
  by (auto simp: width_setter_def split: if_splits)

lemma init_Ok_D:
  assumes "OrthographicCamera_init ar self0 w sub = Ok self'"
  shows "geometry_consistent ar self' \<and> width self' = w \<and> pixels self' = pixels self0 \<and>
         point_gen self' = Rectangle (image_delta self') (image_delta self')"
proof -
  from assms obtain s1 where s1: "width_setter ar (self0\<lparr>sub_sample := sub\<rparr>) w = Ok s1"
    and rest: "and_then (update_image_geometry ar s1)
      (\<lambda>self2. Ok (self2\<lparr>point_gen := Rectangle (image_delta self2) (image_delta self2), vector_gen := SingleRay\<rparr>)) = Ok self'"
    unfolding OrthographicCamera_init_def by (blast dest: and_then_Ok_D)
  from width_setter_Ok_D [OF s1] have c1: "geometry_consistent ar s1" "width s1 = w" "pixels s1 = pixels self0"
    by simp_all
  from rest update_image_geometry_again [OF c1(1)]
  have "self' = s1\<lparr>point_gen := Rectangle (image_delta s1) (image_delta s1), vector_gen := SingleRay\<rparr>"
    by simp
  with c1 show ?thesis by (simp add: geometry_consistent_generators)
qed

lemma init_total:
  assumes "\<not> py_le_zero ar w"
    and "geometry_consistent ar (self0\<lparr>sub_sample := sub, width := w, image_delta := d, image_start_x := sx, image_start_y := sy\<rparr>)"
  shows "OrthographicCamera_init ar self0 w sub =
         Ok (self0\<lparr>sub_sample := sub, width := w, image_delta := d, image_start_x := sx, image_start_y := sy,
               point_gen := Rectangle d d, vector_gen := SingleRay\<rparr>)"
proof -
  have 1: "width_setter ar (self0\<lparr>sub_sample := sub\<rparr>) w =
           Ok (self0\<lparr>sub_sample := sub, width := w, image_delta := d, image_start_x := sx, image_start_y := sy\<rparr>)"
    using assms update_image_geometry_total [where ar = ar and self = "self0\<lparr>sub_sample := sub, width := w\<rparr>"
        and d = d and sx = sx and sy = sy]
    by (simp add: width_setter_def)
  show ?thesis
    unfolding OrthographicCamera_init_def 1
    by (simp add: update_image_geometry_again [OF assms(2)])
qed

text \<open>
  Claim C7 as stated fails in two ways. Proportion: on the 10 by 10 camera constructed
  with width 1 the pixel pitch is the float 0.1; after \<open>width = 3\<close> it is the float
  0.3, while three times the former pitch is 0.30000000000000004. Every mutation: on
  the 2 by 2 camera \<open>width = 10 ** 400\<close> stores the width and then raises
  \<open>OverflowError\<close> from the division, leaving the geometry of width 1 behind.
\<close>

theorem C7_inconsistent_geometry_counterexample:
  "OrthographicCamera_init python_arithmetic (base_camera\<lparr>pixels := (10, 10)\<rparr>) (PyInt 1) True = Ok ten_camera
   \<and> image_delta ten_camera = PyFloat (3602879701896397 / 2 ^ 55)
   \<and> pixels (state_of (width_setter python_arithmetic ten_camera (PyInt 3))) = pixels ten_camera
   \<and> image_delta (state_of (width_setter python_arithmetic ten_camera (PyInt 3))) = PyFloat (5404319552844595 / 2 ^ 54)
   \<and> py_mul python_arithmetic (PyInt 3) (image_delta ten_camera) = Inr (PyFloat (5404319552844596 / 2 ^ 54))
   \<and> py_mul python_arithmetic (PyInt 3) (image_delta ten_camera) \<noteq>
       Inr (image_delta (state_of (width_setter python_arithmetic ten_camera (PyInt 3))))
   \<and> width_setter python_arithmetic unit_camera (PyInt (10 ^ 400)) =
       Raise OverflowError (unit_camera\<lparr>width := PyInt (10 ^ 400)\<rparr>)
   \<and> image_delta (unit_camera\<lparr>width := PyInt (10 ^ 400)\<rparr>) = PyFloat (1 / 2)
   \<and> \<not> geometry_consistent python_arithmetic (unit_camera\<lparr>width := PyInt (10 ^ 400)\<rparr>)"
proof -
  have pitch1: "image_delta ten_camera = PyFloat (3602879701896397 / 2 ^ 55)"
    by (simp add: ten_camera_def)
  have pixels3: "pixels (state_of (width_setter python_arithmetic ten_camera (PyInt 3))) = pixels ten_camera"
    by (simp add: ten_camera_3)
  have pitch3: "image_delta (state_of (width_setter python_arithmetic ten_camera (PyInt 3))) =
      PyFloat (5404319552844595 / 2 ^ 54)"
    by (simp add: ten_camera_3)
  have thrice: "py_mul python_arithmetic (PyInt 3) (image_delta ten_camera) = Inr (PyFloat (5404319552844596 / 2 ^ 54))"
    unfolding pitch1 by (rule three_tenths)
  have differ: "py_mul python_arithmetic (PyInt 3) (image_delta ten_camera) \<noteq>
      Inr (image_delta (state_of (width_setter python_arithmetic ten_camera (PyInt 3))))"
    unfolding thrice pitch3 by simp
  have old_pitch: "image_delta (unit_camera\<lparr>width := PyInt (10 ^ 400)\<rparr>) = PyFloat (1 / 2)"
    by (simp add: unit_camera_def)
  from ten_camera_init pitch1 pixels3 pitch3 thrice differ huge_width old_pitch huge_width_stale
  show ?thesis by blast
qed

text \<open>
  Claim C7, amended. After construction and after every call of the \<open>width\<close> or
  \<open>pixels\<close> setter that returns normally the derived geometry is consistent, each
  derived attribute holding what its defining expression computes in float arithmetic
  from the stored ones: \<open>image_delta\<close> is \<open>width / pixels[0]\<close>, \<open>image_start_x\<close> is
  \<open>0.5 * pixels[0] * image_delta\<close> and \<open>image_start_y\<close> is
  \<open>0.5 * pixels[1] * image_delta\<close>. With the pixel dimensions held fixed, every
  accepted width \<open>w\<close> gives the pitch \<open>w / pixels[0]\<close>. Each operation returns
  normally whenever the width is not refused and the three expressions can be
  computed; a width \<open><= 0\<close> is refused with \<open>ValueError\<close> and the object is left as it
  was. The theorem holds for every arithmetic.
\<close>

theorem C7_derived_geometry:
  "(width_setter ar self w = Ok self1 \<longrightarrow>
      geometry_consistent ar self1 \<and> width self1 = w \<and> pixels self1 = pixels self \<and>
      py_truediv ar w (py_int ar (int (fst (pixels self)))) = Inr (image_delta self1))
   \<and> (\<not> py_le_zero ar w \<and>
       geometry_consistent ar (self\<lparr>width := w, image_delta := d, image_start_x := sx, image_start_y := sy\<rparr>) \<longrightarrow>
        width_setter ar self w = Ok (self\<lparr>width := w, image_delta := d, image_start_x := sx, image_start_y := sy\<rparr>))
   \<and> (py_le_zero ar v \<longrightarrow>
        width_setter ar self v = Raise (ValueError ''width can not be less than or equal to 0 meters.'') self)
   \<and> (pixels_setter ar base_fset self p = Ok self2 \<longrightarrow> geometry_consistent ar self2)
   \<and> (base_fset self p = Ok selfb \<and>
       geometry_consistent ar (selfb\<lparr>image_delta := d2, image_start_x := sx2, image_start_y := sy2\<rparr>) \<longrightarrow>
        pixels_setter ar base_fset self p = Ok (selfb\<lparr>image_delta := d2, image_start_x := sx2, image_start_y := sy2\<rparr>))
   \<and> (OrthographicCamera_init ar self0 w0 sub = Ok self3 \<longrightarrow>
        geometry_consistent ar self3 \<and> width self3 = w0 \<and> pixels self3 = pixels self0)
   \<and> (\<not> py_le_zero ar w0 \<and>
       geometry_consistent ar (self0\<lparr>sub_sample := sub, width := w0, image_delta := d0, image_start_x := sx0,
                                  image_start_y := sy0\<rparr>) \<longrightarrow>
        OrthographicCamera_init ar self0 w0 sub =
          Ok (self0\<lparr>sub_sample := sub, width := w0, image_delta := d0, image_start_x := sx0, image_start_y := sy0,
                point_gen := Rectangle d0 d0, vector_gen := SingleRay\<rparr>))"
proof -
  have ws: "geometry_consistent ar self1 \<and> width self1 = w \<and> pixels self1 = pixels self \<and>
      py_truediv ar w (py_int ar (int (fst (pixels self)))) = Inr (image_delta self1)"
    if a: "width_setter ar self w = Ok self1"
    using width_setter_Ok_D [OF a] by (auto simp: geometry_consistent_def)
  have ws_total: "width_setter ar self w = Ok (self\<lparr>width := w, image_delta := d, image_start_x := sx, image_start_y := sy\<rparr>)"
    if a: "\<not> py_le_zero ar w \<and>
       geometry_consistent ar (self\<lparr>width := w, image_delta := d, image_start_x := sx, image_start_y := sy\<rparr>)"
    using a update_image_geometry_total [where ar = ar and self = "self\<lparr>width := w\<rparr>" and d = d and sx = sx and sy = sy]
    by (simp add: width_setter_def)
  have ws_refused: "width_setter ar self v = Raise (ValueError ''width can not be less than or equal to 0 meters.'') self"
    if "py_le_zero ar v"
    using that by (simp add: width_setter_def)
  have ps: "geometry_consistent ar self2" if a: "pixels_setter ar base_fset self p = Ok self2"
  proof -
    from a obtain sb where sb: "base_fset self p = Ok sb" "update_image_geometry ar sb = Ok self2"
      unfolding pixels_setter_def by (blast dest: and_then_Ok_D)
    from update_image_geometry_Ok_D [OF sb(2)] show ?thesis by simp
  qed
  have ps_total: "pixels_setter ar base_fset self p = Ok (selfb\<lparr>image_delta := d2, image_start_x := sx2, image_start_y := sy2\<rparr>)"
    if a: "base_fset self p = Ok selfb \<and>
       geometry_consistent ar (selfb\<lparr>image_delta := d2, image_start_x := sx2, image_start_y := sy2\<rparr>)"
    using a update_image_geometry_total [where ar = ar and self = selfb and d = d2 and sx = sx2 and sy = sy2]
    by (simp add: pixels_setter_def)
  have ini: "geometry_consistent ar self3 \<and> width self3 = w0 \<and> pixels self3 = pixels self0"
    if a: "OrthographicCamera_init ar self0 w0 sub = Ok self3"
    using init_Ok_D [OF a] by simp
  have ini_total: "OrthographicCamera_init ar self0 w0 sub =
          Ok (self0\<lparr>sub_sample := sub, width := w0, image_delta := d0, image_start_x := sx0, image_start_y := sy0,
                point_gen := Rectangle d0 d0, vector_gen := SingleRay\<rparr>)"
    if a: "\<not> py_le_zero ar w0 \<and>
       geometry_consistent ar (self0\<lparr>sub_sample := sub, width := w0, image_delta := d0, image_start_x := sx0,
                                  image_start_y := sy0\<rparr>)"
    using a init_total [where ar = ar and w = w0 and ?self0.0 = self0 and sub = sub and d = d0 and sx = sx0 and sy = sy0]
    by blast
  from ws ws_total ws_refused ps ps_total ini ini_total show ?thesis by blast
qed

lemma refused_width:
  "width_setter python_arithmetic unit_camera (PyInt 0) =
     Raise (ValueError ''width can not be less than or equal to 0 meters.'') unit_camera"
  by (simp add: width_setter_def python_arithmetic_def)

lemma base_camera_geometry:
  "geometry_consistent python_arithmetic
     (base_camera\<lparr>sub_sample := True, width := PyInt 1, image_delta := PyFloat (1 / 2),
        image_start_x := PyFloat (1 / 2), image_start_y := PyFloat (1 / 2)\<rparr>)"
  by (simp add: geometry_consistent_def half_extent_def base_camera_def python_eval)

lemma unit_camera_built:
  "base_camera\<lparr>sub_sample := True, width := PyInt 1, image_delta := PyFloat (1 / 2),
      image_start_x := PyFloat (1 / 2), image_start_y := PyFloat (1 / 2),
      point_gen := Rectangle (PyFloat (1 / 2)) (PyFloat (1 / 2)), vector_gen := SingleRay\<rparr> = unit_camera"
  by (simp add: base_camera_def unit_camera_def)

text \<open>
  The amended claim in the arithmetic of CPython, on the 2 by 2 camera of width 1: the
  width set to 2 and to 0, the pixel dimensions set to (4, 2), and the construction.
\<close>

theorem C7_derived_geometry_witness:
  "width_setter python_arithmetic unit_camera (PyInt 2) =
     Ok (unit_camera\<lparr>width := PyInt 2, image_delta := PyFloat 1, image_start_x := PyFloat 1, image_start_y := PyFloat 1\<rparr>)
   \<and> geometry_consistent python_arithmetic
       (unit_camera\<lparr>width := PyInt 2, image_delta := PyFloat 1, image_start_x := PyFloat 1, image_start_y := PyFloat 1\<rparr>)
   \<and> py_truediv python_arithmetic (PyInt 2) (py_int python_arithmetic (int (fst (pixels unit_camera)))) = Inr (PyFloat 1)
   \<and> \<not> py_le_zero python_arithmetic (PyInt 2)
   \<and> py_le_zero python_arithmetic (PyInt 0)
   \<and> width_setter python_arithmetic unit_camera (PyInt 0) =
       Raise (ValueError ''width can not be less than or equal to 0 meters.'') unit_camera
   \<and> store_pixels unit_camera (4, 2) = Ok (unit_camera\<lparr>pixels := (4, 2)\<rparr>)
   \<and> pixels_setter python_arithmetic store_pixels unit_camera (4, 2) =
       Ok (unit_camera\<lparr>pixels := (4, 2), image_delta := PyFloat (1 / 4), image_start_x := PyFloat (1 / 2),
             image_start_y := PyFloat (1 / 4)\<rparr>)
   \<and> geometry_consistent python_arithmetic
       (unit_camera\<lparr>pixels := (4, 2), image_delta := PyFloat (1 / 4), image_start_x := PyFloat (1 / 2),
          image_start_y := PyFloat (1 / 4)\<rparr>)
   \<and> \<not> py_le_zero python_arithmetic (PyInt 1)
   \<and> OrthographicCamera_init python_arithmetic base_camera (PyInt 1) True = Ok unit_camera
   \<and> geometry_consistent python_arithmetic unit_camera"
proof -
  note claim = C7_derived_geometry [where ar = python_arithmetic and self = unit_camera and w = "PyInt 2"
      and ?self1.0 = "unit_camera\<lparr>width := PyInt 2, image_delta := PyFloat 1, image_start_x := PyFloat 1,
            image_start_y := PyFloat 1\<rparr>"
      and d = "PyFloat 1" and sx = "PyFloat 1" and sy = "PyFloat 1" and v = "PyInt 0"
      and base_fset = store_pixels and p = "(4, 2)"
      and ?self2.0 = "unit_camera\<lparr>pixels := (4, 2), image_delta := PyFloat (1 / 4), image_start_x := PyFloat (1 / 2),
            image_start_y := PyFloat (1 / 4)\<rparr>"
      and selfb = "unit_camera\<lparr>pixels := (4, 2)\<rparr>"
      and ?d2.0 = "PyFloat (1 / 4)" and ?sx2.0 = "PyFloat (1 / 2)" and ?sy2.0 = "PyFloat (1 / 4)"
      and ?self0.0 = base_camera and ?w0.0 = "PyInt 1" and sub = True and ?self3.0 = unit_camera
      and ?d0.0 = "PyFloat (1 / 2)" and ?sx0.0 = "PyFloat (1 / 2)" and ?sy0.0 = "PyFloat (1 / 2)"]
  have pos2: "\<not> py_le_zero python_arithmetic (PyInt 2)"
    by (simp add: python_arithmetic_def)
  have pos1: "\<not> py_le_zero python_arithmetic (PyInt 1)"
    by (simp add: python_arithmetic_def)
  have zero: "py_le_zero python_arithmetic (PyInt 0)"
    by (simp add: python_arithmetic_def)
  have stored: "store_pixels unit_camera (4, 2) = Ok (unit_camera\<lparr>pixels := (4, 2)\<rparr>)"
    by (simp add: store_pixels_def)
  from claim unit_camera_wide
  have wide: "geometry_consistent python_arithmetic
       (unit_camera\<lparr>width := PyInt 2, image_delta := PyFloat 1, image_start_x := PyFloat 1, image_start_y := PyFloat 1\<rparr>)
     \<and> py_truediv python_arithmetic (PyInt 2) (py_int python_arithmetic (int (fst (pixels unit_camera)))) =
         Inr (image_delta (unit_camera\<lparr>width := PyInt 2, image_delta := PyFloat 1, image_start_x := PyFloat 1,
            image_start_y := PyFloat 1\<rparr>))"
    by blast
  then have pitch: "py_truediv python_arithmetic (PyInt 2) (py_int python_arithmetic (int (fst (pixels unit_camera)))) =
      Inr (PyFloat 1)"
    by simp
  from claim zero
  have refused: "width_setter python_arithmetic unit_camera (PyInt 0) =
       Raise (ValueError ''width can not be less than or equal to 0 meters.'') unit_camera"
    by blast
  from claim unit_camera_pixels
  have grid: "geometry_consistent python_arithmetic
       (unit_camera\<lparr>pixels := (4, 2), image_delta := PyFloat (1 / 4), image_start_x := PyFloat (1 / 2),
          image_start_y := PyFloat (1 / 4)\<rparr>)"
    by blast
  from claim pos1 base_camera_geometry
  have "OrthographicCamera_init python_arithmetic base_camera (PyInt 1) True =
      Ok (base_camera\<lparr>sub_sample := True, width := PyInt 1, image_delta := PyFloat (1 / 2),
            image_start_x := PyFloat (1 / 2), image_start_y := PyFloat (1 / 2),
            point_gen := Rectangle (PyFloat (1 / 2)) (PyFloat (1 / 2)), vector_gen := SingleRay\<rparr>)"
    by blast
  then have built: "OrthographicCamera_init python_arithmetic base_camera (PyInt 1) True = Ok unit_camera"
    unfolding unit_camera_built .
  from claim built have unit: "geometry_consistent python_arithmetic unit_camera"
    by blast
  from unit_camera_wide wide pitch pos2 zero refused stored unit_camera_pixels grid pos1 built unit
  show ?thesis by blast
qed

subsection \<open>Ray generation\<close>

lemma generate_rays_Inr:
  assumes "pixel_offset ar (image_start_x self) (image_delta self) ix = Inr pixel_x"
    and "pixel_offset ar (image_start_y self) (image_delta self) iy = Inr pixel_y"
    and "call_point_generator rc (point_gen self) (pixel_samples self) = Inr origins"
    and "call_vector_generator sc (vector_gen self) (pixel_samples self) = Inr directions"
  shows "generate_rays ar rc sc self ix iy t =
     Inr (map (\<lambda>(orig, dir). ray_copy t
            (transform_point ar orig (translate pixel_x pixel_y (py_int ar 0)))
            (transform_vector dir (translate pixel_x pixel_y (py_int ar 0))))
          (zip origins directions))"
  using assms by (simp add: generate_rays_def Let_def)

lemma generate_rays_Inl:
  assumes "generate_rays ar rc sc self ix iy t = Inl e"
  shows "pixel_offset ar (image_start_x self) (image_delta self) ix = Inl e
    \<or> pixel_offset ar (image_start_y self) (image_delta self) iy = Inl e
    \<or> call_point_generator rc (point_gen self) (pixel_samples self) = Inl e
    \<or> call_vector_generator sc (vector_gen self) (pixel_samples self) = Inl e"
  using assms by (auto simp: generate_rays_def Let_def split: sum.splits)

lemma call_point_generator_length:
  "\<forall>w h n. 0 \<le> n \<longrightarrow> (\<exists>ps. rc w h n = Inr ps \<and> length ps = nat n) \<Longrightarrow> 0 \<le> n \<Longrightarrow>
     \<exists>ps. call_point_generator rc g n = Inr ps \<and> length ps = nat n"
  by (cases g) simp

lemma call_vector_generator_length:
  "\<forall>n. 0 \<le> n \<longrightarrow> (\<exists>vs. sc n = Inr vs \<and> length vs = nat n) \<Longrightarrow> 0 \<le> n \<Longrightarrow>
     \<exists>vs. call_vector_generator sc g n = Inr vs \<and> length vs = nat n"
  by (cases g) simp

text \<open>
  In the arithmetic of CPython the derived geometry of a consistent camera consists of
  floats, and both offsets are computed for every coordinate below \<open>2^1023\<close> in
  absolute value: among them every in-bounds coordinate of a pixel grid of that size.
\<close>

lemma python_geometry_floats:
  assumes "geometry_consistent python_arithmetic self"
  shows "is_float (image_delta self) \<and> is_float (image_start_x self) \<and> is_float (image_start_y self)"
proof -
  from assms have d: "python_truediv (width self) (PyInt (int (fst (pixels self)))) = Inr (image_delta self)"
    and x: "half_extent python_arithmetic (fst (pixels self)) (image_delta self) = Inr (image_start_x self)"
    and y: "half_extent python_arithmetic (snd (pixels self)) (image_delta self) = Inr (image_start_y self)"
    by (simp_all add: geometry_consistent_def python_arithmetic_def)
  have half: "is_float z" if "half_extent python_arithmetic n delta = Inr z" for n delta z
  proof -
    from that obtain h where h: "python_mul (PyFloat (1 / 2)) (PyInt (int n)) = Inr h" "python_mul h delta = Inr z"
      by (auto simp: half_extent_def python_arithmetic_def split: sum.splits)
    from python_mul_is_float [OF _ h(1)] have "is_float h" by simp
    from python_mul_is_float [OF this h(2)] show ?thesis .
  qed
  from python_truediv_is_float [OF d] half [OF x] half [OF y] show ?thesis by blast
qed

lemma python_offsets_computed:
  assumes "geometry_consistent python_arithmetic self" and "\<bar>ix\<bar> < 2 ^ 1023" and "\<bar>iy\<bar> < 2 ^ 1023"
  shows "\<exists>pixel_x pixel_y.
           pixel_offset python_arithmetic (image_start_x self) (image_delta self) ix = Inr pixel_x \<and>
           pixel_offset python_arithmetic (image_start_y self) (image_delta self) iy = Inr pixel_y"
  using python_geometry_floats [OF assms(1)]
    python_pixel_offset [of "image_start_x self" "image_delta self" ix, OF _ _ assms(2)]
    python_pixel_offset [of "image_start_y self" "image_delta self" iy, OF _ _ assms(3)]
  by blast

text \<open>
  Claim C3. For an in-bounds pixel coordinate whose two offsets the arithmetic
  computes, and a sample count \<open>pixel_samples\<close> of at least 1, with generators that
  return sequences of the requested length, \<open>_generate_rays\<close> returns exactly
  \<open>pixel_samples\<close> rays, and ray \<open>i\<close> is the copy of the ray template with the
  \<open>i\<close>-th origin and the \<open>i\<close>-th direction, each moved by the pixel translation:
  every ray is a value of its own, built by one \<open>copy\<close>. The theorem holds for every
  arithmetic; in that of CPython the two offsets are computed on every consistent
  camera for every coordinate below \<open>2^1023\<close> (\<open>python_offsets_computed\<close>).
\<close>

theorem C3_ray_batch:
  assumes "0 \<le> ix \<and> ix < int (fst (pixels self))"
    and "0 \<le> iy \<and> iy < int (snd (pixels self))"
    and "1 \<le> pixel_samples self"
    and "\<forall>w h n. 0 \<le> n \<longrightarrow> (\<exists>ps. rectangle_call w h n = Inr ps \<and> length ps = nat n)"
    and "\<forall>n. 0 \<le> n \<longrightarrow> (\<exists>vs. single_ray_call n = Inr vs \<and> length vs = nat n)"
    and "pixel_offset ar (image_start_x self) (image_delta self) ix = Inr pixel_x"
    and "pixel_offset ar (image_start_y self) (image_delta self) iy = Inr pixel_y"
  shows "\<exists>rays origins directions.
           generate_rays ar rectangle_call single_ray_call self ix iy ray_template = Inr rays \<and>
           call_point_generator rectangle_call (point_gen self) (pixel_samples self) = Inr origins \<and>
           call_vector_generator single_ray_call (vector_gen self) (pixel_samples self) = Inr directions \<and>
           length rays = nat (pixel_samples self) \<and>
           (\<forall>i < length rays. rays ! i =
              ray_copy ray_template
                (transform_point ar (origins ! i) (translate pixel_x pixel_y (py_int ar 0)))
                (transform_vector (directions ! i) (translate pixel_x pixel_y (py_int ar 0))))"
proof -
  from assms(3) have n: "0 \<le> pixel_samples self" by simp
  from call_point_generator_length [OF assms(4) n]
  obtain origins where lp: "call_point_generator rectangle_call (point_gen self) (pixel_samples self) = Inr origins"
    "length origins = nat (pixel_samples self)" by blast
  from call_vector_generator_length [OF assms(5) n]
  obtain directions where lv: "call_vector_generator single_ray_call (vector_gen self) (pixel_samples self) = Inr directions"
    "length directions = nat (pixel_samples self)" by blast
  show ?thesis
    unfolding generate_rays_Inr [OF assms(6) assms(7) lp(1) lv(1)] using lp lv by simp
qed

lemma corner_sampler_length:
  "\<forall>w h n. 0 \<le> n \<longrightarrow> (\<exists>ps. corner_sampler w h n = Inr ps \<and> length ps = nat n)"
  by (simp add: corner_sampler_def)

lemma axis_sampler_length: "\<forall>n. 0 \<le> n \<longrightarrow> (\<exists>vs. axis_sampler n = Inr vs \<and> length vs = nat n)"
  by (simp add: axis_sampler_def)

lemma replicate_two: "replicate 2 x = [x, x]"
  by (simp add: numeral_2_eq_2)

lemma unit_camera_offset_1:
  "pixel_offset python_arithmetic (image_start_x unit_camera) (image_delta unit_camera) 1 = Inr (PyFloat 0)"
  by (simp add: pixel_offset_def unit_camera_def python_eval)

lemma unit_camera_offset_0:
  "pixel_offset python_arithmetic (image_start_y unit_camera) (image_delta unit_camera) 0 = Inr (PyFloat (1 / 2))"
  by (simp add: pixel_offset_def unit_camera_def python_eval)

text \<open>
  The claim at pixel (1, 0) of the 2 by 2 camera with two samples per pixel, in the
  arithmetic of CPython; the two samplers return sequences of the requested length
  (\<open>corner_sampler_length\<close>, \<open>axis_sampler_length\<close>).
\<close>

theorem C3_ray_batch_witness:
  "(0 \<le> (1::int) \<and> 1 < int (fst (pixels unit_camera)))
   \<and> (0 \<le> (0::int) \<and> 0 < int (snd (pixels unit_camera)))
   \<and> 1 \<le> pixel_samples unit_camera
   \<and> pixel_offset python_arithmetic (image_start_x unit_camera) (image_delta unit_camera) 1 = Inr (PyFloat 0)
   \<and> pixel_offset python_arithmetic (image_start_y unit_camera) (image_delta unit_camera) 0 = Inr (PyFloat (1 / 2))
   \<and> (\<exists>rays. generate_rays python_arithmetic corner_sampler axis_sampler unit_camera 1 0 template_ray = Inr rays \<and>
         length rays = nat (pixel_samples unit_camera))"
proof -
  have px: "0 \<le> (1::int) \<and> 1 < int (fst (pixels unit_camera))"
    by (simp add: unit_camera_def)
  have py: "0 \<le> (0::int) \<and> 0 < int (snd (pixels unit_camera))"
    by (simp add: unit_camera_def)
  have n: "1 \<le> pixel_samples unit_camera"
    by (simp add: unit_camera_def)
  from C3_ray_batch [OF px py n corner_sampler_length axis_sampler_length
      unit_camera_offset_1 unit_camera_offset_0, of template_ray]
  have "\<exists>rays. generate_rays python_arithmetic corner_sampler axis_sampler unit_camera 1 0 template_ray = Inr rays \<and>
         length rays = nat (pixel_samples unit_camera)"
    by blast
  with px py n unit_camera_offset_1 unit_camera_offset_0 show ?thesis by blast
qed

lemmas camera_eval = generate_rays_def pixel_offset_def width_setter_def update_image_geometry_def
  half_extent_def OrthographicCamera_init_def unit_camera_def base_camera_def template_ray_def ray_copy_def
  translate_def corner_sampler_def axis_sampler_def replicate_two python_eval

text \<open>
  Claim C4 as stated fails: at the coordinate (5, -7), outside the 2 by 2 grid,
  \<open>_generate_rays\<close> returns two rays and no error, and with a sample count of 0 it
  returns the empty batch and no error.
\<close>

theorem C4_no_rejection_counterexample:
  "\<not> (0 \<le> (5::int) \<and> 5 < int (fst (pixels unit_camera)))
   \<and> \<not> (0 \<le> (-7::int))
   \<and> generate_rays python_arithmetic corner_sampler axis_sampler unit_camera 5 (-7) template_ray =
       Inr [\<lparr>origin = Point3D (PyFloat (- 7 / 4)) (PyFloat (17 / 4)) (PyFloat 0),
              direction = Vector3D (PyFloat 0) (PyFloat 0) (PyFloat 1), params = ()\<rparr>,
            \<lparr>origin = Point3D (PyFloat (- 7 / 4)) (PyFloat (17 / 4)) (PyFloat 0),
              direction = Vector3D (PyFloat 0) (PyFloat 0) (PyFloat 1), params = ()\<rparr>]
   \<and> generate_rays python_arithmetic corner_sampler axis_sampler (unit_camera\<lparr>pixel_samples := 0\<rparr>) 0 0 template_ray =
       Inr []"
  by (simp add: camera_eval)

text \<open>
  Claim C4, amended. \<open>_generate_rays\<close> checks neither the pixel coordinate nor the
  sample count. Every error it raises is one that the arithmetic of a pixel offset or
  a generator raised; and for every coordinate, in bounds or not, and every sample
  count, whenever the two offsets are computed and the two generators return, it
  returns one ray for each (origin, direction) pair they supply.
\<close>

theorem C4_no_validation:
  "(generate_rays ar rectangle_call single_ray_call self ix iy ray_template = Inl e \<longrightarrow>
      pixel_offset ar (image_start_x self) (image_delta self) ix = Inl e
      \<or> pixel_offset ar (image_start_y self) (image_delta self) iy = Inl e
      \<or> call_point_generator rectangle_call (point_gen self) (pixel_samples self) = Inl e
      \<or> call_vector_generator single_ray_call (vector_gen self) (pixel_samples self) = Inl e)
   \<and> (pixel_offset ar (image_start_x self) (image_delta self) jx = Inr pixel_x
      \<and> pixel_offset ar (image_start_y self) (image_delta self) jy = Inr pixel_y
      \<and> call_point_generator rectangle_call (point_gen self) (pixel_samples self) = Inr origins
      \<and> call_vector_generator single_ray_call (vector_gen self) (pixel_samples self) = Inr directions \<longrightarrow>
        generate_rays ar rectangle_call single_ray_call self jx jy ray_template =
          Inr (map (\<lambda>(orig, dir). ray_copy ray_template
                      (transform_point ar orig (translate pixel_x pixel_y (py_int ar 0)))
                      (transform_vector dir (translate pixel_x pixel_y (py_int ar 0))))
                   (zip origins directions))
        \<and> length (projr (generate_rays ar rectangle_call single_ray_call self jx jy ray_template)) =
            min (length origins) (length directions))"
proof -
  have raised: "pixel_offset ar (image_start_x self) (image_delta self) ix = Inl e
      \<or> pixel_offset ar (image_start_y self) (image_delta self) iy = Inl e
      \<or> call_point_generator rectangle_call (point_gen self) (pixel_samples self) = Inl e
      \<or> call_vector_generator single_ray_call (vector_gen self) (pixel_samples self) = Inl e"
    if "generate_rays ar rectangle_call single_ray_call self ix iy ray_template = Inl e"
    using that by (rule generate_rays_Inl)
  have returned: "generate_rays ar rectangle_call single_ray_call self jx jy ray_template =
          Inr (map (\<lambda>(orig, dir). ray_copy ray_template
                      (transform_point ar orig (translate pixel_x pixel_y (py_int ar 0)))
                      (transform_vector dir (translate pixel_x pixel_y (py_int ar 0))))
                   (zip origins directions))
        \<and> length (projr (generate_rays ar rectangle_call single_ray_call self jx jy ray_template)) =
            min (length origins) (length directions)"
    if a: "pixel_offset ar (image_start_x self) (image_delta self) jx = Inr pixel_x
      \<and> pixel_offset ar (image_start_y self) (image_delta self) jy = Inr pixel_y
      \<and> call_point_generator rectangle_call (point_gen self) (pixel_samples self) = Inr origins
      \<and> call_vector_generator single_ray_call (vector_gen self) (pixel_samples self) = Inr directions"
    using generate_rays_Inr [of ar self jx pixel_x jy pixel_y rectangle_call origins single_ray_call directions ray_template] a
    by simp
  from raised returned show ?thesis by blast
qed

lemma unit_camera_offset_5:
  "pixel_offset python_arithmetic (image_start_x unit_camera) (image_delta unit_camera) 5 = Inr (PyFloat (- 2))"
  by (simp add: pixel_offset_def unit_camera_def python_eval)

lemma unit_camera_offset_minus_7:
  "pixel_offset python_arithmetic (image_start_y unit_camera) (image_delta unit_camera) (- 7) = Inr (PyFloat 4)"
  by (simp add: pixel_offset_def unit_camera_def python_eval)

lemma unit_camera_offset_huge:
  "pixel_offset python_arithmetic (image_start_x unit_camera) (image_delta unit_camera) (10 ^ 400) = Inl OverflowError"
  by (simp add: pixel_offset_def unit_camera_def python_eval)

lemma unit_camera_rays_huge:
  "generate_rays python_arithmetic corner_sampler axis_sampler unit_camera (10 ^ 400) 0 template_ray = Inl OverflowError"
  unfolding generate_rays_def unit_camera_offset_huge by simp

lemma unit_camera_origins:
  "call_point_generator corner_sampler (point_gen unit_camera) (pixel_samples unit_camera) =
     Inr [Point3D (PyFloat (1 / 4)) (PyFloat (1 / 4)) (PyFloat 0), Point3D (PyFloat (1 / 4)) (PyFloat (1 / 4)) (PyFloat 0)]"
  by (simp add: unit_camera_def corner_sampler_def replicate_two binary64_eval)

lemma unit_camera_directions:
  "call_vector_generator axis_sampler (vector_gen unit_camera) (pixel_samples unit_camera) =
     Inr [Vector3D (PyFloat 0) (PyFloat 0) (PyFloat 1), Vector3D (PyFloat 0) (PyFloat 0) (PyFloat 1)]"
  by (simp add: unit_camera_def axis_sampler_def replicate_two)

text \<open>
  The amended claim on the 2 by 2 camera in the arithmetic of CPython: at the
  coordinate \<open>(10 ** 400, 0)\<close> the error is the \<open>OverflowError\<close> of the first offset
  (the int is too large for a float), and at (5, -7) the batch has the two rays of
  the two pairs.
\<close>

theorem C4_no_validation_witness:
  "generate_rays python_arithmetic corner_sampler axis_sampler unit_camera (10 ^ 400) 0 template_ray = Inl OverflowError
   \<and> pixel_offset python_arithmetic (image_start_x unit_camera) (image_delta unit_camera) (10 ^ 400) = Inl OverflowError
   \<and> pixel_offset python_arithmetic (image_start_x unit_camera) (image_delta unit_camera) 5 = Inr (PyFloat (- 2))
   \<and> pixel_offset python_arithmetic (image_start_y unit_camera) (image_delta unit_camera) (- 7) = Inr (PyFloat 4)
   \<and> call_point_generator corner_sampler (point_gen unit_camera) (pixel_samples unit_camera) =
       Inr [Point3D (PyFloat (1 / 4)) (PyFloat (1 / 4)) (PyFloat 0), Point3D (PyFloat (1 / 4)) (PyFloat (1 / 4)) (PyFloat 0)]
   \<and> call_vector_generator axis_sampler (vector_gen unit_camera) (pixel_samples unit_camera) =
       Inr [Vector3D (PyFloat 0) (PyFloat 0) (PyFloat 1), Vector3D (PyFloat 0) (PyFloat 0) (PyFloat 1)]
   \<and> length (projr (generate_rays python_arithmetic corner_sampler axis_sampler unit_camera 5 (- 7) template_ray)) = 2"
proof -
  note claim = C4_no_validation [where ar = python_arithmetic and rectangle_call = corner_sampler
      and single_ray_call = axis_sampler and self = unit_camera and ix = "10 ^ 400" and iy = 0
      and ray_template = template_ray and e = OverflowError and jx = 5 and jy = "- 7"
      and pixel_x = "PyFloat (- 2)" and pixel_y = "PyFloat 4"
      and origins = "[Point3D (PyFloat (1 / 4)) (PyFloat (1 / 4)) (PyFloat 0), Point3D (PyFloat (1 / 4)) (PyFloat (1 / 4)) (PyFloat 0)]"
      and directions = "[Vector3D (PyFloat 0) (PyFloat 0) (PyFloat 1), Vector3D (PyFloat 0) (PyFloat 0) (PyFloat 1)]"]
  from claim unit_camera_offset_5 unit_camera_offset_minus_7 unit_camera_origins unit_camera_directions
  have "length (projr (generate_rays python_arithmetic corner_sampler axis_sampler unit_camera 5 (- 7) template_ray)) =
      min (length [Point3D (PyFloat (1 / 4)) (PyFloat (1 / 4)) (PyFloat 0), Point3D (PyFloat (1 / 4)) (PyFloat (1 / 4)) (PyFloat 0)])
          (length [Vector3D (PyFloat 0) (PyFloat 0) (PyFloat 1), Vector3D (PyFloat 0) (PyFloat 0) (PyFloat 1)])"
    by blast
  then have two: "length (projr (generate_rays python_arithmetic corner_sampler axis_sampler unit_camera 5 (- 7) template_ray)) = 2"
    by simp
  from unit_camera_rays_huge unit_camera_offset_huge unit_camera_offset_5 unit_camera_offset_minus_7
    unit_camera_origins unit_camera_directions two
  show ?thesis by blast
qed

text \<open>
  Claim C8 against the code. The point generator is built once, in \<open>__init__\<close>, from
  the \<open>image_delta\<close> of that moment, and no setter rebuilds it. On the 2 by 2 camera
  constructed with width 1 the generator is \<open>Rectangle(0.5, 0.5)\<close>; after
  \<open>width = 2\<close> the pixel pitch is 1 and the generator is still \<open>Rectangle(0.5, 0.5)\<close>,
  so the sampler that returns the corner of its footprint yields origins at 5/4
  where a camera constructed with width 2 yields 3/2.
\<close>

theorem C8_stale_point_generator:
  "OrthographicCamera_init python_arithmetic base_camera (PyInt 1) True = Ok unit_camera
   \<and> point_gen unit_camera = Rectangle (image_delta unit_camera) (image_delta unit_camera)
   \<and> image_delta (state_of (width_setter python_arithmetic unit_camera (PyInt 2))) = PyFloat 1
   \<and> point_gen (state_of (width_setter python_arithmetic unit_camera (PyInt 2))) = Rectangle (PyFloat (1 / 2)) (PyFloat (1 / 2))
   \<and> generate_rays python_arithmetic corner_sampler axis_sampler
        (state_of (width_setter python_arithmetic unit_camera (PyInt 2))) 0 0 template_ray =
       Inr [\<lparr>origin = Point3D (PyFloat (5 / 4)) (PyFloat (5 / 4)) (PyFloat 0),
              direction = Vector3D (PyFloat 0) (PyFloat 0) (PyFloat 1), params = ()\<rparr>,
            \<lparr>origin = Point3D (PyFloat (5 / 4)) (PyFloat (5 / 4)) (PyFloat 0),
              direction = Vector3D (PyFloat 0) (PyFloat 0) (PyFloat 1), params = ()\<rparr>]
   \<and> generate_rays python_arithmetic corner_sampler axis_sampler
        (state_of (OrthographicCamera_init python_arithmetic base_camera (PyInt 2) True)) 0 0 template_ray =
       Inr [\<lparr>origin = Point3D (PyFloat (3 / 2)) (PyFloat (3 / 2)) (PyFloat 0),
              direction = Vector3D (PyFloat 0) (PyFloat 0) (PyFloat 1), params = ()\<rparr>,
            \<lparr>origin = Point3D (PyFloat (3 / 2)) (PyFloat (3 / 2)) (PyFloat 0),
              direction = Vector3D (PyFloat 0) (PyFloat 0) (PyFloat 1), params = ()\<rparr>]"
  by (simp add: unit_camera_init) (simp add: camera_eval)

text \<open>
  Claim C10. Two cameras that differ only in the \<open>sub_sample\<close> flag generate the same
  ray batch at every pixel coordinate (with the same outcome of the samplers).
\<close>

theorem C10_sub_sample_ignored:
  assumes "cam2 = cam1\<lparr>sub_sample := b\<rparr>"
  shows "generate_rays ar rectangle_call single_ray_call cam2 ix iy ray_template =
         generate_rays ar rectangle_call single_ray_call cam1 ix iy ray_template"
  using assms by (simp add: generate_rays_def cong: sum.case_cong)

text \<open>
  The claim on the 2 by 2 camera with the flag set and cleared.
\<close>

theorem C10_sub_sample_ignored_witness:
  "unit_camera\<lparr>sub_sample := False\<rparr> = unit_camera\<lparr>sub_sample := False\<rparr>
   \<and> sub_sample (unit_camera\<lparr>sub_sample := False\<rparr>) \<noteq> sub_sample unit_camera
   \<and> generate_rays python_arithmetic corner_sampler axis_sampler (unit_camera\<lparr>sub_sample := False\<rparr>) 1 0 template_ray =
     generate_rays python_arithmetic corner_sampler axis_sampler unit_camera 1 0 template_ray"
  using C10_sub_sample_ignored [where ?cam2.0 = "unit_camera\<lparr>sub_sample := False\<rparr>"
      and ?cam1.0 = unit_camera and b = False and ar = python_arithmetic and rectangle_call = corner_sampler
      and single_ray_call = axis_sampler and ix = 1 and iy = 0 and ray_template = template_ray]
  by (simp add: unit_camera_def)

section \<open>Properties of the pipeline\<close>

subsection \<open>display and initialise\<close>

lemma display_Some:
  "rgb_frame self = Some rgb \<Longrightarrow> xyz_frame self = Some f \<Longrightarrow>
     display (self, plt) = Ok (self, plt @ [Figure1 (np_transpose_102 rgb), Figure2 f])"
  by (simp add: display_def)

lemma display_None:
  "rgb_frame self = None \<Longrightarrow>
     display (self, plt) = Raise (RuntimeError ''No frame data to display.'') (self, plt)"
  by (simp add: display_def)

lemma display_pipeline: "fst (state_of (display (self, plt))) = self"
  by (simp add: display_def split: option.splits)

lemma refreshes_append: "refreshes (xs @ ys) = refreshes xs + refreshes ys"
  by (induction xs rule: refreshes.induct) simp_all

lemma display_refreshes:
  "refreshes (snd (state_of (display (self, plt)))) =
     refreshes plt + (if rgb_frame self = None then 0 else 1)"
  by (simp add: display_def refreshes_append split: option.splits)

lemma must_reallocate_iff:
  "must_reallocate self p \<longleftrightarrow>
     \<not> (accumulate self \<and> (\<exists>f. xyz_frame self = Some f \<and> frame_pixels f = p))"
  by (auto simp: must_reallocate_def split: option.splits)

lemma initialise_start:
  "initialise rs p n slices later (self, plt) = start_display later (prepared rs p n slices self, plt)"
  by (simp add: initialise_def prepared_def Let_def)

lemma start_display_state:
  "\<exists>t. fst (state_of (start_display later (self, plt))) = self\<lparr>display_timer := t\<rparr>"
  by (auto simp: start_display_def display_def set_display_timer_def Let_def split: option.splits)

lemma initialise_state:
  "\<exists>t. fst (state_of (initialise rs p n slices later (self, plt))) = (prepared rs p n slices self)\<lparr>display_timer := t\<rparr>"
  unfolding initialise_start by (rule start_display_state)

lemma shape_np_zeros: "shape (np_zeros sh) = sh"
  by (simp add: np_zeros_def)

lemma item_np_zeros: "item (np_zeros sh) i j k = 0"
  by (simp add: np_zeros_def)

lemma frame_pixels_Frame2D: "frame_pixels (Frame2D p ch) = p"
  by (simp add: Frame2D_def)

lemma frame_shaped_Frame2D: "frame_shaped (Frame2D p 3)"
  by (simp add: frame_shaped_def Frame2D_def np_zeros_def)

lemma prepared_ready:
  "buffers_consistent self \<Longrightarrow> render_ready (prepared rs p n slices self)"
  by (auto simp: prepared_def render_ready_def buffers_consistent_def must_reallocate_def
      shaped_like_def frame_shaped_Frame2D frame_pixels_Frame2D shape_np_zeros split: option.splits)


subsection \<open>Arrays\<close>

lemma np_index_nat: "i < n \<Longrightarrow> np_index n (int i) = Some i"
  by (simp add: np_index_def)

lemma np_index_less: "np_index n x = Some i \<Longrightarrow> i < n"
  by (auto simp: np_index_def split: if_splits)

lemma np_index_channel:
  "np_index 3 0 = Some 0" "np_index 3 1 = Some 1" "np_index 3 2 = Some 2"
  by (simp_all add: np_index_def)

lemma locate_in:
  "shape a = (nx, ny, 3) \<Longrightarrow> i < nx \<Longrightarrow> j < ny \<Longrightarrow>
     locate a (int i) (int j) 0 = Some (i, j, 0) \<and>
     locate a (int i) (int j) 1 = Some (i, j, 1) \<and>
     locate a (int i) (int j) 2 = Some (i, j, 2)"
  by (simp add: locate_def np_index_nat np_index_channel)

lemma locate_Some_D:
  "locate a x y c = Some (i, j, k) \<Longrightarrow>
     np_index (fst (shape a)) x = Some i \<and> np_index (fst (snd (shape a))) y = Some j \<and>
     np_index (snd (snd (shape a))) c = Some k"
  by (auto simp: locate_def split: prod.splits option.splits)

lemma setitem_shape: "setitem a x y c v = Inr a' \<Longrightarrow> shape a' = shape a"
  by (auto simp: setitem_def split: option.splits)

lemma setitem_item:
  "setitem a x y c v = Inr a' \<Longrightarrow> locate a x y c = Some (i, j, k) \<Longrightarrow>
     item a' i' j' k' = (if i' = i \<and> j' = j \<and> k' = k then v else item a i' j' k')"
  by (auto simp: setitem_def split: option.splits)

lemma setitem_located: "setitem a x y c v = Inr a' \<Longrightarrow> \<exists>i j k. locate a x y c = Some (i, j, k)"
  by (auto simp: setitem_def split: option.splits)

lemma getitem_located:
  "getitem a x y c = Inr v \<Longrightarrow> \<exists>i j k. locate a x y c = Some (i, j, k) \<and> v = item a i j k"
  by (auto simp: getitem_def split: option.splits)

lemma getitem_in: "locate a x y c = Some (i, j, k) \<Longrightarrow> getitem a x y c = Inr (item a i j k)"
  by (simp add: getitem_def)

lemma setitem_in:
  "locate a x y c = Some (i, j, k) \<Longrightarrow>
     \<exists>a'. setitem a x y c v = Inr a' \<and> shape a' = shape a \<and>
       (\<forall>i' j' k'. item a' i' j' k' = (if i' = i \<and> j' = j \<and> k' = k then v else item a i' j' k'))"
  by (simp add: setitem_def)

lemma locate_shape: "shape a' = shape a \<Longrightarrow> locate a' x y c = locate a x y c"
  by (simp add: locate_def)


subsection \<open>What update may change\<close>

lemma state_of_and_then:
  "state_of (and_then r f) = (case r of Ok s \<Rightarrow> state_of (f s) | Raise e s \<Rightarrow> s)"
  by (cases r) simp_all

lemma iadd_Inr_D:
  "iadd arr x y c v = Inr a' \<Longrightarrow>
     \<exists>a i j k. arr = Some a \<and> locate a x y c = Some (i, j, k) \<and> shape a' = shape a \<and>
       (\<forall>i' j' k'. item a' i' j' k' =
          (if i' = i \<and> j' = j \<and> k' = k then item a i j k + v else item a i' j' k'))"
  by (auto simp: iadd_def getitem_def setitem_def split: option.splits sum.splits)

lemma iadd_touched: "iadd arr x y c v = Inr a' \<Longrightarrow> touched_only x y arr (Some a')"
  by (drule iadd_Inr_D) (auto simp: touched_only_def dest!: locate_Some_D)

lemma touched_only_refl: "touched_only x y a a"
  by (simp add: touched_only_def split: option.splits)

lemma touched_only_trans:
  "touched_only x y a b \<Longrightarrow> touched_only x y b c \<Longrightarrow> touched_only x y a c"
  by (auto simp: touched_only_def split: option.splits)

lemma np_index_0: "np_index n 0 = Some k \<Longrightarrow> k = 0"
  by (auto simp: np_index_def split: if_splits)

lemma np_index_1: "np_index n 1 = Some k \<Longrightarrow> k = 1"
  by (auto simp: np_index_def split: if_splits)

lemma np_index_2: "np_index n 2 = Some k \<Longrightarrow> k = 2"
  by (auto simp: np_index_def split: if_splits)

lemma iadd_three:
  assumes "iadd arr x y 0 v0 = Inr a1" "iadd (Some a1) x y 1 v1 = Inr a2" "iadd (Some a2) x y 2 v2 = Inr a3"
  shows "\<exists>a i j. arr = Some a \<and> np_index (fst (shape a)) x = Some i \<and>
           np_index (fst (snd (shape a))) y = Some j \<and> shape a3 = shape a \<and>
           item a3 i j 0 = item a i j 0 + v0 \<and> item a3 i j 1 = item a i j 1 + v1 \<and>
           item a3 i j 2 = item a i j 2 + v2"
proof -
  from iadd_Inr_D [OF assms(1)] obtain a i j k where
    1: "arr = Some a" "locate a x y 0 = Some (i, j, k)" "shape a1 = shape a"
      "\<And>i' j' k'. item a1 i' j' k' = (if i' = i \<and> j' = j \<and> k' = k then item a i j k + v0 else item a i' j' k')"
    by blast
  from iadd_Inr_D [OF assms(2)] obtain i2 j2 k2 where
    2: "locate a1 x y 1 = Some (i2, j2, k2)" "shape a2 = shape a1"
      "\<And>i' j' k'. item a2 i' j' k' = (if i' = i2 \<and> j' = j2 \<and> k' = k2 then item a1 i2 j2 k2 + v1 else item a1 i' j' k')"
    by auto
  from iadd_Inr_D [OF assms(3)] obtain i3 j3 k3 where
    3: "locate a2 x y 2 = Some (i3, j3, k3)" "shape a3 = shape a2"
      "\<And>i' j' k'. item a3 i' j' k' = (if i' = i3 \<and> j' = j3 \<and> k' = k3 then item a2 i3 j3 k3 + v2 else item a2 i' j' k')"
    by auto
  from locate_Some_D [OF 1(2)] have l1: "np_index (fst (shape a)) x = Some i"
    "np_index (fst (snd (shape a))) y = Some j" "k = 0"
    by (auto dest: np_index_0)
  from locate_Some_D [OF 2(1)] 1(3) l1 have l2: "i2 = i" "j2 = j" "k2 = 1"
    by (auto dest: np_index_1)
  from locate_Some_D [OF 3(1)] 1(3) 2(2) l1 have l3: "i3 = i" "j3 = j" "k3 = 2"
    by (auto dest: np_index_2)
  show ?thesis
    using 1(1) l1 l2 l3 1(3) 2(2) 3(2) by (simp add: 1(4) 2(3) 3(3))
qed


lemma same_shape_refl: "same_shape a a"
  by (simp add: same_shape_def split: option.splits)

lemma same_shape_trans: "same_shape a b \<Longrightarrow> same_shape b c \<Longrightarrow> same_shape a c"
  by (auto simp: same_shape_def split: option.splits)

lemma same_shape_None: "same_shape a b \<Longrightarrow> (b = None \<longleftrightarrow> a = None)"
  by (auto simp: same_shape_def split: option.splits)

lemma update_effect_refl: "update_effect x y s s"
  by (simp add: update_effect_def touched_only_refl same_shape_refl)

lemma update_effect_trans:
  "update_effect x y a b \<Longrightarrow> update_effect x y b c \<Longrightarrow> update_effect x y a c"
  unfolding update_effect_def by (metis touched_only_trans same_shape_trans)

lemma and_then_effect:
  assumes "update_effect x y s (state_of r)" and "\<And>s1. update_effect x y s1 (state_of (f s1))"
  shows "update_effect x y s (state_of (and_then r f))"
proof (cases r)
  case (Ok s1)
  with assms(1) have "update_effect x y s s1" by simp
  from update_effect_trans [OF this assms(2) [of s1]] Ok show ?thesis by simp
next
  case (Raise e s1)
  with assms(1) show ?thesis by simp
qed

lemma for_each_effect:
  assumes "\<And>i s. update_effect x y s (state_of (body i s))"
  shows "update_effect x y s (state_of (for_each xs body s))"
proof (induction xs arbitrary: s)
  case Nil
  show ?case by (simp add: update_effect_refl)
next
  case (Cons i rest)
  show ?case
    unfolding for_each.simps by (rule and_then_effect [OF assms Cons.IH])
qed

lemma add_working_mean_effect: "update_effect x y s (state_of (add_working_mean x y c v s))"
  by (auto simp: add_working_mean_def update_effect_def touched_only_refl same_shape_refl iadd_touched
      split: sum.splits)

lemma add_working_variance_effect: "update_effect x y s (state_of (add_working_variance x y c v s))"
  by (auto simp: add_working_variance_def update_effect_def touched_only_refl same_shape_refl iadd_touched
      split: sum.splits)

lemma accumulate_effect:
  "update_effect x y s (state_of (accumulate_sub_samples (x, y) packed_result s))"
proof -
  obtain m0 m1 m2 v0 v1 v2 where p: "packed_result = ((m0, m1, m2), (v0, v1, v2))"
    by (metis prod_cases3)
  show ?thesis
    unfolding accumulate_sub_samples_def p prod.case
    by (intro and_then_effect add_working_mean_effect add_working_variance_effect)
qed

lemma and_then_rel:
  assumes "R s (state_of r)" and "\<And>s1. R s1 (state_of (f s1))"
    and "\<And>a b c. R a b \<Longrightarrow> R b c \<Longrightarrow> R a c"
  shows "R s (state_of (and_then r f))"
proof (cases r)
  case (Ok s1)
  with assms(1) have "R s s1" by simp
  from assms(3) [OF this assms(2) [of s1]] Ok show ?thesis by simp
next
  case (Raise e s1)
  with assms(1) show ?thesis by simp
qed

lemma for_each_rel:
  assumes "\<And>s. R s s" and "\<And>a b c. R a b \<Longrightarrow> R b c \<Longrightarrow> R a c"
    and "\<And>i s. R s (state_of (body i s))"
  shows "R s (state_of (for_each xs body s))"
proof (induction xs arbitrary: s)
  case Nil
  show ?case by (simp add: assms(1))
next
  case (Cons i rest)
  show ?case
    unfolding for_each.simps
    by (rule and_then_rel [where R = R, OF assms(3) Cons.IH assms(2)])
qed

lemma only_rgb_refl: "only_rgb s s"
  unfolding only_rgb_def by (rule exI [of _ "rgb_frame s"]) (simp add: same_shape_refl)

lemma only_rgb_trans:
  assumes "only_rgb a b" and "only_rgb b c"
  shows "only_rgb a c"
proof -
  from assms(1) obtain r where r: "b = a\<lparr>rgb_frame := r\<rparr>" "same_shape (rgb_frame a) r"
    by (auto simp: only_rgb_def)
  from assms(2) r(1) obtain r' where r': "c = a\<lparr>rgb_frame := r'\<rparr>" "same_shape r r'"
    by (auto simp: only_rgb_def)
  from same_shape_trans [OF r(2) r'(2)] r'(1) show ?thesis
    unfolding only_rgb_def by blast
qed

lemmas and_then_only_rgb = and_then_rel [where R = only_rgb, OF _ _ only_rgb_trans]

lemmas for_each_only_rgb = for_each_rel [where R = only_rgb, OF only_rgb_refl only_rgb_trans]

lemma set_rgb_only_rgb: "only_rgb s (state_of (set_rgb ix iy c v s))"
proof (cases "set_rgb ix iy c v s")
  case (Ok s')
  then obtain rgb rgb' where "rgb_frame s = Some rgb" "s' = s\<lparr>rgb_frame := Some rgb'\<rparr>"
    "shape rgb' = shape rgb"
    by (auto simp: set_rgb_def dest: setitem_shape split: option.splits sum.splits)
  with Ok show ?thesis by (auto simp: only_rgb_def same_shape_def)
next
  case (Raise e s')
  then have "s' = s" by (auto simp: set_rgb_def split: option.splits sum.splits)
  with Raise show ?thesis by (simp add: only_rgb_refl)
qed

lemma srgb_pixel_only_rgb: "only_rgb s (state_of (srgb_pixel cie ix iy s))"
proof -
  have "only_rgb s (state_of (and_then (and_then (set_rgb ix iy 0 r s) (set_rgb ix iy 1 g)) (set_rgb ix iy 2 b)))"
    for r g b
    by (intro and_then_only_rgb set_rgb_only_rgb)
  then show ?thesis
    by (auto simp: srgb_pixel_def only_rgb_refl split: sum.splits prod.splits)
qed

lemma generate_srgb_frame_only_rgb: "only_rgb s (state_of (generate_srgb_frame cie s))"
proof (cases "rgb_frame s")
  case None
  then show ?thesis by (simp add: generate_srgb_frame_def only_rgb_refl)
next
  case (Some rgb)
  obtain nx ny nc where sh: "shape rgb = (nx, ny, nc)" by (metis prod_cases3)
  have "only_rgb s (state_of (for_each [0..<nx] (\<lambda>ix. for_each [0..<ny] (\<lambda>iy. srgb_pixel cie ix iy)) s))"
    by (intro for_each_only_rgb srgb_pixel_only_rgb)
  with Some sh show ?thesis by (simp add: generate_srgb_frame_def)
qed

lemma with_plt_state: "state_of (with_plt plt r) = (state_of r, plt)"
  by (cases r) (simp_all add: with_plt_def)

lemma with_plt_Ok: "with_plt plt r = Ok w \<longleftrightarrow> (\<exists>s. r = Ok s \<and> w = (s, plt))"
  by (cases r) (auto simp: with_plt_def)

lemma update_display_skip:
  "\<not> (display_progress s \<and> display_update_time s < now - display_timer s) \<Longrightarrow>
     update_display cie now later (s, plt) = Ok (s, plt)"
  by (auto simp: update_display_def)

lemma update_display_go:
  "display_progress s \<Longrightarrow> display_update_time s < now - display_timer s \<Longrightarrow>
     update_display cie now later (s, plt) =
       and_then (and_then
         (with_plt (plt @ [Print ''RGBPipeline2D updating display...'']) (generate_srgb_frame cie s))
         display)
         (set_display_timer later)"
  by (simp add: update_display_def)

lemma timer_self: "only_rgb a b \<Longrightarrow> \<exists>s1 t. b = s1\<lparr>display_timer := t\<rparr> \<and> only_rgb a s1"
  by (rule exI [of _ b], rule exI [of _ "display_timer b"]) simp

lemma update_display_state:
  "\<exists>s1 t plt'. state_of (update_display cie now later (s, plt)) = (s1\<lparr>display_timer := t\<rparr>, plt') \<and> only_rgb s s1"
proof (cases "display_progress s \<and> display_update_time s < now - display_timer s")
  case False
  from update_display_skip [OF False]
  have "state_of (update_display cie now later (s, plt)) = (s\<lparr>display_timer := display_timer s\<rparr>, plt)"
    by simp
  with only_rgb_refl show ?thesis by blast
next
  case True
  let ?plt1 = "plt @ [Print ''RGBPipeline2D updating display...'']"
  from True have go: "update_display cie now later (s, plt) =
       and_then (and_then (with_plt ?plt1 (generate_srgb_frame cie s)) display) (set_display_timer later)"
    by (simp add: update_display_go)
  have o: "only_rgb s (state_of (generate_srgb_frame cie s))"
    by (rule generate_srgb_frame_only_rgb)
  show ?thesis
  proof (cases "generate_srgb_frame cie s")
    case (Raise e s1)
    then have "state_of (update_display cie now later (s, plt)) = (s1, ?plt1)"
      unfolding go by (simp add: with_plt_def)
    moreover from o Raise have "only_rgb s s1" by simp
    ultimately show ?thesis using timer_self [of s s1] by auto
  next
    case (Ok s1)
    with o have o1: "only_rgb s s1" by simp
    show ?thesis
    proof (cases "display (s1, ?plt1)")
      case (Raise e w)
      then have "fst w = s1" using display_pipeline [of s1 ?plt1] by simp
      with Ok Raise have "state_of (update_display cie now later (s, plt)) = (s1\<lparr>display_timer := display_timer s1\<rparr>, snd w)"
        unfolding go by (simp add: with_plt_def prod_eq_iff)
      with o1 show ?thesis by blast
    next
      case (Ok w) note d = this
      then have "fst w = s1" using display_pipeline [of s1 ?plt1] by simp
      with \<open>generate_srgb_frame cie s = Ok s1\<close> d
      have "state_of (update_display cie now later (s, plt)) = (s1\<lparr>display_timer := later\<rparr>, snd w)"
        unfolding go by (cases w) (simp add: with_plt_def set_display_timer_def)
      with o1 show ?thesis by blast
    qed
  qed
qed

lemma update_state:
  "\<exists>s1 s2 t plt'. state_of (update cie (x, y) packed_result slice_id now later (s, plt)) = (s2\<lparr>display_timer := t\<rparr>, plt') \<and>
     s1 = state_of (accumulate_sub_samples (x, y) packed_result s) \<and> only_rgb s1 s2"
proof (cases "accumulate_sub_samples (x, y) packed_result s")
  case (Raise e s1)
  then have "state_of (update cie (x, y) packed_result slice_id now later (s, plt)) = (s1, plt)"
    by (simp add: update_def with_plt_def)
  with Raise timer_self [OF only_rgb_refl [of s1]] show ?thesis by auto
next
  case (Ok s1)
  then have "update cie (x, y) packed_result slice_id now later (s, plt) = update_display cie now later (s1, plt)"
    by (simp add: update_def with_plt_def)
  with update_display_state [of cie now later s1 plt] Ok show ?thesis by auto
qed

lemma only_rgb_effect: "only_rgb s1 s2 \<Longrightarrow> update_effect x y s1 (s2\<lparr>display_timer := t\<rparr>)"
  by (auto simp: only_rgb_def update_effect_def touched_only_refl)

lemma update_effect_update:
  "update_effect x y s (fst (state_of (update cie (x, y) packed_result slice_id now later (s, plt))))"
proof -
  from update_state [of cie x y packed_result slice_id now later s plt]
  obtain s2 t plt' where
    st: "state_of (update cie (x, y) packed_result slice_id now later (s, plt)) = (s2\<lparr>display_timer := t\<rparr>, plt')"
    and o: "only_rgb (state_of (accumulate_sub_samples (x, y) packed_result s)) s2"
    by blast
  from update_effect_trans [OF accumulate_effect only_rgb_effect [OF o]] st
  show ?thesis by simp
qed


text \<open>
  A pipeline that is ready for the render pass stays so through every \<open>update\<close>,
  whatever its outcome.
\<close>

lemma touched_only_shaped: "touched_only x y a b \<Longrightarrow> shaped_like f b = shaped_like f a"
  by (auto simp: touched_only_def shaped_like_def split: option.splits)

lemma same_shape_shaped: "same_shape a b \<Longrightarrow> shaped_like f b = shaped_like f a"
  by (auto simp: same_shape_def shaped_like_def split: option.splits)

lemma update_effect_ready:
  assumes "update_effect x y s s'" and "render_ready s"
  shows "render_ready s'"
proof -
  from assms(2) obtain f where f: "xyz_frame s = Some f" "frame_shaped f" "shaped_like f (rgb_frame s)"
    "shaped_like f (working_mean s)" "shaped_like f (working_variance s)"
    by (auto simp: render_ready_def split: option.splits)
  from assms(1) have e: "xyz_frame s' = xyz_frame s"
    "touched_only x y (working_mean s) (working_mean s')"
    "touched_only x y (working_variance s) (working_variance s')"
    "same_shape (rgb_frame s) (rgb_frame s')"
    by (simp_all add: update_effect_def)
  show ?thesis
    using f e(1) touched_only_shaped [OF e(2), of f] touched_only_shaped [OF e(3), of f]
      same_shape_shaped [OF e(4), of f]
    by (simp add: render_ready_def)
qed

lemma update_keeps_ready:
  "render_ready s \<Longrightarrow>
     render_ready (fst (state_of (update cie pixel_id packed_result slice_id now later (s, plt))))"
proof -
  assume r: "render_ready s"
  obtain x y where p: "pixel_id = (x, y)" by (cases pixel_id)
  show ?thesis
    unfolding p by (rule update_effect_ready [OF update_effect_update r])
qed

subsection \<open>The loops of finalise\<close>

lemma for_each_inv:
  assumes "distinct xs" and "set xs \<inter> D = {}" and "P D s"
    and step: "\<And>i D s. i \<in> set xs \<Longrightarrow> i \<notin> D \<Longrightarrow> P D s \<Longrightarrow> \<exists>s'. body i s = Ok s' \<and> P (insert i D) s'"
  shows "\<exists>s'. for_each xs body s = Ok s' \<and> P (D \<union> set xs) s'"
  using assms
proof (induction xs arbitrary: D s)
  case Nil
  then show ?case by simp
next
  case (Cons i rest)
  from Cons.prems have i: "i \<in> set (i # rest)" "i \<notin> D" by auto
  from Cons.prems(4) [OF i Cons.prems(3)] obtain s1 where
    s1: "body i s = Ok s1" "P (insert i D) s1" by blast
  from Cons.prems have d: "distinct rest" "set rest \<inter> insert i D = {}" by auto
  have "\<exists>s'. for_each rest body s1 = Ok s' \<and> P (insert i D \<union> set rest) s'"
    by (rule Cons.IH [OF d s1(2)]) (rule Cons.prems(4), auto)
  then show ?case using s1(1) by simp
qed

lemma locate_cong: "shape a = shape b \<Longrightarrow> locate a x y c = locate b x y c"
  by (simp add: locate_def)

lemma combine_samples_in:
  assumes "frame_shaped f" and "locate (frame_mean f) x y c = Some (i, j, k)"
  shows "\<exists>f'. combine_samples f x y c m v n = Inr f' \<and> frame_pixels f' = frame_pixels f \<and>
           frame_shaped f' \<and>
           (\<forall>i' j' k'. statistic_at f' i' j' k' =
              (if i' = i \<and> j' = j \<and> k' = k then pooled_merge (statistic_at f i j k) (m, v, n)
               else statistic_at f i' j' k'))"
proof -
  from assms(1) have sh: "shape (frame_variance f) = shape (frame_mean f)"
    "shape (frame_samples f) = shape (frame_mean f)"
    by (simp_all add: frame_shaped_def)
  have lv: "locate (frame_variance f) x y c = Some (i, j, k)"
    using assms(2) locate_cong [OF sh(1), of x y c] by simp
  have ls: "locate (frame_samples f) x y c = Some (i, j, k)"
    using assms(2) locate_cong [OF sh(2), of x y c] by simp
  obtain mt vt nt where pm: "pooled_merge (statistic_at f i j k) (m, v, n) = (mt, vt, nt)"
    by (metis prod_cases3)
  from setitem_in [OF assms(2), of mt] obtain ma where
    ma: "setitem (frame_mean f) x y c mt = Inr ma" "shape ma = shape (frame_mean f)"
      "\<And>i' j' k'. item ma i' j' k' = (if i' = i \<and> j' = j \<and> k' = k then mt else item (frame_mean f) i' j' k')"
    by blast
  from setitem_in [OF lv, of vt] obtain va where
    va: "setitem (frame_variance f) x y c vt = Inr va" "shape va = shape (frame_variance f)"
      "\<And>i' j' k'. item va i' j' k' = (if i' = i \<and> j' = j \<and> k' = k then vt else item (frame_variance f) i' j' k')"
    by blast
  from setitem_in [OF ls, of nt] obtain na where
    na: "setitem (frame_samples f) x y c nt = Inr na" "shape na = shape (frame_samples f)"
      "\<And>i' j' k'. item na i' j' k' = (if i' = i \<and> j' = j \<and> k' = k then nt else item (frame_samples f) i' j' k')"
    by blast
  have "combine_samples f x y c m v n = Inr (f\<lparr>frame_mean := ma, frame_variance := va, frame_samples := na\<rparr>)"
    using pm ma(1) va(1) na(1)
    by (simp add: combine_samples_def getitem_in [OF assms(2)] getitem_in [OF lv] getitem_in [OF ls]
        statistic_at_def)
  moreover have "frame_shaped (f\<lparr>frame_mean := ma, frame_variance := va, frame_samples := na\<rparr>)"
    using assms(1) ma(2) va(2) na(2) by (simp add: frame_shaped_def)
  moreover have "statistic_at (f\<lparr>frame_mean := ma, frame_variance := va, frame_samples := na\<rparr>) i' j' k' =
              (if i' = i \<and> j' = j \<and> k' = k then pooled_merge (statistic_at f i j k) (m, v, n)
               else statistic_at f i' j' k')" for i' j' k'
    by (simp add: statistic_at_def ma(3) va(3) na(3) pm [unfolded statistic_at_def])
  ultimately show ?thesis by simp
qed


lemma merge_channel_step:
  assumes ready: "render_ready s0" and inv: "merged_on E s0 s"
    and f0: "xyz_frame s0 = Some f0" and x: "x < fst (frame_pixels f0)" and y: "y < snd (frame_pixels f0)"
    and c: "(c, k) \<in> {(0, 0), (1, 1), (2, 2)}" and new: "(x, y, k) \<notin> E"
  shows "\<exists>s'. merge_channel x y c s = Ok s' \<and> merged_on (insert (x, y, k) E) s0 s'"
proof -
  from inv f0 obtain f wm wv where
    s: "working_mean s0 = Some wm" "working_variance s0 = Some wv" "s = s0\<lparr>xyz_frame := Some f\<rparr>"
      "frame_pixels f = frame_pixels f0" "frame_shaped f"
    and st: "\<And>i j k. statistic_at f i j k =
           (if (i, j, k) \<in> E
            then pooled_merge (statistic_at f0 i j k) (item wm i j k, item wv i j k, samples s0)
            else statistic_at f0 i j k)"
    by (auto simp: merged_on_def)
  from ready f0 s(1,2) have shw: "shape wm = (fst (frame_pixels f0), snd (frame_pixels f0), 3)"
    "shape wv = (fst (frame_pixels f0), snd (frame_pixels f0), 3)"
    by (simp_all add: render_ready_def shaped_like_def)
  from s(4,5) have shf: "shape (frame_mean f) = (fst (frame_pixels f0), snd (frame_pixels f0), 3)"
    by (simp add: frame_shaped_def)
  from c locate_in [OF shw(1) x y] have lm: "locate wm (int x) (int y) c = Some (x, y, k)" by auto
  from c locate_in [OF shw(2) x y] have lv: "locate wv (int x) (int y) c = Some (x, y, k)" by auto
  from c locate_in [OF shf x y] have lf: "locate (frame_mean f) (int x) (int y) c = Some (x, y, k)" by auto
  from combine_samples_in [OF s(5) lf, of "item wm x y k" "item wv x y k" "samples s0"]
  obtain f' where f': "combine_samples f (int x) (int y) c (item wm x y k) (item wv x y k) (samples s0) = Inr f'"
    "frame_pixels f' = frame_pixels f" "frame_shaped f'"
    "\<And>i' j' k'. statistic_at f' i' j' k' =
              (if i' = x \<and> j' = y \<and> k' = k
               then pooled_merge (statistic_at f x y k) (item wm x y k, item wv x y k, samples s0)
               else statistic_at f i' j' k')"
    by blast
  have run: "merge_channel x y c s = Ok (s0\<lparr>xyz_frame := Some f'\<rparr>)"
    using f'(1) by (simp add: merge_channel_def s(1,2,3) working_at_def getitem_in [OF lm] getitem_in [OF lv])
  have "merged_on (insert (x, y, k) E) s0 (s0\<lparr>xyz_frame := Some f'\<rparr>)"
    unfolding merged_on_def
    using f0 s(1,2,4) f'(2,3) new by (auto simp: f'(4) st)
  with run show ?thesis by blast
qed

lemma merge_pixel_step:
  assumes ready: "render_ready s0" and inv: "merged_on E s0 s"
    and f0: "xyz_frame s0 = Some f0" and x: "x < fst (frame_pixels f0)" and y: "y < snd (frame_pixels f0)"
    and new: "\<And>k. (x, y, k) \<notin> E"
  shows "\<exists>s'. merge_pixel x y s = Ok s' \<and> merged_on (E \<union> {(x, y, 0), (x, y, 1), (x, y, 2)}) s0 s'"
proof -
  from merge_channel_step [OF ready inv f0 x y, of 0 0] new obtain s1 where
    1: "merge_channel x y 0 s = Ok s1" "merged_on (insert (x, y, 0) E) s0 s1" by auto
  from merge_channel_step [OF ready 1(2) f0 x y, of 1 1] new obtain s2 where
    2: "merge_channel x y 1 s1 = Ok s2" "merged_on (insert (x, y, 1) (insert (x, y, 0) E)) s0 s2" by auto
  from merge_channel_step [OF ready 2(2) f0 x y, of 2 2] new obtain s3 where
    3: "merge_channel x y 2 s2 = Ok s3"
      "merged_on (insert (x, y, 2) (insert (x, y, 1) (insert (x, y, 0) E))) s0 s3" by auto
  have eq: "insert (x, y, 2) (insert (x, y, 1) (insert (x, y, 0) E)) = E \<union> {(x, y, 0), (x, y, 1), (x, y, 2::nat)}"
    by auto
  have "merge_pixel x y s = Ok s3" using 1(1) 2(1) 3(1) by (simp add: merge_pixel_def)
  with 3(2) [unfolded eq] show ?thesis by blast
qed

lemma merged_on_start:
  assumes "render_ready s0"
  shows "merged_on {} s0 s0"
proof -
  from assms obtain f0 wm wv where
    a: "xyz_frame s0 = Some f0" "working_mean s0 = Some wm" "working_variance s0 = Some wv" "frame_shaped f0"
    by (auto simp: render_ready_def shaped_like_def split: option.splits)
  have e: "s0 = s0\<lparr>xyz_frame := Some f0\<rparr>" using a(1) by simp
  have "xyz_frame s0 = Some f0 \<and> working_mean s0 = Some wm \<and> working_variance s0 = Some wv \<and>
        s0 = s0\<lparr>xyz_frame := Some f0\<rparr> \<and> frame_pixels f0 = frame_pixels f0 \<and> frame_shaped f0 \<and>
        (\<forall>i j k. statistic_at f0 i j k =
           (if (i, j, k) \<in> {}
            then pooled_merge (statistic_at f0 i j k) (item wm i j k, item wv i j k, samples s0)
            else statistic_at f0 i j k))"
    using a e by simp
  then show ?thesis unfolding merged_on_def by blast
qed

lemma merge_row:
  assumes ready: "render_ready s0" and f0: "xyz_frame s0 = Some f0"
    and x: "x < fst (frame_pixels f0)" and inv: "merged_on E s0 s" and new: "\<And>j k. (x, j, k) \<notin> E"
  shows "\<exists>s'. for_each [0..<snd (frame_pixels f0)] (\<lambda>y. merge_pixel x y) s = Ok s' \<and>
           merged_on (E \<union> {x} \<times> {0..<snd (frame_pixels f0)} \<times> {0, 1, 2}) s0 s'"
proof -
  let ?P = "\<lambda>D s. merged_on (E \<union> {x} \<times> D \<times> {0, 1, 2}) s0 s"
  have "\<exists>s'. for_each [0..<snd (frame_pixels f0)] (\<lambda>y. merge_pixel x y) s = Ok s' \<and>
          ?P ({} \<union> set [0..<snd (frame_pixels f0)]) s'"
  proof (rule for_each_inv [where P = ?P])
    show "distinct [0..<snd (frame_pixels f0)]" by simp
    show "set [0..<snd (frame_pixels f0)] \<inter> {} = {}" by simp
    show "?P {} s" using inv by simp
  next
    fix y D s1
    assume y: "y \<in> set [0..<snd (frame_pixels f0)]" and nD: "y \<notin> D" and P: "?P D s1"
    from y have y': "y < snd (frame_pixels f0)" by simp
    have fresh: "(x, y, k) \<notin> E \<union> {x} \<times> D \<times> {0, 1, 2}" for k using new nD by auto
    from merge_pixel_step [OF ready P f0 x y' fresh] obtain s' where
      s': "merge_pixel x y s1 = Ok s'"
        "merged_on (E \<union> {x} \<times> D \<times> {0, 1, 2} \<union> {(x, y, 0), (x, y, 1), (x, y, 2)}) s0 s'" by blast
    have eq: "E \<union> {x} \<times> D \<times> {0, 1, 2::nat} \<union> {(x, y, 0), (x, y, 1), (x, y, 2)} = E \<union> {x} \<times> insert y D \<times> {0, 1, 2}"
      by auto
    from s'(1) s'(2) [unfolded eq]
    show "\<exists>s'. merge_pixel x y s1 = Ok s' \<and> ?P (insert y D) s'" by blast
  qed
  then show ?thesis by simp
qed

lemma merge_working_frame_ok:
  assumes ready: "render_ready s0" and f0: "xyz_frame s0 = Some f0"
  shows "\<exists>s'. merge_working_frame s0 = Ok s' \<and>
           merged_on ({0..<fst (frame_pixels f0)} \<times> {0..<snd (frame_pixels f0)} \<times> {0, 1, 2}) s0 s'"
proof -
  let ?ny = "snd (frame_pixels f0)"
  let ?P = "\<lambda>D s. merged_on (D \<times> {0..<?ny} \<times> {0, 1, 2}) s0 s"
  have "\<exists>s'. for_each [0..<fst (frame_pixels f0)] (\<lambda>x. for_each [0..<?ny] (\<lambda>y. merge_pixel x y)) s0 = Ok s' \<and>
          ?P ({} \<union> set [0..<fst (frame_pixels f0)]) s'"
  proof (rule for_each_inv [where P = ?P])
    show "distinct [0..<fst (frame_pixels f0)]" by simp
    show "set [0..<fst (frame_pixels f0)] \<inter> {} = {}" by simp
    show "?P {} s0" using merged_on_start [OF ready] by simp
  next
    fix x D s1
    assume x: "x \<in> set [0..<fst (frame_pixels f0)]" and nD: "x \<notin> D" and P: "?P D s1"
    from x have x': "x < fst (frame_pixels f0)" by simp
    have fresh: "(x, j, k) \<notin> D \<times> {0..<?ny} \<times> {0, 1, 2}" for j k using nD by auto
    from merge_row [OF ready f0 x' P fresh] obtain s' where
      s': "for_each [0..<?ny] (\<lambda>y. merge_pixel x y) s1 = Ok s'"
        "merged_on (D \<times> {0..<?ny} \<times> {0, 1, 2} \<union> {x} \<times> {0..<?ny} \<times> {0, 1, 2}) s0 s'" by blast
    have eq: "D \<times> {0..<?ny} \<times> {0, 1, 2::nat} \<union> {x} \<times> {0..<?ny} \<times> {0, 1, 2} = insert x D \<times> {0..<?ny} \<times> {0, 1, 2}"
      by auto
    from s'(1) s'(2) [unfolded eq]
    show "\<exists>s'. for_each [0..<?ny] (\<lambda>y. merge_pixel x y) s1 = Ok s' \<and> ?P (insert x D) s'" by blast
  qed
  then show ?thesis using f0 by (simp add: merge_working_frame_def)
qed


lemma set_rgb_in:
  assumes "rgb_frame s = Some rgb" and "locate rgb (int ix) (int iy) c = Some (i, j, k)"
  shows "\<exists>rgb'. set_rgb ix iy c v s = Ok (s\<lparr>rgb_frame := Some rgb'\<rparr>) \<and> shape rgb' = shape rgb \<and>
           (\<forall>i' j' k'. item rgb' i' j' k' = (if i' = i \<and> j' = j \<and> k' = k then v else item rgb i' j' k'))"
  using setitem_in [OF assms(2), of v] assms(1) by (auto simp: set_rgb_def)

lemma srgb_pixel_step:
  assumes f: "xyz_frame s1 = Some f" "shape (frame_mean f) = (nx, ny, 3)"
    and rgb1: "rgb_frame s1 = Some rgb1" "shape rgb1 = (nx, ny, 3)"
    and inv: "resolved_on E cie s1 s"
    and ix: "ix < nx" and iy: "iy < ny" and new: "(ix, iy) \<notin> E"
  shows "\<exists>s'. srgb_pixel cie ix iy s = Ok s' \<and> resolved_on (insert (ix, iy) E) cie s1 s'"
proof -
  from inv f(1) rgb1(1) obtain rgb where
    s: "s = s1\<lparr>rgb_frame := Some rgb\<rparr>" "shape rgb = shape rgb1"
    and old: "\<And>i j. (i, j) \<in> E \<Longrightarrow>
           (item rgb i j 0, item rgb i j 1, item rgb i j 2) =
             cie (item (frame_mean f) i j 0 * sensitivity s1)
                 (item (frame_mean f) i j 1 * sensitivity s1)
                 (item (frame_mean f) i j 2 * sensitivity s1)"
    by (auto simp: resolved_on_def)
  note lf = locate_in [OF f(2) ix iy]
  have m: "frame_mean_at s ix iy 0 = Inr (item (frame_mean f) ix iy 0)"
    "frame_mean_at s ix iy 1 = Inr (item (frame_mean f) ix iy 1)"
    "frame_mean_at s ix iy 2 = Inr (item (frame_mean f) ix iy 2)"
    using lf by (simp_all add: frame_mean_at_def s(1) f(1) getitem_in)
  obtain r g b where c: "cie (item (frame_mean f) ix iy 0 * sensitivity s1)
                 (item (frame_mean f) ix iy 1 * sensitivity s1)
                 (item (frame_mean f) ix iy 2 * sensitivity s1) = (r, g, b)"
    by (metis prod_cases3)
  have sh: "shape rgb = (nx, ny, 3)" using s(2) rgb1(2) by simp
  have r0: "rgb_frame s = Some rgb" by (simp add: s(1))
  from set_rgb_in [OF r0, of ix iy 0 ix iy 0 r] locate_in [OF sh ix iy] obtain rgb_a where
    a: "set_rgb ix iy 0 r s = Ok (s\<lparr>rgb_frame := Some rgb_a\<rparr>)" "shape rgb_a = shape rgb"
      "\<And>i' j' k'. item rgb_a i' j' k' = (if i' = ix \<and> j' = iy \<and> k' = 0 then r else item rgb i' j' k')"
    by auto
  have sha: "shape rgb_a = (nx, ny, 3)" using a(2) sh by simp
  have ra: "rgb_frame (s\<lparr>rgb_frame := Some rgb_a\<rparr>) = Some rgb_a" by simp
  from set_rgb_in [OF ra, of ix iy 1 ix iy 1 g] locate_in [OF sha ix iy] obtain rgb_b where
    b: "set_rgb ix iy 1 g (s\<lparr>rgb_frame := Some rgb_a\<rparr>) = Ok (s\<lparr>rgb_frame := Some rgb_b\<rparr>)"
      "shape rgb_b = shape rgb_a"
      "\<And>i' j' k'. item rgb_b i' j' k' = (if i' = ix \<and> j' = iy \<and> k' = 1 then g else item rgb_a i' j' k')"
    by auto
  have shb: "shape rgb_b = (nx, ny, 3)" using b(2) sha by simp
  have rb: "rgb_frame (s\<lparr>rgb_frame := Some rgb_b\<rparr>) = Some rgb_b" by simp
  from set_rgb_in [OF rb, of ix iy 2 ix iy 2 b] locate_in [OF shb ix iy] obtain rgb_c where
    cc: "set_rgb ix iy 2 b (s\<lparr>rgb_frame := Some rgb_b\<rparr>) = Ok (s\<lparr>rgb_frame := Some rgb_c\<rparr>)"
      "shape rgb_c = shape rgb_b"
      "\<And>i' j' k'. item rgb_c i' j' k' = (if i' = ix \<and> j' = iy \<and> k' = 2 then b else item rgb_b i' j' k')"
    by auto
  have sens: "sensitivity s = sensitivity s1" by (simp add: s(1))
  have "srgb_pixel cie ix iy s = Ok (s\<lparr>rgb_frame := Some rgb_c\<rparr>)"
    using a(1) b(1) cc(1) c by (simp add: srgb_pixel_def m sens)
  then have run: "srgb_pixel cie ix iy s = Ok (s1\<lparr>rgb_frame := Some rgb_c\<rparr>)"
    by (simp add: s(1))
  have here: "(item rgb_c ix iy 0, item rgb_c ix iy 1, item rgb_c ix iy 2) = (r, g, b)"
    by (simp add: cc(3) b(3) a(3))
  have other: "(item rgb_c i j 0, item rgb_c i j 1, item rgb_c i j 2) = (item rgb i j 0, item rgb i j 1, item rgb i j 2)"
    if "(i, j) \<noteq> (ix, iy)" for i j
    using that by (auto simp: cc(3) b(3) a(3))
  have "resolved_on (insert (ix, iy) E) cie s1 (s1\<lparr>rgb_frame := Some rgb_c\<rparr>)"
    unfolding resolved_on_def
  proof (intro exI conjI allI impI)
    show "xyz_frame s1 = Some f" by (rule f(1))
    show "rgb_frame s1 = Some rgb1" by (rule rgb1(1))
    show "s1\<lparr>rgb_frame := Some rgb_c\<rparr> = s1\<lparr>rgb_frame := Some rgb_c\<rparr>" by (rule refl)
    show "shape rgb_c = shape rgb1" using cc(2) b(2) a(2) s(2) by simp
  next
    fix i j
    assume ij: "(i, j) \<in> insert (ix, iy) E"
    show "(item rgb_c i j 0, item rgb_c i j 1, item rgb_c i j 2) =
             cie (item (frame_mean f) i j 0 * sensitivity s1)
                 (item (frame_mean f) i j 1 * sensitivity s1)
                 (item (frame_mean f) i j 2 * sensitivity s1)"
    proof (cases "(i, j) = (ix, iy)")
      case True
      then show ?thesis using here c by simp
    next
      case False
      with ij have "(i, j) \<in> E" by auto
      from old [OF this] other [OF False] show ?thesis by simp
    qed
  qed
  with run show ?thesis by blast
qed

lemma resolved_on_start:
  assumes "xyz_frame s1 = Some f" "rgb_frame s1 = Some rgb1"
  shows "resolved_on {} cie s1 s1"
proof -
  have "s1 = s1\<lparr>rgb_frame := Some rgb1\<rparr>" using assms(2) by simp
  then have "xyz_frame s1 = Some f \<and> rgb_frame s1 = Some rgb1 \<and>
        s1 = s1\<lparr>rgb_frame := Some rgb1\<rparr> \<and> shape rgb1 = shape rgb1 \<and>
        (\<forall>i j. (i, j) \<in> {} \<longrightarrow>
           (item rgb1 i j 0, item rgb1 i j 1, item rgb1 i j 2) =
             cie (item (frame_mean f) i j 0 * sensitivity s1)
                 (item (frame_mean f) i j 1 * sensitivity s1)
                 (item (frame_mean f) i j 2 * sensitivity s1))"
    using assms by simp
  then show ?thesis unfolding resolved_on_def by blast
qed

lemma generate_srgb_frame_ok:
  assumes f: "xyz_frame s1 = Some f" "shape (frame_mean f) = (nx, ny, 3)"
    and rgb1: "rgb_frame s1 = Some rgb1" "shape rgb1 = (nx, ny, 3)"
  shows "\<exists>s'. generate_srgb_frame cie s1 = Ok s' \<and> resolved_on ({0..<nx} \<times> {0..<ny}) cie s1 s'"
proof -
  let ?P = "\<lambda>D s. resolved_on (D \<times> {0..<ny}) cie s1 s"
  have row: "\<exists>s'. for_each [0..<ny] (\<lambda>iy. srgb_pixel cie ix iy) s = Ok s' \<and>
          resolved_on (E \<union> {ix} \<times> {0..<ny}) cie s1 s'"
    if ix: "ix < nx" and inv: "resolved_on E cie s1 s" and new: "\<And>j. (ix, j) \<notin> E" for ix E s
  proof -
    let ?Q = "\<lambda>D s. resolved_on (E \<union> {ix} \<times> D) cie s1 s"
    have "\<exists>s'. for_each [0..<ny] (\<lambda>iy. srgb_pixel cie ix iy) s = Ok s' \<and> ?Q ({} \<union> set [0..<ny]) s'"
    proof (rule for_each_inv [where P = ?Q])
      show "distinct [0..<ny]" by simp
      show "set [0..<ny] \<inter> {} = {}" by simp
      show "?Q {} s" using inv by simp
    next
      fix iy D s2
      assume iy: "iy \<in> set [0..<ny]" and nD: "iy \<notin> D" and Q: "?Q D s2"
      from iy have iy': "iy < ny" by simp
      have fresh: "(ix, iy) \<notin> E \<union> {ix} \<times> D" using new nD by auto
      from srgb_pixel_step [OF f rgb1 Q ix iy' fresh] obtain s' where
        s': "srgb_pixel cie ix iy s2 = Ok s'" "resolved_on (insert (ix, iy) (E \<union> {ix} \<times> D)) cie s1 s'"
        by blast
      have eq: "insert (ix, iy) (E \<union> {ix} \<times> D) = E \<union> {ix} \<times> insert iy D" by auto
      from s'(1) s'(2) [unfolded eq]
      show "\<exists>s'. srgb_pixel cie ix iy s2 = Ok s' \<and> ?Q (insert iy D) s'" by blast
    qed
    then show ?thesis by simp
  qed
  have "\<exists>s'. for_each [0..<nx] (\<lambda>ix. for_each [0..<ny] (\<lambda>iy. srgb_pixel cie ix iy)) s1 = Ok s' \<and>
          ?P ({} \<union> set [0..<nx]) s'"
  proof (rule for_each_inv [where P = ?P])
    show "distinct [0..<nx]" by simp
    show "set [0..<nx] \<inter> {} = {}" by simp
    show "?P {} s1" using resolved_on_start [OF f(1) rgb1(1)] by simp
  next
    fix ix D s2
    assume ix: "ix \<in> set [0..<nx]" and nD: "ix \<notin> D" and P: "?P D s2"
    from ix have ix': "ix < nx" by simp
    have fresh: "(ix, j) \<notin> D \<times> {0..<ny}" for j using nD by auto
    from row [OF ix' P fresh] obtain s' where
      s': "for_each [0..<ny] (\<lambda>iy. srgb_pixel cie ix iy) s2 = Ok s'"
        "resolved_on (D \<times> {0..<ny} \<union> {ix} \<times> {0..<ny}) cie s1 s'" by blast
    have eq: "D \<times> {0..<ny} \<union> {ix} \<times> {0..<ny} = insert ix D \<times> {0..<ny}" by auto
    from s'(1) s'(2) [unfolded eq]
    show "\<exists>s'. for_each [0..<ny] (\<lambda>iy. srgb_pixel cie ix iy) s2 = Ok s' \<and> ?P (insert ix D) s'" by blast
  qed
  then show ?thesis using rgb1 by (simp add: generate_srgb_frame_def)
qed


subsection \<open>The normal return of update\<close>

lemma add_working_mean_Ok_D:
  "add_working_mean x y c v s = Ok s' \<Longrightarrow>
     \<exists>a'. iadd (working_mean s) x y c v = Inr a' \<and> s' = s\<lparr>working_mean := Some a'\<rparr>"
  by (auto simp: add_working_mean_def split: sum.splits)

lemma add_working_variance_Ok_D:
  "add_working_variance x y c v s = Ok s' \<Longrightarrow>
     \<exists>a'. iadd (working_variance s) x y c v = Inr a' \<and> s' = s\<lparr>working_variance := Some a'\<rparr>"
  by (auto simp: add_working_variance_def split: sum.splits)

lemma accumulate_Ok_D:
  assumes "accumulate_sub_samples (x, y) ((m0, m1, m2), (v0, v1, v2)) s = Ok s'"
  shows "\<exists>a a' b b' i j i' j'.
      working_mean s = Some a \<and> working_variance s = Some b \<and>
      s' = s\<lparr>working_mean := Some a', working_variance := Some b'\<rparr> \<and>
      np_index (fst (shape a)) x = Some i \<and> np_index (fst (snd (shape a))) y = Some j \<and>
      item a' i j 0 = item a i j 0 + m0 \<and> item a' i j 1 = item a i j 1 + m1 \<and>
      item a' i j 2 = item a i j 2 + m2 \<and>
      np_index (fst (shape b)) x = Some i' \<and> np_index (fst (snd (shape b))) y = Some j' \<and>
      item b' i' j' 0 = item b i' j' 0 + v0 \<and> item b' i' j' 1 = item b i' j' 1 + v1 \<and>
      item b' i' j' 2 = item b i' j' 2 + v2"
proof -
  from assms obtain s1 s2 s3 s4 s5 where
    st: "add_working_mean x y 0 m0 s = Ok s1" "add_working_mean x y 1 m1 s1 = Ok s2"
      "add_working_mean x y 2 m2 s2 = Ok s3" "add_working_variance x y 0 v0 s3 = Ok s4"
      "add_working_variance x y 1 v1 s4 = Ok s5" "add_working_variance x y 2 v2 s5 = Ok s'"
    unfolding accumulate_sub_samples_def prod.case by (blast dest!: and_then_Ok_D)
  from add_working_mean_Ok_D [OF st(1)] obtain a1 where
    1: "iadd (working_mean s) x y 0 m0 = Inr a1" "s1 = s\<lparr>working_mean := Some a1\<rparr>" by blast
  from add_working_mean_Ok_D [OF st(2)] 1(2) obtain a2 where
    2: "iadd (Some a1) x y 1 m1 = Inr a2" "s2 = s\<lparr>working_mean := Some a2\<rparr>" by auto
  from add_working_mean_Ok_D [OF st(3)] 2(2) obtain a3 where
    3: "iadd (Some a2) x y 2 m2 = Inr a3" "s3 = s\<lparr>working_mean := Some a3\<rparr>" by auto
  from add_working_variance_Ok_D [OF st(4)] 3(2) obtain b1 where
    4: "iadd (working_variance s) x y 0 v0 = Inr b1"
      "s4 = s\<lparr>working_mean := Some a3, working_variance := Some b1\<rparr>" by auto
  from add_working_variance_Ok_D [OF st(5)] 4(2) obtain b2 where
    5: "iadd (Some b1) x y 1 v1 = Inr b2"
      "s5 = s\<lparr>working_mean := Some a3, working_variance := Some b2\<rparr>" by auto
  from add_working_variance_Ok_D [OF st(6)] 5(2) obtain b3 where
    6: "iadd (Some b2) x y 2 v2 = Inr b3"
      "s' = s\<lparr>working_mean := Some a3, working_variance := Some b3\<rparr>" by auto
  from iadd_three [OF 1(1) 2(1) 3(1)] iadd_three [OF 4(1) 5(1) 6(1)] 6(2)
  show ?thesis by blast
qed

lemma iadd_in:
  "locate a x y c = Some (i, j, k) \<Longrightarrow> \<exists>a'. iadd (Some a) x y c v = Inr a' \<and> shape a' = shape a"
  using setitem_in [of a x y c i j k "item a i j k + v"]
  by (auto simp: iadd_def getitem_in)

lemma locate_wrapped:
  "shape a = (nx, ny, 3) \<Longrightarrow> np_index nx x = Some i \<Longrightarrow> np_index ny y = Some j \<Longrightarrow>
     locate a x y 0 = Some (i, j, 0) \<and> locate a x y 1 = Some (i, j, 1) \<and> locate a x y 2 = Some (i, j, 2)"
  by (simp add: locate_def np_index_channel)

lemma iadd_thrice_ok:
  assumes "shape a = (nx, ny, 3)" "np_index nx x = Some i" "np_index ny y = Some j"
  shows "\<exists>a1 a2 a3. iadd (Some a) x y 0 v0 = Inr a1 \<and> iadd (Some a1) x y 1 v1 = Inr a2 \<and>
           iadd (Some a2) x y 2 v2 = Inr a3 \<and> shape a3 = (nx, ny, 3)"
proof -
  from locate_wrapped [OF assms] iadd_in [of a x y 0 i j 0 v0] obtain a1 where
    1: "iadd (Some a) x y 0 v0 = Inr a1" "shape a1 = (nx, ny, 3)" using assms(1) by auto
  from locate_wrapped [OF 1(2) assms(2,3)] iadd_in [of a1 x y 1 i j 1 v1] obtain a2 where
    2: "iadd (Some a1) x y 1 v1 = Inr a2" "shape a2 = (nx, ny, 3)" using 1(2) by auto
  from locate_wrapped [OF 2(2) assms(2,3)] iadd_in [of a2 x y 2 i j 2 v2] obtain a3 where
    3: "iadd (Some a2) x y 2 v2 = Inr a3" "shape a3 = (nx, ny, 3)" using 2(2) by auto
  from 1 2 3 show ?thesis by blast
qed

lemma accumulate_ok:
  assumes "working_mean s = Some a" "working_variance s = Some b"
    and "shape a = (nx, ny, 3)" "shape b = (nx, ny, 3)"
    and "np_index nx x = Some i" "np_index ny y = Some j"
  shows "\<exists>a' b'. accumulate_sub_samples (x, y) ((m0, m1, m2), (v0, v1, v2)) s =
           Ok (s\<lparr>working_mean := Some a', working_variance := Some b'\<rparr>) \<and>
           shape a' = (nx, ny, 3) \<and> shape b' = (nx, ny, 3)"
proof -
  from iadd_thrice_ok [OF assms(3,5,6), of m0 m1 m2] obtain a1 a2 a3 where
    a: "iadd (Some a) x y 0 m0 = Inr a1" "iadd (Some a1) x y 1 m1 = Inr a2"
      "iadd (Some a2) x y 2 m2 = Inr a3" "shape a3 = (nx, ny, 3)" by blast
  from iadd_thrice_ok [OF assms(4,5,6), of v0 v1 v2] obtain b1 b2 b3 where
    b: "iadd (Some b) x y 0 v0 = Inr b1" "iadd (Some b1) x y 1 v1 = Inr b2"
      "iadd (Some b2) x y 2 v2 = Inr b3" "shape b3 = (nx, ny, 3)" by blast
  have "accumulate_sub_samples (x, y) ((m0, m1, m2), (v0, v1, v2)) s =
           Ok (s\<lparr>working_mean := Some a3, working_variance := Some b3\<rparr>)"
    using a(1-3) b(1-3)
    by (simp add: accumulate_sub_samples_def add_working_mean_def add_working_variance_def assms(1,2))
  with a(4) b(4) show ?thesis by blast
qed


subsection \<open>finalise\<close>

text \<open>
  Claim C1. On a pipeline as \<open>initialise\<close> and the \<open>update\<close> calls leave it
  (\<open>render_ready\<close>: lemmas \<open>prepared_ready\<close> and \<open>update_keeps_ready\<close>), \<open>finalise\<close>
  returns normally; for every pixel and every channel
  the statistic of the new frame is the pooled two-group merge of the frame's old
  statistic with the working mean and working variance of that entry, the recorded
  \<open>_samples\<close> being the count of the merged group; and every pixel of the new display
  buffer is the colour transform of the new frame's means times the sensitivity.
  Nothing else of the object changes, and the display is shown once if progress
  display is enabled.
\<close>

theorem C1_finalise_merges:
  assumes ready: "render_ready self"
    and f0: "xyz_frame self = Some f0"
    and wm: "working_mean self = Some wm" and wv: "working_variance self = Some wv"
  shows "\<exists>f rgb.
      finalise ciexyz_to_srgb (self, plt) =
        Ok (self\<lparr>xyz_frame := Some f, rgb_frame := Some rgb\<rparr>,
            if display_progress self then plt @ [Figure1 (np_transpose_102 rgb), Figure2 f] else plt) \<and>
      frame_pixels f = frame_pixels f0 \<and>
      (\<forall>x < fst (frame_pixels f0). \<forall>y < snd (frame_pixels f0). \<forall>c < 3.
         statistic_at f x y c =
           pooled_merge (statistic_at f0 x y c) (item wm x y c, item wv x y c, samples self)) \<and>
      shape rgb = (fst (frame_pixels f0), snd (frame_pixels f0), 3) \<and>
      (\<forall>x < fst (frame_pixels f0). \<forall>y < snd (frame_pixels f0).
         (item rgb x y 0, item rgb x y 1, item rgb x y 2) =
           ciexyz_to_srgb (item (frame_mean f) x y 0 * sensitivity self)
                          (item (frame_mean f) x y 1 * sensitivity self)
                          (item (frame_mean f) x y 2 * sensitivity self))"
proof -
  let ?nx = "fst (frame_pixels f0)" and ?ny = "snd (frame_pixels f0)"
  from merge_working_frame_ok [OF ready f0] obtain s1 where
    m: "merge_working_frame self = Ok s1" "merged_on ({0..<?nx} \<times> {0..<?ny} \<times> {0, 1, 2}) self s1"
    by blast
  from m(2) f0 wm wv obtain f where
    f: "s1 = self\<lparr>xyz_frame := Some f\<rparr>" "frame_pixels f = frame_pixels f0" "frame_shaped f"
    and st: "\<And>i j k. statistic_at f i j k =
           (if (i, j, k) \<in> {0..<?nx} \<times> {0..<?ny} \<times> {0, 1, 2}
            then pooled_merge (statistic_at f0 i j k) (item wm i j k, item wv i j k, samples self)
            else statistic_at f0 i j k)"
    by (auto simp: merged_on_def)
  from ready f0 obtain rgb1 where
    rgb1: "rgb_frame self = Some rgb1" "shape rgb1 = (?nx, ?ny, 3)"
    by (auto simp: render_ready_def shaped_like_def split: option.splits)
  have x1: "xyz_frame s1 = Some f" and r1: "rgb_frame s1 = Some rgb1" by (simp_all add: f(1) rgb1(1))
  have shf: "shape (frame_mean f) = (?nx, ?ny, 3)" using f(2,3) by (simp add: frame_shaped_def)
  from generate_srgb_frame_ok [OF x1 shf r1 rgb1(2)] obtain s2 where
    g: "generate_srgb_frame ciexyz_to_srgb s1 = Ok s2"
      "resolved_on ({0..<?nx} \<times> {0..<?ny}) ciexyz_to_srgb s1 s2"
    by blast
  from g(2) x1 r1 obtain rgb where
    rgb: "s2 = s1\<lparr>rgb_frame := Some rgb\<rparr>" "shape rgb = shape rgb1"
    and res: "\<And>i j. (i, j) \<in> {0..<?nx} \<times> {0..<?ny} \<Longrightarrow>
           (item rgb i j 0, item rgb i j 1, item rgb i j 2) =
             ciexyz_to_srgb (item (frame_mean f) i j 0 * sensitivity s1)
                            (item (frame_mean f) i j 1 * sensitivity s1)
                            (item (frame_mean f) i j 2 * sensitivity s1)"
    by (auto simp: resolved_on_def)
  have s2: "s2 = self\<lparr>xyz_frame := Some f, rgb_frame := Some rgb\<rparr>" by (simp add: rgb(1) f(1))
  have d: "final_display (s2, plt) =
      Ok (s2, if display_progress self then plt @ [Figure1 (np_transpose_102 rgb), Figure2 f] else plt)"
    by (simp add: final_display_def s2 display_def)
  have run: "finalise ciexyz_to_srgb (self, plt) =
      Ok (s2, if display_progress self then plt @ [Figure1 (np_transpose_102 rgb), Figure2 f] else plt)"
    using m(1) g(1) d by (simp add: finalise_def with_plt_def)
  have merged: "statistic_at f x y c =
           pooled_merge (statistic_at f0 x y c) (item wm x y c, item wv x y c, samples self)"
    if "x < ?nx" "y < ?ny" "c < 3" for x y c
  proof -
    from that(3) have "c \<in> {0, 1, 2}" by auto
    with that(1,2) show ?thesis by (simp add: st)
  qed
  have resolved: "(item rgb x y 0, item rgb x y 1, item rgb x y 2) =
           ciexyz_to_srgb (item (frame_mean f) x y 0 * sensitivity self)
                          (item (frame_mean f) x y 1 * sensitivity self)
                          (item (frame_mean f) x y 2 * sensitivity self)"
    if "x < ?nx" "y < ?ny" for x y
    using res [of x y] that by (simp add: f(1))
  have sh: "shape rgb = (?nx, ?ny, 3)" using rgb(2) rgb1(2) by simp
  show ?thesis
    by (rule exI [of _ f], rule exI [of _ rgb])
       (use run s2 f(2) merged sh resolved in simp)
qed


lemmas run_defs = initialise_def start_display_def update_def accumulate_sub_samples_def
  add_working_mean_def add_working_variance_def iadd_def getitem_def setitem_def locate_def
  np_index_def np_zeros_def update_display_def with_plt_def must_reallocate_def Let_def
  RGBPipeline2D_def Frame2D_def

lemma one_pixel_world_facts:
  "render_ready (fst one_pixel_world)"
  "xyz_frame (fst one_pixel_world) = Some (Frame2D (1, 1) 3)"
  "\<exists>wm wv. working_mean (fst one_pixel_world) = Some wm \<and>
      working_variance (fst one_pixel_world) = Some wv \<and>
      item wm 0 0 0 = 1 \<and> item wm 0 0 1 = 2 \<and> item wm 0 0 2 = 3 \<and>
      item wv 0 0 0 = 0 \<and> item wv 0 0 1 = 1 \<and> item wv 0 0 2 = 0"
  "samples (fst one_pixel_world) = 4"
  "sensitivity (fst one_pixel_world) = 2"
  "\<not> display_progress (fst one_pixel_world)"
  "snd one_pixel_world = []"
  by (simp_all add: one_pixel_world_def quiet_pipeline_def run_defs render_ready_def frame_shaped_def
      shaped_like_def)


lemma statistic_at_Frame2D: "statistic_at (Frame2D p ch) i j k = (0, 0, 0)"
  by (simp add: statistic_at_def Frame2D_def np_zeros_def)

text \<open>
  The claim on the one-pixel render: after one \<open>update\<close> with means (1, 2, 3) and
  variances (0, 1, 0) and 4 samples per pixel, \<open>finalise\<close> leaves the statistics
  (1, 0, 4), (2, 1, 4), (3, 0, 4) and, with sensitivity 2, the display pixel (2, 4, 6).
\<close>

theorem C1_finalise_merges_witness:
  "render_ready (fst one_pixel_world) \<and>
   xyz_frame (fst one_pixel_world) = Some (Frame2D (1, 1) 3) \<and>
   (\<exists>wm wv f rgb.
      working_mean (fst one_pixel_world) = Some wm \<and>
      working_variance (fst one_pixel_world) = Some wv \<and>
      (item wm 0 0 0, item wv 0 0 0) = (1, 0) \<and>
      (item wm 0 0 1, item wv 0 0 1) = (2, 1) \<and>
      (item wm 0 0 2, item wv 0 0 2) = (3, 0) \<and>
      finalise xyz_as_rgb (fst one_pixel_world, []) =
        Ok ((fst one_pixel_world)\<lparr>xyz_frame := Some f, rgb_frame := Some rgb\<rparr>, []) \<and>
      statistic_at f 0 0 0 = (1, 0, 4) \<and>
      statistic_at f 0 0 1 = (2, 1, 4) \<and>
      statistic_at f 0 0 2 = (3, 0, 4) \<and>
      (item rgb 0 0 0, item rgb 0 0 1, item rgb 0 0 2) = (2, 4, 6))"
proof -
  note w = one_pixel_world_facts
  from w(3) obtain wm wv where
    a: "working_mean (fst one_pixel_world) = Some wm" "working_variance (fst one_pixel_world) = Some wv"
    and v: "item wm 0 0 0 = 1" "item wm 0 0 1 = 2" "item wm 0 0 2 = 3"
      "item wv 0 0 0 = 0" "item wv 0 0 1 = 1" "item wv 0 0 2 = 0"
    by blast
  from C1_finalise_merges [OF w(1) w(2) a, of xyz_as_rgb "[]"] obtain f rgb where
    r: "finalise xyz_as_rgb (fst one_pixel_world, []) =
        Ok ((fst one_pixel_world)\<lparr>xyz_frame := Some f, rgb_frame := Some rgb\<rparr>, [])"
    and m: "\<forall>x<1. \<forall>y<1. \<forall>c<3. statistic_at f x y c =
        pooled_merge (0, 0, 0) (item wm x y c, item wv x y c, 4)"
    and d: "\<forall>x<1. \<forall>y<1. (item rgb x y 0, item rgb x y 1, item rgb x y 2) =
        xyz_as_rgb (item (frame_mean f) x y 0 * 2) (item (frame_mean f) x y 1 * 2) (item (frame_mean f) x y 2 * 2)"
    by (auto simp: w(4,5,6) frame_pixels_Frame2D statistic_at_Frame2D)
  from m have mc: "statistic_at f 0 0 c = pooled_merge (0, 0, 0) (item wm 0 0 c, item wv 0 0 c, 4)"
    if "c < 3" for c using that by simp
  have s0: "statistic_at f 0 0 0 = (1, 0, 4)" "statistic_at f 0 0 1 = (2, 1, 4)"
    "statistic_at f 0 0 2 = (3, 0, 4)"
    using mc [of 0] mc [of 1] mc [of 2] v by (simp_all add: pooled_merge_def)
  from d have "(item rgb 0 0 0, item rgb 0 0 1, item rgb 0 0 2) =
        xyz_as_rgb (item (frame_mean f) 0 0 0 * 2) (item (frame_mean f) 0 0 1 * 2) (item (frame_mean f) 0 0 2 * 2)"
    by simp
  with s0 have c: "(item rgb 0 0 0, item rgb 0 0 1, item rgb 0 0 2) = (2, 4, 6)"
    by (simp add: statistic_at_def xyz_as_rgb_def)
  from w(1,2) a v r s0 c show ?thesis by auto
qed

subsection \<open>update\<close>

lemma update_display_ok:
  assumes f: "xyz_frame s = Some f" "frame_shaped f" and r: "shaped_like f (rgb_frame s)"
  shows "\<exists>w. update_display cie now later (s, plt) = Ok w"
proof (cases "display_progress s \<and> display_update_time s < now - display_timer s")
  case False
  from update_display_skip [OF False] show ?thesis by blast
next
  case True
  let ?plt1 = "plt @ [Print ''RGBPipeline2D updating display...'']"
  from r obtain rgb1 where rgb1: "rgb_frame s = Some rgb1"
    "shape rgb1 = (fst (frame_pixels f), snd (frame_pixels f), 3)"
    by (auto simp: shaped_like_def split: option.splits)
  from f(2) have shf: "shape (frame_mean f) = (fst (frame_pixels f), snd (frame_pixels f), 3)"
    by (simp add: frame_shaped_def)
  from generate_srgb_frame_ok [OF f(1) shf rgb1] obtain s2 where
    g: "generate_srgb_frame cie s = Ok s2"
      "resolved_on ({0..<fst (frame_pixels f)} \<times> {0..<snd (frame_pixels f)}) cie s s2"
    by blast
  from g(2) f(1) obtain rgb where s2: "s2 = s\<lparr>rgb_frame := Some rgb\<rparr>"
    by (auto simp: resolved_on_def)
  have "display (s2, ?plt1) = Ok (s2, ?plt1 @ [Figure1 (np_transpose_102 rgb), Figure2 f])"
    by (rule display_Some) (simp_all add: s2 f(1))
  with True g(1) show ?thesis
    by (simp add: update_display_go with_plt_def set_display_timer_def)
qed

text \<open>
  Claim C9. Whatever the outcome of \<open>update(pixel_id, packed_result, slice_id)\<close>, the
  object it leaves has the same frame as before, and its working mean and working
  variance keep their shape and every item of every pixel other than the one
  \<open>pixel_id\<close> selects. When \<open>update\<close> returns normally, the three channels of that
  pixel hold the old values plus the packed means (in the working mean) and plus the
  packed variances (in the working variance). On a pipeline that \<open>initialise\<close> has
  prepared and a pixel index numpy accepts, \<open>update\<close> does return normally.
\<close>

theorem C9_update_frame_effect:
  assumes "self' = fst (state_of (update ciexyz_to_srgb (x, y) ((m0, m1, m2), (v0, v1, v2)) slice_id now later (self, plt)))"
  shows "xyz_frame self' = xyz_frame self
    \<and> (\<forall>a. working_mean self = Some a \<longrightarrow>
          (\<exists>a'. working_mean self' = Some a' \<and> shape a' = shape a \<and>
             (\<forall>i j k. (np_index (fst (shape a)) x, np_index (fst (snd (shape a))) y) \<noteq> (Some i, Some j)
                \<longrightarrow> item a' i j k = item a i j k)))
    \<and> (\<forall>b. working_variance self = Some b \<longrightarrow>
          (\<exists>b'. working_variance self' = Some b' \<and> shape b' = shape b \<and>
             (\<forall>i j k. (np_index (fst (shape b)) x, np_index (fst (snd (shape b))) y) \<noteq> (Some i, Some j)
                \<longrightarrow> item b' i j k = item b i j k)))
    \<and> ((\<exists>plt'. update ciexyz_to_srgb (x, y) ((m0, m1, m2), (v0, v1, v2)) slice_id now later (self, plt) = Ok (self', plt')) \<longrightarrow>
          (\<exists>a a' b b' i j i' j'.
             working_mean self = Some a \<and> working_mean self' = Some a' \<and>
             np_index (fst (shape a)) x = Some i \<and> np_index (fst (snd (shape a))) y = Some j \<and>
             item a' i j 0 = item a i j 0 + m0 \<and> item a' i j 1 = item a i j 1 + m1 \<and>
             item a' i j 2 = item a i j 2 + m2 \<and>
             working_variance self = Some b \<and> working_variance self' = Some b' \<and>
             np_index (fst (shape b)) x = Some i' \<and> np_index (fst (snd (shape b))) y = Some j' \<and>
             item b' i' j' 0 = item b i' j' 0 + v0 \<and> item b' i' j' 1 = item b i' j' 1 + v1 \<and>
             item b' i' j' 2 = item b i' j' 2 + v2))
    \<and> (render_ready self \<and>
         (\<exists>f i j. xyz_frame self = Some f \<and> np_index (fst (frame_pixels f)) x = Some i \<and>
            np_index (snd (frame_pixels f)) y = Some j) \<longrightarrow>
          (\<exists>plt'. update ciexyz_to_srgb (x, y) ((m0, m1, m2), (v0, v1, v2)) slice_id now later (self, plt) = Ok (self', plt')))"
proof -
  let ?u = "update ciexyz_to_srgb (x, y) ((m0, m1, m2), (v0, v1, v2)) slice_id now later (self, plt)"
  have eff: "update_effect x y self self'"
    unfolding assms by (rule update_effect_update)
  have frame: "xyz_frame self' = xyz_frame self" using eff by (simp add: update_effect_def)
  have mean: "\<exists>a'. working_mean self' = Some a' \<and> shape a' = shape a \<and>
             (\<forall>i j k. (np_index (fst (shape a)) x, np_index (fst (snd (shape a))) y) \<noteq> (Some i, Some j)
                \<longrightarrow> item a' i j k = item a i j k)"
    if "working_mean self = Some a" for a
    using eff that by (auto simp: update_effect_def touched_only_def split: option.splits)
  have var: "\<exists>b'. working_variance self' = Some b' \<and> shape b' = shape b \<and>
             (\<forall>i j k. (np_index (fst (shape b)) x, np_index (fst (snd (shape b))) y) \<noteq> (Some i, Some j)
                \<longrightarrow> item b' i j k = item b i j k)"
    if "working_variance self = Some b" for b
    using eff that by (auto simp: update_effect_def touched_only_def split: option.splits)
  have vals: "\<exists>a a' b b' i j i' j'.
             working_mean self = Some a \<and> working_mean self' = Some a' \<and>
             np_index (fst (shape a)) x = Some i \<and> np_index (fst (snd (shape a))) y = Some j \<and>
             item a' i j 0 = item a i j 0 + m0 \<and> item a' i j 1 = item a i j 1 + m1 \<and>
             item a' i j 2 = item a i j 2 + m2 \<and>
             working_variance self = Some b \<and> working_variance self' = Some b' \<and>
             np_index (fst (shape b)) x = Some i' \<and> np_index (fst (snd (shape b))) y = Some j' \<and>
             item b' i' j' 0 = item b i' j' 0 + v0 \<and> item b' i' j' 1 = item b i' j' 1 + v1 \<and>
             item b' i' j' 2 = item b i' j' 2 + v2"
    if ok: "\<exists>plt'. ?u = Ok (self', plt')"
  proof -
    from ok obtain plt' where u: "?u = Ok (self', plt')" by blast
    then obtain s1 where acc: "accumulate_sub_samples (x, y) ((m0, m1, m2), (v0, v1, v2)) self = Ok s1"
      and ud: "update_display ciexyz_to_srgb now later (s1, plt) = Ok (self', plt')"
      unfolding update_def by (auto dest!: and_then_Ok_D simp: with_plt_Ok)
    from update_display_state [of ciexyz_to_srgb now later s1 plt] ud
    obtain s2 t where "self' = s2\<lparr>display_timer := t\<rparr>" "only_rgb s1 s2" by auto
    then have keep: "working_mean self' = working_mean s1" "working_variance self' = working_variance s1"
      by (auto simp: only_rgb_def)
    from accumulate_Ok_D [OF acc] keep show ?thesis by auto
  qed
  have total: "\<exists>plt'. ?u = Ok (self', plt')"
    if r: "render_ready self \<and>
         (\<exists>f i j. xyz_frame self = Some f \<and> np_index (fst (frame_pixels f)) x = Some i \<and>
            np_index (snd (frame_pixels f)) y = Some j)"
  proof -
    from r obtain f i j where f: "xyz_frame self = Some f" "np_index (fst (frame_pixels f)) x = Some i"
      "np_index (snd (frame_pixels f)) y = Some j" by blast
    from r f(1) obtain a b where ab: "working_mean self = Some a" "working_variance self = Some b"
      "shape a = (fst (frame_pixels f), snd (frame_pixels f), 3)"
      "shape b = (fst (frame_pixels f), snd (frame_pixels f), 3)"
      and fr: "frame_shaped f" "shaped_like f (rgb_frame self)"
      by (auto simp: render_ready_def shaped_like_def split: option.splits)
    from accumulate_ok [OF ab f(2,3), of m0 m1 m2 v0 v1 v2] obtain a' b' where
      acc: "accumulate_sub_samples (x, y) ((m0, m1, m2), (v0, v1, v2)) self =
           Ok (self\<lparr>working_mean := Some a', working_variance := Some b'\<rparr>)" by blast
    let ?s1 = "self\<lparr>working_mean := Some a', working_variance := Some b'\<rparr>"
    have "\<exists>w. update_display ciexyz_to_srgb now later (?s1, plt) = Ok w"
      by (rule update_display_ok [of _ f]) (simp_all add: f(1) fr)
    then obtain w where "update_display ciexyz_to_srgb now later (?s1, plt) = Ok w" by blast
    with acc have "?u = Ok w" by (simp add: update_def with_plt_def)
    with assms show ?thesis by (cases w) simp
  qed
  from frame mean var vals total show ?thesis by blast
qed


lemma blank_world_facts:
  "render_ready (fst blank_world)"
  "xyz_frame (fst blank_world) = Some (Frame2D (2, 1) 3)"
  "working_mean (fst blank_world) = Some (np_zeros (2, 1, 3))"
  "working_variance (fst blank_world) = Some (np_zeros (2, 1, 3))"
  "snd blank_world = []"
  by (simp_all add: blank_world_def quiet_pipeline_def initialise_def start_display_def
      must_reallocate_def RGBPipeline2D_def Let_def render_ready_def frame_shaped_Frame2D
      shaped_like_def frame_pixels_Frame2D shape_np_zeros)

lemma np_index_concrete: "np_index 2 1 = Some 1" "np_index 1 0 = Some 0"
  by (simp_all add: np_index_def)

text \<open>
  The claim on the 2 by 1 render, \<open>update\<close> at pixel (1, 0): pixel (0, 0) of both
  working arrays stays zero, pixel (1, 0) receives (1, 2, 3) and (0, 1, 0), and the
  frame is still the zero frame.
\<close>

theorem C9_update_frame_effect_witness:
  "render_ready (fst blank_world) \<and>
   xyz_frame (fst blank_world) = Some (Frame2D (2, 1) 3) \<and>
   np_index 2 1 = Some 1 \<and> np_index 1 0 = Some 0 \<and>
   (\<exists>self' plt' a' b'.
      update xyz_as_rgb (1, 0) ((1, 2, 3), (0, 1, 0)) 0 1 1 (fst blank_world, []) = Ok (self', plt') \<and>
      xyz_frame self' = Some (Frame2D (2, 1) 3) \<and>
      working_mean self' = Some a' \<and> working_variance self' = Some b' \<and>
      (item a' 0 0 0, item a' 0 0 1, item a' 0 0 2) = (0, 0, 0) \<and>
      (item b' 0 0 0, item b' 0 0 1, item b' 0 0 2) = (0, 0, 0) \<and>
      (item a' 1 0 0, item a' 1 0 1, item a' 1 0 2) = (1, 2, 3) \<and>
      (item b' 1 0 0, item b' 1 0 1, item b' 1 0 2) = (0, 1, 0))"
proof -
  note w = blank_world_facts
  define s' where "s' = fst (state_of (update xyz_as_rgb (1, 0) ((1, 2, 3), (0, 1, 0)) 0 1 1 (fst blank_world, [])))"
  note c9 = C9_update_frame_effect [OF s'_def]
  have idx: "\<exists>f i j. xyz_frame (fst blank_world) = Some f \<and> np_index (fst (frame_pixels f)) 1 = Some i \<and>
            np_index (snd (frame_pixels f)) 0 = Some j"
    using np_index_concrete by (simp add: w(2) frame_pixels_Frame2D)
  from c9 w(1) idx obtain plt' where
    ok: "update xyz_as_rgb (1, 0) ((1, 2, 3), (0, 1, 0)) 0 1 1 (fst blank_world, []) = Ok (s', plt')"
    by blast
  from c9 have frame: "xyz_frame s' = Some (Frame2D (2, 1) 3)" by (simp add: w(2))
  from c9 ok obtain a a' b b' i j i' j' where
    v: "working_mean (fst blank_world) = Some a" "working_mean s' = Some a'"
      "np_index (fst (shape a)) 1 = Some i" "np_index (fst (snd (shape a))) 0 = Some j"
      "item a' i j 0 = item a i j 0 + 1" "item a' i j 1 = item a i j 1 + 2" "item a' i j 2 = item a i j 2 + 3"
      "working_variance (fst blank_world) = Some b" "working_variance s' = Some b'"
      "np_index (fst (shape b)) 1 = Some i'" "np_index (fst (snd (shape b))) 0 = Some j'"
      "item b' i' j' 0 = item b i' j' 0 + 0" "item b' i' j' 1 = item b i' j' 1 + 1"
      "item b' i' j' 2 = item b i' j' 2 + 0"
    by blast
  from v(1,8) w(3,4) have ab: "a = np_zeros (2, 1, 3)" "b = np_zeros (2, 1, 3)" by simp_all
  from v(3,4,10,11) np_index_concrete have ij: "i = 1" "j = 0" "i' = 1" "j' = 0"
    by (simp_all add: ab shape_np_zeros)
  have here: "(item a' 1 0 0, item a' 1 0 1, item a' 1 0 2) = (1, 2, 3)"
    "(item b' 1 0 0, item b' 1 0 1, item b' 1 0 2) = (0, 1, 0)"
    using v(5-7,12-14) by (simp_all add: ij ab item_np_zeros)
  from c9 v(1,2) have keep_a: "item a' i j k = item a i j k"
    if "(np_index (fst (shape a)) 1, np_index (fst (snd (shape a))) 0) \<noteq> (Some i, Some j)" for i j k
    using that by auto
  from c9 v(8,9) have keep_b: "item b' i j k = item b i j k"
    if "(np_index (fst (shape b)) 1, np_index (fst (snd (shape b))) 0) \<noteq> (Some i, Some j)" for i j k
    using that by auto
  have other: "(item a' 0 0 0, item a' 0 0 1, item a' 0 0 2) = (0, 0, 0)"
    "(item b' 0 0 0, item b' 0 0 1, item b' 0 0 2) = (0, 0, 0)"
    using keep_a [of 0 0] keep_b [of 0 0] np_index_concrete
    by (simp_all add: ab shape_np_zeros item_np_zeros)
  from w(1,2) np_index_concrete ok frame v(2,9) other here show ?thesis by blast
qed

subsection \<open>initialise\<close>

lemma prepared_fields:
  "working_mean (prepared rs p n slices self) = Some (np_zeros (fst p, snd p, 3))"
  "working_variance (prepared rs p n slices self) = Some (np_zeros (fst p, snd p, 3))"
  "samples (prepared rs p n slices self) = n"
  "xyz_frame (prepared rs p n slices self) = (if must_reallocate self p then Some (Frame2D p 3) else xyz_frame self)"
  "rgb_frame (prepared rs p n slices self) =
     (if must_reallocate self p then Some (np_zeros (fst p, snd p, 3)) else rgb_frame self)"
  "display_progress (prepared rs p n slices self) = display_progress self"
  by (simp_all add: prepared_def)

lemma initialise_ok:
  assumes "buffers_consistent self"
  shows "\<exists>plt'. initialise rs p n slices later (self, plt) =
           Ok ((prepared rs p n slices self)\<lparr>display_timer := (if display_progress self then later else 0)\<rparr>, plt') \<and>
           refreshes plt' = refreshes plt + (if display_progress self then 1 else 0)"
proof -
  let ?s = "prepared rs p n slices self"
  from prepared_ready [OF assms, of rs p n slices] obtain f rgb where
    b: "xyz_frame ?s = Some f" "rgb_frame ?s = Some rgb"
    by (auto simp: render_ready_def shaped_like_def split: option.splits)
  have "display (?s\<lparr>display_timer := 0\<rparr>, plt) =
      Ok (?s\<lparr>display_timer := 0\<rparr>, plt @ [Figure1 (np_transpose_102 rgb), Figure2 f])"
    by (rule display_Some) (simp_all add: b)
  then show ?thesis
    unfolding initialise_start
    by (simp add: start_display_def set_display_timer_def Let_def prepared_fields(6) refreshes_append)
qed

lemma render_ready_timer: "render_ready (s\<lparr>display_timer := t\<rparr>) = render_ready s"
  by (auto simp: render_ready_def split: option.splits)

text \<open>
  Claim C2. \<open>initialise(pixels, pixel_samples, spectral_slices)\<close> keeps the existing
  frame and display buffer when accumulate mode is on, a frame exists and its pixel
  dimensions are the requested ones; in every other case it replaces them by a new
  frame, whose statistics are all zero, and a zero display buffer. In every case the
  working mean and the working variance are new zero arrays of the requested pixel
  dimensions and \<open>_samples\<close> is the requested sample count. This holds of the object
  \<open>initialise\<close> leaves whatever its outcome; from an object whose buffers are
  consistent it returns normally and leaves a pipeline ready for the render pass.
\<close>

theorem C2_initialise_buffers:
  assumes "self' = fst (state_of (initialise resample_ciexyz p n slices later (self, plt)))"
  shows "(accumulate self \<and> (\<exists>f. xyz_frame self = Some f \<and> frame_pixels f = p) \<longrightarrow>
            xyz_frame self' = xyz_frame self \<and> rgb_frame self' = rgb_frame self)
    \<and> (\<not> (accumulate self \<and> (\<exists>f. xyz_frame self = Some f \<and> frame_pixels f = p)) \<longrightarrow>
            xyz_frame self' = Some (Frame2D p 3) \<and> rgb_frame self' = Some (np_zeros (fst p, snd p, 3)))
    \<and> frame_pixels (Frame2D p 3) = p
    \<and> (\<forall>i j k. statistic_at (Frame2D p 3) i j k = (0, 0, 0))
    \<and> working_mean self' = Some (np_zeros (fst p, snd p, 3))
    \<and> working_variance self' = Some (np_zeros (fst p, snd p, 3))
    \<and> shape (np_zeros (fst p, snd p, 3) :: real ndarray) = (fst p, snd p, 3)
    \<and> (\<forall>i j k. item (np_zeros (fst p, snd p, 3) :: real ndarray) i j k = 0)
    \<and> samples self' = n
    \<and> (buffers_consistent self \<longrightarrow>
          (\<exists>plt'. initialise resample_ciexyz p n slices later (self, plt) = Ok (self', plt')) \<and>
          render_ready self')"
proof -
  from initialise_state [of resample_ciexyz p n slices later self plt] assms
  obtain t where s': "self' = (prepared resample_ciexyz p n slices self)\<lparr>display_timer := t\<rparr>"
    by auto
  have ready: "(\<exists>plt'. initialise resample_ciexyz p n slices later (self, plt) = Ok (self', plt')) \<and>
          render_ready self'"
    if b: "buffers_consistent self"
  proof -
    from initialise_ok [OF b, of resample_ciexyz p n slices later plt] obtain plt' where
      ok: "initialise resample_ciexyz p n slices later (self, plt) =
           Ok ((prepared resample_ciexyz p n slices self)\<lparr>display_timer := (if display_progress self then later else 0)\<rparr>, plt')"
      by blast
    with assms have "initialise resample_ciexyz p n slices later (self, plt) = Ok (self', plt')" by simp
    moreover have "render_ready self'"
      using prepared_ready [OF b, of resample_ciexyz p n slices]
      by (simp add: s' render_ready_timer)
    ultimately show ?thesis by blast
  qed
  show ?thesis
    using ready
    by (simp add: s' prepared_fields must_reallocate_iff frame_pixels_Frame2D statistic_at_Frame2D
        shape_np_zeros item_np_zeros)
qed

lemma upt_one: "[0..<1] = [0]"
  by (simp add: upt_rec)

lemmas run_defs2 = run_defs finalise_def merge_working_frame_def merge_pixel_def merge_channel_def
  working_at_def combine_samples_def generate_srgb_frame_def srgb_pixel_def frame_mean_at_def
  set_rgb_def final_display_def pooled_merge_def xyz_as_rgb_def no_resample_def upt_one

lemma accumulating_world_facts:
  "accumulate (fst accumulating_world)"
  "buffers_consistent (fst accumulating_world)"
  "\<exists>f. xyz_frame (fst accumulating_world) = Some f \<and> frame_pixels f = (1, 1) \<and>
     statistic_at f 0 0 0 = (1, 0, 4) \<and> statistic_at f 0 0 1 = (2, 1, 4) \<and> statistic_at f 0 0 2 = (3, 0, 4)"
  by (simp_all add: accumulating_world_def run_defs2 statistic_at_def buffers_consistent_def
      frame_shaped_def shaped_like_def)


lemma one_pixel_world_buffers:
  "\<not> accumulate (fst one_pixel_world)" "buffers_consistent (fst one_pixel_world)"
  by (simp_all add: one_pixel_world_def quiet_pipeline_def run_defs buffers_consistent_def
      frame_shaped_def shaped_like_def)

text \<open>
  The claim on three calls. After a finished one-pixel render in accumulate mode,
  \<open>initialise\<close> with the same dimensions keeps the frame with its statistic (1, 0, 4),
  and with the dimensions (2, 1) replaces it by the zero frame; after a one-pixel
  render with accumulate mode off, \<open>initialise\<close> with the same dimensions replaces the
  frame by the zero frame.
\<close>

theorem C2_initialise_buffers_witness:
  "accumulate (fst accumulating_world) \<and> buffers_consistent (fst accumulating_world) \<and>
   (\<exists>f self' plt'.
      xyz_frame (fst accumulating_world) = Some f \<and> frame_pixels f = (1, 1) \<and>
      statistic_at f 0 0 0 = (1, 0, 4) \<and>
      initialise no_resample (1, 1) 4 [] 9 (fst accumulating_world, []) = Ok (self', plt') \<and>
      xyz_frame self' = Some f \<and> rgb_frame self' = rgb_frame (fst accumulating_world) \<and>
      working_mean self' = Some (np_zeros (1, 1, 3)) \<and>
      working_variance self' = Some (np_zeros (1, 1, 3)) \<and> render_ready self') \<and>
   (\<exists>self' plt'.
      initialise no_resample (2, 1) 4 [] 9 (fst accumulating_world, []) = Ok (self', plt') \<and>
      xyz_frame self' = Some (Frame2D (2, 1) 3) \<and> rgb_frame self' = Some (np_zeros (2, 1, 3)) \<and>
      working_mean self' = Some (np_zeros (2, 1, 3)) \<and> render_ready self') \<and>
   \<not> accumulate (fst one_pixel_world) \<and> buffers_consistent (fst one_pixel_world) \<and>
   (\<exists>self' plt'.
      initialise no_resample (1, 1) 4 [] 9 (fst one_pixel_world, []) = Ok (self', plt') \<and>
      xyz_frame self' = Some (Frame2D (1, 1) 3) \<and> rgb_frame self' = Some (np_zeros (1, 1, 3)) \<and>
      working_mean self' = Some (np_zeros (1, 1, 3)) \<and> render_ready self')"
proof -
  note a = accumulating_world_facts
  note o = one_pixel_world_buffers
  from a(3) obtain f where f: "xyz_frame (fst accumulating_world) = Some f" "frame_pixels f = (1, 1)"
    "statistic_at f 0 0 0 = (1, 0, 4)" by blast
  define s1 where "s1 = fst (state_of (initialise no_resample (1, 1) 4 [] 9 (fst accumulating_world, [])))"
  define s2 where "s2 = fst (state_of (initialise no_resample (2, 1) 4 [] 9 (fst accumulating_world, [])))"
  define s3 where "s3 = fst (state_of (initialise no_resample (1, 1) 4 [] 9 (fst one_pixel_world, [])))"
  have keep: "\<exists>plt'. initialise no_resample (1, 1) 4 [] 9 (fst accumulating_world, []) = Ok (s1, plt') \<and>
      xyz_frame s1 = Some f \<and> rgb_frame s1 = rgb_frame (fst accumulating_world) \<and>
      working_mean s1 = Some (np_zeros (1, 1, 3)) \<and>
      working_variance s1 = Some (np_zeros (1, 1, 3)) \<and> render_ready s1"
    using C2_initialise_buffers [OF s1_def] a(1,2) f by auto
  have differ: "\<exists>plt'. initialise no_resample (2, 1) 4 [] 9 (fst accumulating_world, []) = Ok (s2, plt') \<and>
      xyz_frame s2 = Some (Frame2D (2, 1) 3) \<and> rgb_frame s2 = Some (np_zeros (2, 1, 3)) \<and>
      working_mean s2 = Some (np_zeros (2, 1, 3)) \<and> render_ready s2"
    using C2_initialise_buffers [OF s2_def] a(1,2) f by auto
  have off: "\<exists>plt'. initialise no_resample (1, 1) 4 [] 9 (fst one_pixel_world, []) = Ok (s3, plt') \<and>
      xyz_frame s3 = Some (Frame2D (1, 1) 3) \<and> rgb_frame s3 = Some (np_zeros (1, 1, 3)) \<and>
      working_mean s3 = Some (np_zeros (1, 1, 3)) \<and> render_ready s3"
    using C2_initialise_buffers [OF s3_def] o by auto
  from a(1,2) o f keep differ off show ?thesis by blast
qed

subsection \<open>save and display\<close>

lemma only_xyz_refl: "only_xyz s s"
  unfolding only_xyz_def by (rule exI [of _ "xyz_frame s"]) simp

lemma only_xyz_trans: "only_xyz a b \<Longrightarrow> only_xyz b c \<Longrightarrow> only_xyz a c"
  unfolding only_xyz_def by auto

lemmas and_then_only_xyz = and_then_rel [where R = only_xyz, OF _ _ only_xyz_trans]

lemmas for_each_only_xyz = for_each_rel [where R = only_xyz, OF only_xyz_refl only_xyz_trans]

lemma merge_channel_only_xyz: "only_xyz s (state_of (merge_channel x y c s))"
proof (cases "merge_channel x y c s")
  case (Ok s')
  then obtain f f' where "xyz_frame s = Some f" "s' = s\<lparr>xyz_frame := Some f'\<rparr>"
    by (auto simp: merge_channel_def split: option.splits sum.splits)
  with Ok show ?thesis by (auto simp: only_xyz_def)
next
  case (Raise e s')
  then have "s' = s" by (auto simp: merge_channel_def split: option.splits sum.splits)
  with Raise show ?thesis by (simp add: only_xyz_refl)
qed

lemma merge_pixel_only_xyz: "only_xyz s (state_of (merge_pixel x y s))"
  unfolding merge_pixel_def by (intro and_then_only_xyz merge_channel_only_xyz)

lemma merge_working_frame_only_xyz: "only_xyz s (state_of (merge_working_frame s))"
proof (cases "xyz_frame s")
  case None
  then show ?thesis by (simp add: merge_working_frame_def only_xyz_refl)
next
  case (Some f)
  have "only_xyz s (state_of (for_each [0..<fst (frame_pixels f)] (\<lambda>x.
            for_each [0..<snd (frame_pixels f)] (\<lambda>y. merge_pixel x y)) s))"
    by (intro for_each_only_xyz merge_pixel_only_xyz)
  with Some show ?thesis by (simp add: merge_working_frame_def)
qed

lemma final_display_state: "fst (state_of (final_display (s, plt))) = s"
  by (simp add: final_display_def display_pipeline)

lemma finalise_state:
  "\<exists>s1. only_xyz s s1 \<and> only_rgb s1 (fst (state_of (finalise cie (s, plt))))"
proof (cases "merge_working_frame s")
  case (Raise e s1)
  then have "fst (state_of (finalise cie (s, plt))) = s1"
    by (simp add: finalise_def with_plt_def)
  moreover from Raise merge_working_frame_only_xyz [of s] have "only_xyz s s1" by simp
  ultimately show ?thesis using only_rgb_refl by auto
next
  case (Ok s1)
  with merge_working_frame_only_xyz [of s] have x: "only_xyz s s1" by simp
  show ?thesis
  proof (cases "generate_srgb_frame cie s1")
    case (Raise e s2)
    then have "fst (state_of (finalise cie (s, plt))) = s2"
      using Ok by (simp add: finalise_def with_plt_def)
    moreover from Raise generate_srgb_frame_only_rgb [of s1 cie] have "only_rgb s1 s2" by simp
    ultimately show ?thesis using x by auto
  next
    case (Ok s2) note g = this
    then have "fst (state_of (finalise cie (s, plt))) = s2"
      using \<open>merge_working_frame s = Ok s1\<close> by (simp add: finalise_def with_plt_def final_display_state)
    moreover from g generate_srgb_frame_only_rgb [of s1 cie] have "only_rgb s1 s2" by simp
    ultimately show ?thesis using x by auto
  qed
qed

lemma finalise_same_buffers: "same_buffers s (fst (state_of (finalise cie (s, plt))))"
  using finalise_state [of s cie plt]
  by (auto simp: same_buffers_def only_xyz_def only_rgb_def dest: same_shape_None)

lemma update_same_buffers:
  "same_buffers s (fst (state_of (update cie pixel_id packed_result slice_id now later (s, plt))))"
proof -
  obtain x y where p: "pixel_id = (x, y)" by (cases pixel_id)
  show ?thesis
    unfolding p using update_effect_update [of x y s cie packed_result slice_id now later plt]
    by (auto simp: same_buffers_def update_effect_def dest: same_shape_None)
qed

lemma save_state: "fst (state_of (save filename (s, plt))) = s"
  by (simp add: save_def split: option.splits)

lemma same_buffers_refl: "same_buffers s s"
  by (simp add: same_buffers_def)

lemma perform_same_buffers:
  "\<not> is_initialise c \<Longrightarrow> same_buffers (fst w) (fst (state_of (perform rs cie c w)))"
proof (cases w)
  case (Pair s plt)
  assume "\<not> is_initialise c"
  then show ?thesis
    unfolding Pair
    by (cases c)
       (simp_all add: update_same_buffers finalise_same_buffers save_state display_pipeline
          same_buffers_refl)
qed

lemma initialise_allocates:
  assumes "xyz_frame s = None \<longleftrightarrow> rgb_frame s = None"
  shows "xyz_frame (fst (state_of (initialise rs p n slices later (s, plt)))) \<noteq> None \<and>
         rgb_frame (fst (state_of (initialise rs p n slices later (s, plt)))) \<noteq> None"
proof -
  from initialise_state [of rs p n slices later s plt] obtain t where
    "fst (state_of (initialise rs p n slices later (s, plt))) = (prepared rs p n slices s)\<lparr>display_timer := t\<rparr>"
    by blast
  then show ?thesis
    using assms by (auto simp: prepared_fields must_reallocate_def split: option.splits)
qed

lemma run_buffers:
  assumes "xyz_frame (fst w) = None \<longleftrightarrow> rgb_frame (fst w) = None"
  shows "(xyz_frame (fst (run rs cie calls w)) = None \<longleftrightarrow> rgb_frame (fst (run rs cie calls w)) = None) \<and>
         (rgb_frame (fst (run rs cie calls w)) = None \<longleftrightarrow> rgb_frame (fst w) = None \<and> never_initialised calls)"
  using assms
proof (induction calls arbitrary: w)
  case Nil
  then show ?case by simp
next
  case (Cons c cs)
  let ?w1 = "state_of (perform rs cie c w)"
  show ?case
  proof (cases "is_initialise c")
    case True
    then obtain p n slices later where c: "c = Initialise p n slices later" by (cases c) auto
    obtain s plt where w: "w = (s, plt)" by (cases w)
    from initialise_allocates [of s rs p n slices later plt] Cons.prems
    have a: "xyz_frame (fst ?w1) \<noteq> None" "rgb_frame (fst ?w1) \<noteq> None"
      by (simp_all add: c w)
    then have "xyz_frame (fst ?w1) = None \<longleftrightarrow> rgb_frame (fst ?w1) = None" by auto
    from Cons.IH [OF this] a True show ?thesis by auto
  next
    case False
    from perform_same_buffers [OF False, of w rs cie]
    have sb: "xyz_frame (fst ?w1) = None \<longleftrightarrow> xyz_frame (fst w) = None"
      "rgb_frame (fst ?w1) = None \<longleftrightarrow> rgb_frame (fst w) = None"
      by (simp_all add: same_buffers_def)
    with Cons.prems have "xyz_frame (fst ?w1) = None \<longleftrightarrow> rgb_frame (fst ?w1) = None" by simp
    from Cons.IH [OF this] sb False show ?thesis by simp
  qed
qed

lemma np_transpose_102_shape: "shape rgb = (nx, ny, nc) \<Longrightarrow> shape (np_transpose_102 rgb) = (ny, nx, nc)"
  by (simp add: np_transpose_102_def)

lemma np_transpose_102_item: "item (np_transpose_102 rgb) j i c = item rgb i j c"
  by (simp add: np_transpose_102_def split: prod.splits)

text \<open>
  Claim C5. With no display buffer, \<open>save\<close> and \<open>display\<close> raise \<open>RuntimeError\<close> and
  leave the pipeline object and the plotting log as they were. With a display buffer,
  \<open>save\<close> returns normally and writes one image, the display buffer with its first
  two axes exchanged, and \<open>display\<close> does not raise \<open>RuntimeError\<close>. After any sequence
  of calls on a new pipeline object the display buffer is missing exactly if no call
  of the sequence was \<open>initialise\<close>; once it was called, \<open>save\<close> and \<open>display\<close> both
  return normally.
\<close>

theorem C5_not_ready:
  "(rgb_frame self = None \<longrightarrow>
       save filename (self, plt) = Raise (RuntimeError ''No frame data to save.'') (self, plt) \<and>
       display (self, plt) = Raise (RuntimeError ''No frame data to display.'') (self, plt))
   \<and> (\<forall>rgb. rgb_frame self = Some rgb \<longrightarrow>
       save filename (self, plt) = Ok (self, plt @ [Imsave filename (np_transpose_102 rgb)]) \<and>
       (\<forall>msg w. display (self, plt) \<noteq> Raise (RuntimeError msg) w) \<and>
       (\<forall>nx ny nc. shape rgb = (nx, ny, nc) \<longrightarrow> shape (np_transpose_102 rgb) = (ny, nx, nc)) \<and>
       (\<forall>i j c. item (np_transpose_102 rgb) j i c = item rgb i j c))
   \<and> (rgb_frame (fst (run resample_ciexyz ciexyz_to_srgb calls
          (RGBPipeline2D sens progress update_time acc :: 'r pipeline, plt0))) = None \<longleftrightarrow> never_initialised calls)
   \<and> (\<not> never_initialised calls \<longrightarrow>
        (\<exists>w. display (run resample_ciexyz ciexyz_to_srgb calls
                (RGBPipeline2D sens progress update_time acc, plt0)) = Ok w) \<and>
        (\<exists>w. save filename (run resample_ciexyz ciexyz_to_srgb calls
                (RGBPipeline2D sens progress update_time acc, plt0)) = Ok w))"
proof -
  let ?start = "(RGBPipeline2D sens progress update_time acc :: 'r pipeline, plt0)"
  let ?final = "run resample_ciexyz ciexyz_to_srgb calls ?start"
  have none: "save filename (self, plt) = Raise (RuntimeError ''No frame data to save.'') (self, plt) \<and>
       display (self, plt) = Raise (RuntimeError ''No frame data to display.'') (self, plt)"
    if "rgb_frame self = None"
    using that by (simp add: save_def display_def)
  have some: "save filename (self, plt) = Ok (self, plt @ [Imsave filename (np_transpose_102 rgb)]) \<and>
       (\<forall>msg w. display (self, plt) \<noteq> Raise (RuntimeError msg) w) \<and>
       (\<forall>nx ny nc. shape rgb = (nx, ny, nc) \<longrightarrow> shape (np_transpose_102 rgb) = (ny, nx, nc)) \<and>
       (\<forall>i j c. item (np_transpose_102 rgb) j i c = item rgb i j c)"
    if "rgb_frame self = Some rgb" for rgb
    using that
    by (auto simp: save_def display_def np_transpose_102_shape np_transpose_102_item split: option.splits)
  have x0: "xyz_frame (fst ?start) = None" and r0: "rgb_frame (fst ?start) = None"
    by (simp_all add: RGBPipeline2D_def)
  then have start: "xyz_frame (fst ?start) = None \<longleftrightarrow> rgb_frame (fst ?start) = None"
    by simp
  note rb = run_buffers [OF start, of resample_ciexyz ciexyz_to_srgb calls]
  have iff: "rgb_frame (fst ?final) = None \<longleftrightarrow> never_initialised calls"
    using rb r0 by simp
  have both: "(\<exists>w. display ?final = Ok w) \<and> (\<exists>w. save filename ?final = Ok w)" if "\<not> never_initialised calls"
  proof -
    from that iff rb obtain rgb f where "rgb_frame (fst ?final) = Some rgb" "xyz_frame (fst ?final) = Some f"
      by auto
    then show ?thesis
      by (cases ?final) (simp add: display_def save_def)
  qed
  from none some iff both show ?thesis by blast
qed


lemma blank_world_rgb: "rgb_frame (fst blank_world) = Some (np_zeros (2, 1, 3))"
  by (simp add: blank_world_def quiet_pipeline_def initialise_def start_display_def
      must_reallocate_def RGBPipeline2D_def Let_def)

text \<open>
  The claim on a new object (both calls raise, also after \<open>save\<close> and \<open>display\<close>
  have been tried) and on the 2 by 1 render (the image saved has shape (1, 2, 3)).
\<close>

theorem C5_not_ready_witness:
  "rgb_frame quiet_pipeline = None \<and>
   save ''out.png'' (quiet_pipeline, []) = Raise (RuntimeError ''No frame data to save.'') (quiet_pipeline, []) \<and>
   display (quiet_pipeline, []) = Raise (RuntimeError ''No frame data to display.'') (quiet_pipeline, []) \<and>
   rgb_frame (fst blank_world) = Some (np_zeros (2, 1, 3)) \<and>
   save ''out.png'' (fst blank_world, []) =
     Ok (fst blank_world, [Imsave ''out.png'' (np_transpose_102 (np_zeros (2, 1, 3)))]) \<and>
   shape (np_zeros (2, 1, 3) :: real ndarray) = (2, 1, 3) \<and>
   shape (np_transpose_102 (np_zeros (2, 1, 3) :: real ndarray)) = (1, 2, 3) \<and>
   never_initialised [Save ''out.png'', Display] \<and>
   rgb_frame (fst (run no_resample xyz_as_rgb [Save ''out.png'', Display] (quiet_pipeline, []))) = None \<and>
   \<not> never_initialised [Initialise (2, 1) 4 [] 0, Finalise] \<and>
   (\<exists>w. display (run no_resample xyz_as_rgb [Initialise (2, 1) 4 [] 0, Finalise] (quiet_pipeline, [])) = Ok w) \<and>
   (\<exists>w. save ''out.png'' (run no_resample xyz_as_rgb [Initialise (2, 1) 4 [] 0, Finalise] (quiet_pipeline, [])) = Ok w)"
proof -
  have q: "rgb_frame quiet_pipeline = None" by (simp add: quiet_pipeline_def RGBPipeline2D_def)
  have sh: "shape (np_zeros (2, 1, 3) :: real ndarray) = (2, 1, 3)" by (rule shape_np_zeros)
  have n1: "never_initialised [Save ''out.png'', Display]" by simp
  have n2: "\<not> never_initialised [Initialise (2, 1) 4 [] 0, Finalise]" by simp
  note a = C5_not_ready [of quiet_pipeline "''out.png''" "[]" no_resample xyz_as_rgb
      "[Save ''out.png'', Display]" 2 False 5 False "[]"]
  note b = C5_not_ready [of "fst blank_world" "''out.png''" "[]" no_resample xyz_as_rgb
      "[Initialise (2, 1) 4 [] 0, Finalise]" 2 False 5 False "[]"]
  from a q n1 have 1: "save ''out.png'' (quiet_pipeline, []) = Raise (RuntimeError ''No frame data to save.'') (quiet_pipeline, [])"
    "display (quiet_pipeline, []) = Raise (RuntimeError ''No frame data to display.'') (quiet_pipeline, [])"
    "rgb_frame (fst (run no_resample xyz_as_rgb [Save ''out.png'', Display] (quiet_pipeline, []))) = None"
    unfolding quiet_pipeline_def by blast+
  from b blank_world_rgb sh n2 have 2: "save ''out.png'' (fst blank_world, []) =
     Ok (fst blank_world, [] @ [Imsave ''out.png'' (np_transpose_102 (np_zeros (2, 1, 3)))])"
    "shape (np_transpose_102 (np_zeros (2, 1, 3) :: real ndarray)) = (1, 2, 3)"
    "\<exists>w. display (run no_resample xyz_as_rgb [Initialise (2, 1) 4 [] 0, Finalise] (quiet_pipeline, [])) = Ok w"
    "\<exists>w. save ''out.png'' (run no_resample xyz_as_rgb [Initialise (2, 1) 4 [] 0, Finalise] (quiet_pipeline, [])) = Ok w"
    unfolding quiet_pipeline_def by blast+
  from q 1 blank_world_rgb 2 sh n1 n2 show ?thesis by simp
qed

subsection \<open>The live display\<close>

lemma display_Ok_D:
  "display (s, plt) = Ok w \<Longrightarrow> fst w = s \<and> refreshes (snd w) = Suc (refreshes plt)"
  by (auto simp: display_def refreshes_append split: option.splits)

lemma only_rgb_settings:
  "only_rgb a b \<Longrightarrow> display_progress b = display_progress a \<and> display_timer b = display_timer a \<and>
     display_update_time b = display_update_time a"
  by (auto simp: only_rgb_def)

lemma only_xyz_settings:
  "only_xyz a b \<Longrightarrow> display_progress b = display_progress a"
  by (auto simp: only_xyz_def)

lemma update_display_Ok_D:
  assumes "update_display cie now later (s, plt) = Ok (s', plt')"
  shows "refreshes plt' = refreshes plt +
           (if display_progress s \<and> display_update_time s < now - display_timer s then 1 else 0) \<and>
         display_timer s' =
           (if display_progress s \<and> display_update_time s < now - display_timer s then later
            else display_timer s)"
proof (cases "display_progress s \<and> display_update_time s < now - display_timer s")
  case False
  from update_display_skip [OF False, of cie later plt] assms show ?thesis using False by auto
next
  case True
  let ?plt1 = "plt @ [Print ''RGBPipeline2D updating display...'']"
  from True assms obtain w1 w2 where
    st: "with_plt ?plt1 (generate_srgb_frame cie s) = Ok w1" "display w1 = Ok w2"
      "set_display_timer later w2 = Ok (s', plt')"
    by (auto simp: update_display_go dest!: and_then_Ok_D)
  from st(1) obtain s1 where w1: "w1 = (s1, ?plt1)" by (auto simp: with_plt_Ok)
  from display_Ok_D [OF st(2) [unfolded w1]] have r: "refreshes (snd w2) = Suc (refreshes ?plt1)" by simp
  from st(3) have "plt' = snd w2" "display_timer s' = later"
    by (auto simp: set_display_timer_def split: prod.splits)
  with r True show ?thesis by (simp add: refreshes_append)
qed

lemma update_display_quiet:
  "\<not> (display_progress s \<and> display_update_time s < now - display_timer s) \<Longrightarrow>
     snd (state_of (update_display cie now later (s, plt))) = plt"
  by (simp add: update_display_skip)

lemma accumulate_settings:
  "display_progress (state_of (accumulate_sub_samples pixel_id packed_result s)) = display_progress s \<and>
   display_timer (state_of (accumulate_sub_samples pixel_id packed_result s)) = display_timer s \<and>
   display_update_time (state_of (accumulate_sub_samples pixel_id packed_result s)) = display_update_time s"
proof -
  let ?R = "\<lambda>a b. display_progress b = display_progress a \<and> display_timer b = display_timer a \<and>
     display_update_time b = display_update_time a"
  have m: "?R a (state_of (add_working_mean x y c v a))" for x y c v and a :: "'a pipeline"
    by (auto simp: add_working_mean_def split: sum.splits)
  have v: "?R a (state_of (add_working_variance x y c v a))" for x y c v and a :: "'a pipeline"
    by (auto simp: add_working_variance_def split: sum.splits)
  have t: "?R a b \<Longrightarrow> ?R b c \<Longrightarrow> ?R a c" for a b c :: "'a pipeline" by simp
  obtain x y m0 m1 m2 v0 v1 v2 where p: "pixel_id = (x, y)" "packed_result = ((m0, m1, m2), (v0, v1, v2))"
    by (metis prod_cases3 surj_pair)
  have "?R s (state_of (accumulate_sub_samples pixel_id packed_result s))"
    unfolding accumulate_sub_samples_def p prod.case
    by (intro and_then_rel [where R = ?R, OF _ _ t] m v) assumption+
  then show ?thesis by simp
qed


lemma update_Ok_D:
  assumes "update cie pixel_id packed_result slice_id now later (s, plt) = Ok (s', plt')"
  shows "refreshes plt' = refreshes plt +
           (if display_progress s \<and> display_update_time s < now - display_timer s then 1 else 0) \<and>
         display_timer s' =
           (if display_progress s \<and> display_update_time s < now - display_timer s then later
            else display_timer s)"
proof -
  from assms obtain s1 where acc: "accumulate_sub_samples pixel_id packed_result s = Ok s1"
    and ud: "update_display cie now later (s1, plt) = Ok (s', plt')"
    unfolding update_def by (auto dest!: and_then_Ok_D simp: with_plt_Ok)
  from accumulate_settings [of pixel_id packed_result s] acc
  have "display_progress s1 = display_progress s" "display_timer s1 = display_timer s"
    "display_update_time s1 = display_update_time s" by simp_all
  with update_display_Ok_D [OF ud] show ?thesis by simp
qed

lemma update_quiet:
  assumes "\<not> (display_progress s \<and> display_update_time s < now - display_timer s)"
  shows "snd (state_of (update cie pixel_id packed_result slice_id now later (s, plt))) = plt"
proof (cases "accumulate_sub_samples pixel_id packed_result s")
  case (Raise e s1)
  then show ?thesis by (simp add: update_def with_plt_def)
next
  case (Ok s1)
  with accumulate_settings [of pixel_id packed_result s] assms
  have "\<not> (display_progress s1 \<and> display_update_time s1 < now - display_timer s1)" by simp
  from update_display_quiet [OF this, of cie later plt] Ok show ?thesis
    by (simp add: update_def with_plt_def)
qed

lemma finalise_Ok_D:
  assumes "finalise cie (s, plt) = Ok (s', plt')"
  shows "refreshes plt' = refreshes plt + (if display_progress s then 1 else 0)"
proof -
  from assms obtain s1 s2 where m: "merge_working_frame s = Ok s1"
    and g: "generate_srgb_frame cie s1 = Ok s2" and d: "final_display (s2, plt) = Ok (s', plt')"
    unfolding finalise_def by (auto dest!: and_then_Ok_D simp: with_plt_Ok)
  from m merge_working_frame_only_xyz [of s] have "display_progress s1 = display_progress s"
    by (auto dest: only_xyz_settings)
  moreover from g generate_srgb_frame_only_rgb [of s1 cie] have "display_progress s2 = display_progress s1"
    by (auto dest: only_rgb_settings)
  ultimately have dp: "display_progress s2 = display_progress s" by simp
  show ?thesis
  proof (cases "display_progress s")
    case True
    with d dp have "display (s2, plt) = Ok (s', plt')" by (simp add: final_display_def)
    from display_Ok_D [OF this] True show ?thesis by simp
  next
    case False
    with d dp show ?thesis by (simp add: final_display_def)
  qed
qed

text \<open>
  Claim C6 as stated fails: on a pipeline constructed with \<open>display_progress=False\<close>,
  \<open>initialise\<close> returns normally with the timer at 0 and performs no refresh.
\<close>

theorem C6_initialise_refresh_counterexample:
  "\<not> display_progress quiet_pipeline \<and>
   initialise no_resample (1, 1) 4 [] 9 (quiet_pipeline, []) =
     Ok ((prepared no_resample (1, 1) 4 [] quiet_pipeline)\<lparr>display_timer := 0\<rparr>, []) \<and>
   refreshes (snd (state_of (initialise no_resample (1, 1) 4 [] 9 (quiet_pipeline, [])))) = 0"
  by (simp add: initialise_start start_display_def Let_def prepared_fields)
     (simp add: quiet_pipeline_def RGBPipeline2D_def)

text \<open>
  Claim C6, amended. With progress display enabled \<open>initialise\<close> performs one refresh,
  whatever the clock says, and stores the clock reading in the timer; with progress
  display disabled it performs none and leaves the timer at 0. An \<open>update\<close> that
  returns normally has performed one refresh, and stored the later clock reading,
  exactly if progress display is enabled and the clock reading minus the timer exceeds
  \<open>display_update_time\<close>; when that condition fails, \<open>update\<close> hands nothing to the
  display at all. A \<open>finalise\<close> that returns normally has performed one refresh exactly
  if progress display is enabled, and reads no clock. \<open>display_update_time\<close> is the
  constructor argument, 5 by default.
\<close>

theorem C6_display_throttle:
  "(buffers_consistent self \<longrightarrow>
      (\<exists>self' plt'. initialise resample_ciexyz p n slices later (self, plt) = Ok (self', plt') \<and>
         refreshes plt' = refreshes plt + (if display_progress self then 1 else 0) \<and>
         display_timer self' = (if display_progress self then later else 0)))
   \<and> (update ciexyz_to_srgb pixel_id packed_result slice_id now later (self, plt) = Ok (self1, plt1) \<longrightarrow>
        refreshes plt1 = refreshes plt +
          (if display_progress self \<and> now - display_timer self > display_update_time self then 1 else 0) \<and>
        display_timer self1 =
          (if display_progress self \<and> now - display_timer self > display_update_time self then later
           else display_timer self))
   \<and> (\<not> (display_progress self \<and> now - display_timer self > display_update_time self) \<longrightarrow>
        snd (state_of (update ciexyz_to_srgb pixel_id packed_result slice_id now later (self, plt))) = plt)
   \<and> (finalise ciexyz_to_srgb (self, plt) = Ok (self2, plt2) \<longrightarrow>
        refreshes plt2 = refreshes plt + (if display_progress self then 1 else 0))
   \<and> display_update_time (RGBPipeline2D_default :: 'r pipeline) = 5
   \<and> display_update_time (RGBPipeline2D sens progress update_time acc :: 'r pipeline) = update_time"
proof -
  have i: "\<exists>self' plt'. initialise resample_ciexyz p n slices later (self, plt) = Ok (self', plt') \<and>
         refreshes plt' = refreshes plt + (if display_progress self then 1 else 0) \<and>
         display_timer self' = (if display_progress self then later else 0)"
    if "buffers_consistent self"
    using initialise_ok [OF that, of resample_ciexyz p n slices later plt] by auto
  have u: "refreshes plt1 = refreshes plt +
          (if display_progress self \<and> now - display_timer self > display_update_time self then 1 else 0) \<and>
        display_timer self1 =
          (if display_progress self \<and> now - display_timer self > display_update_time self then later
           else display_timer self)"
    if "update ciexyz_to_srgb pixel_id packed_result slice_id now later (self, plt) = Ok (self1, plt1)"
    using update_Ok_D [OF that] by simp
  have q: "snd (state_of (update ciexyz_to_srgb pixel_id packed_result slice_id now later (self, plt))) = plt"
    if "\<not> (display_progress self \<and> now - display_timer self > display_update_time self)"
    using update_quiet [of self now ciexyz_to_srgb pixel_id packed_result slice_id later plt] that by simp
  have f: "refreshes plt2 = refreshes plt + (if display_progress self then 1 else 0)"
    if "finalise ciexyz_to_srgb (self, plt) = Ok (self2, plt2)"
    using finalise_Ok_D [OF that] .
  have d: "display_update_time (RGBPipeline2D_default :: 'r pipeline) = 5"
    "display_update_time (RGBPipeline2D sens progress update_time acc :: 'r pipeline) = update_time"
    by (simp_all add: RGBPipeline2D_default_def RGBPipeline2D_def)
  from i u q f d show ?thesis by blast
qed


lemma run_snoc:
  "run rs cie (cs @ [c]) w = state_of (perform rs cie c (run rs cie cs w))"
  by (induction cs arbitrary: w) simp_all

lemma live_world_Suc:
  "k < length live_calls \<Longrightarrow>
     live_world (Suc k) = state_of (perform no_resample xyz_as_rgb (live_calls ! k) (live_world k))"
  by (simp add: live_world_def take_Suc_conv_app_nth run_snoc)

lemma live_world_steps:
  "live_world 0 = (live_pipeline, [])"
  "live_world 1 = state_of (initialise no_resample (1, 1) 4 [] 1 (live_world 0))"
  "live_world 2 = state_of (update xyz_as_rgb (0, 0) ((1, 2, 3), (0, 1, 0)) 0 3 3 (live_world 1))"
  "live_world 3 = state_of (update xyz_as_rgb (0, 0) ((1, 2, 3), (0, 1, 0)) 0 7 8 (live_world 2))"
  "live_world 4 = state_of (finalise xyz_as_rgb (live_world 3))"
proof -
  show "live_world 0 = (live_pipeline, [])" by (simp add: live_world_def)
  have l: "length live_calls = 4" by (simp add: live_calls_def)
  show "live_world 1 = state_of (initialise no_resample (1, 1) 4 [] 1 (live_world 0))"
    using live_world_Suc [of 0] by (simp add: l) (simp add: live_calls_def)
  show "live_world 2 = state_of (update xyz_as_rgb (0, 0) ((1, 2, 3), (0, 1, 0)) 0 3 3 (live_world 1))"
    using live_world_Suc [of 1] by (simp add: l numeral_2_eq_2) (simp add: live_calls_def)
  show "live_world 3 = state_of (update xyz_as_rgb (0, 0) ((1, 2, 3), (0, 1, 0)) 0 7 8 (live_world 2))"
    using live_world_Suc [of 2] by (simp add: l numeral_3_eq_3 numeral_2_eq_2) (simp add: live_calls_def)
  show "live_world 4 = state_of (finalise xyz_as_rgb (live_world 3))"
    using live_world_Suc [of 3] by (simp add: l eval_nat_numeral) (simp add: live_calls_def)
qed

lemma live_pipeline_facts:
  "buffers_consistent live_pipeline" "display_progress live_pipeline"
  "display_update_time live_pipeline = 5" "display_timer live_pipeline = 0"
  by (simp_all add: live_pipeline_def RGBPipeline2D_default_def RGBPipeline2D_def buffers_consistent_def)


lemmas live_defs = live_world_def live_calls_def live_pipeline_def RGBPipeline2D_default_def
  run_defs2 display_def set_display_timer_def

lemma live_world_returns:
  "\<exists>w. initialise no_resample (1, 1) 4 [] 1 (live_world 0) = Ok w"
  "\<exists>w. update xyz_as_rgb (0, 0) ((1, 2, 3), (0, 1, 0)) 0 3 3 (live_world 1) = Ok w"
  "\<exists>w. update xyz_as_rgb (0, 0) ((1, 2, 3), (0, 1, 0)) 0 7 8 (live_world 2) = Ok w"
  "\<exists>w. finalise xyz_as_rgb (live_world 3) = Ok w"
  by (simp_all add: live_defs)


lemma returns_state_of: "\<exists>w. r = Ok w \<Longrightarrow> r = Ok (state_of r)"
  by auto

lemma live_world_settings:
  "display_progress (fst (live_world 1))" "display_update_time (fst (live_world 1)) = 5"
  "display_progress (fst (live_world 2))" "display_update_time (fst (live_world 2)) = 5"
  "display_progress (fst (live_world 3))"
  by (simp_all add: live_defs)

text \<open>
  The claim on a one-pixel render with the default settings: \<open>initialise\<close> at time 1
  (first refresh), an \<open>update\<close> at time 3 (2 elapsed: no refresh), an \<open>update\<close> at
  time 7 (6 elapsed: second refresh, timer set to 8), \<open>finalise\<close> (third refresh).
\<close>

theorem C6_display_throttle_witness:
  "buffers_consistent live_pipeline \<and> display_progress live_pipeline \<and>
   display_update_time live_pipeline = 5 \<and>
   initialise no_resample (1, 1) 4 [] 1 (live_pipeline, []) = Ok (live_world 1) \<and>
   refreshes (snd (live_world 1)) = 1 \<and> display_timer (fst (live_world 1)) = 1 \<and>
   update xyz_as_rgb (0, 0) ((1, 2, 3), (0, 1, 0)) 0 3 3 (live_world 1) = Ok (live_world 2) \<and>
   \<not> (5 :: real) < 3 - 1 \<and>
   refreshes (snd (live_world 2)) = 1 \<and> display_timer (fst (live_world 2)) = 1 \<and>
   update xyz_as_rgb (0, 0) ((1, 2, 3), (0, 1, 0)) 0 7 8 (live_world 2) = Ok (live_world 3) \<and>
   (5 :: real) < 7 - 1 \<and>
   refreshes (snd (live_world 3)) = 2 \<and> display_timer (fst (live_world 3)) = 8 \<and>
   finalise xyz_as_rgb (live_world 3) = Ok (live_world 4) \<and>
   refreshes (snd (live_world 4)) = 3"
proof -
  note p = live_pipeline_facts
  note st = live_world_steps
  note se = live_world_settings
  have i: "initialise no_resample (1, 1) 4 [] 1 (live_pipeline, []) = Ok (live_world 1)"
    unfolding st(2) st(1) by (rule returns_state_of [OF live_world_returns(1) [unfolded st(1)]])
  have u1: "update xyz_as_rgb (0, 0) ((1, 2, 3), (0, 1, 0)) 0 3 3 (live_world 1) = Ok (live_world 2)"
    unfolding st(3) by (rule returns_state_of [OF live_world_returns(2)])
  have u2: "update xyz_as_rgb (0, 0) ((1, 2, 3), (0, 1, 0)) 0 7 8 (live_world 2) = Ok (live_world 3)"
    unfolding st(4) by (rule returns_state_of [OF live_world_returns(3)])
  have f: "finalise xyz_as_rgb (live_world 3) = Ok (live_world 4)"
    unfolding st(5) by (rule returns_state_of [OF live_world_returns(4)])
  have u1p: "update xyz_as_rgb (0, 0) ((1, 2, 3), (0, 1, 0)) 0 3 3 (fst (live_world 1), snd (live_world 1)) =
      Ok (fst (live_world 2), snd (live_world 2))" using u1 by simp
  have u2p: "update xyz_as_rgb (0, 0) ((1, 2, 3), (0, 1, 0)) 0 7 8 (fst (live_world 2), snd (live_world 2)) =
      Ok (fst (live_world 3), snd (live_world 3))" using u2 by simp
  have fp: "finalise xyz_as_rgb (fst (live_world 3), snd (live_world 3)) =
      Ok (fst (live_world 4), snd (live_world 4))" using f by simp
  note c_init = C6_display_throttle [where self = live_pipeline and resample_ciexyz = no_resample
      and p = "(1, 1)" and n = 4 and slices = "[]" and later = 1 and plt = "[]",
      THEN conjunct1, rule_format]
  note c_update = C6_display_throttle [THEN conjunct2, THEN conjunct1, rule_format]
  note c_final = C6_display_throttle [THEN conjunct2, THEN conjunct2, THEN conjunct2, THEN conjunct1,
      rule_format]
  from c_init [OF p(1)] i p(2)
  have 1: "refreshes (snd (live_world 1)) = 1" "display_timer (fst (live_world 1)) = 1"
    by auto
  from c_update [OF u1p] 1 se(1,2)
  have 2: "refreshes (snd (live_world 2)) = 1" "display_timer (fst (live_world 2)) = 1"
    by auto
  from c_update [OF u2p] 2 se(3,4)
  have 3: "refreshes (snd (live_world 3)) = 2" "display_timer (fst (live_world 3)) = 8"
    by auto
  from c_final [OF fp] 3 se(5)
  have 4: "refreshes (snd (live_world 4)) = 3"
    by auto
  from p i 1 u1 2 u2 3 f 4 show ?thesis by simp
qed

end
